theory Spec2Isabelle
  imports Main
begin

section \<open>Values of the Terraform plugin framework\<close>

text \<open>
  A framework attribute value is null, unknown or known. \<open>IsNull\<close> is true of the null
  value only, and \<open>ValueString\<close> / \<open>ValueBool\<close> give the zero value of the Go type
  unless the value is known.
\<close>

datatype tf_string = StringNull | StringUnknown | StringValue string

datatype tf_bool = BoolNull | BoolUnknown | BoolValue bool

fun String_IsNull :: "tf_string \<Rightarrow> bool" where
  "String_IsNull StringNull = True"
| "String_IsNull _ = False"

fun ValueString :: "tf_string \<Rightarrow> string" where
  "ValueString (StringValue s) = s"
| "ValueString _ = []"

fun Bool_IsNull :: "tf_bool \<Rightarrow> bool" where
  "Bool_IsNull BoolNull = True"
| "Bool_IsNull _ = False"

fun ValueBool :: "tf_bool \<Rightarrow> bool" where
  "ValueBool (BoolValue b) = b"
| "ValueBool _ = False"

text \<open>Diagnostics: the source only ever adds errors, the framework may add warnings.\<close>

datatype severity = SeverityError | SeverityWarning

datatype diagnostic = Diagnostic severity string string

fun is_error :: "diagnostic \<Rightarrow> bool" where
  "is_error (Diagnostic SeverityError summary detail) = True"
| "is_error (Diagnostic SeverityWarning summary detail) = False"

definition HasError :: "diagnostic list \<Rightarrow> bool" where
  "HasError ds = list_ex is_error ds"

definition AddError :: "diagnostic list \<Rightarrow> string \<Rightarrow> string \<Rightarrow> diagnostic list" where
  "AddError ds summary detail = ds @ [Diagnostic SeverityError summary detail]"

text \<open>
  A request carries the plan (or the prior state, for Read); \<open>Get\<close> decodes it into the
  resource model and gives the diagnostics of the decoding. The response holds the
  diagnostics and the state the operation saved, \<open>None\<close> when it saved none.
\<close>

record 'm request =
  Get_diags :: "diagnostic list"
  Get_data :: 'm

record 'm response =
  Diagnostics :: "diagnostic list"
  State :: "'m option"

text \<open>
  A resource method either returns, leaving a response, or panics on a nil pointer
  dereference, leaving none.
\<close>

datatype 'm outcome = Returned "'m response" | Panicked

text \<open>
  How a block of statements inside a method ends: control falls through to the next
  statement, the method returns with the diagnostics accumulated so far, or it panics.
\<close>

datatype flow = Continue | Returns "diagnostic list" | Panics

section \<open>The AWS SDK as seen by the provider\<close>

text \<open>Pointer fields of the SDK's shapes are options: \<open>None\<close> is the nil pointer.\<close>

record DBClusterMember =
  DBInstanceIdentifier :: "string option"
  IsClusterWriter :: "bool option"

record DBCluster =
  DBClusterMembers :: "DBClusterMember list"
  Status :: "string option"

text \<open>
  The fields of \<open>ModifyDBClusterInput\<close> the provider sets; \<open>EnableLogTypes\<close> is the
  field of the \<open>CloudwatchLogsExportConfiguration\<close>, \<open>None\<close> when that is nil.
\<close>

record ModifyDBClusterInput =
  Input_DBClusterIdentifier :: string
  Input_DBClusterParameterGroupName :: "string option"
  Input_EnableLogTypes :: "string list option"
  Input_ApplyImmediately :: "bool option"

text \<open>
  Every call the provider makes on the outside world, with the input fields it sets, in
  the order made. The waits carry their budget in minutes, the sleep its length in
  seconds.
\<close>

datatype call =
    Call_DescribeDBClusters string
  | Call_FailoverDBCluster string string
  | Call_RebootDBInstance string "bool option"
  | Call_ModifyDBCluster ModifyDBClusterInput
  | Call_DBClusterAvailableWaiter_Wait string nat
  | Call_DBInstanceAvailableWaiter_Wait string nat
  | Call_Sleep nat

type_synonym err = string

text \<open>
  A client answers each call from the history of the calls made before it, so that the
  answer to the same request may change over time. An answer \<open>Some e\<close> (or \<open>Inl e\<close>)
  is the Go error \<open>e\<close>, by its message. The rds and the neptune client have the methods
  used here under the same names, so one record stands for both.
\<close>

record client =
  DescribeDBClusters :: "call list \<Rightarrow> string \<Rightarrow> err + DBCluster list"
  FailoverDBCluster :: "call list \<Rightarrow> string \<Rightarrow> string \<Rightarrow> err option"
  RebootDBInstance :: "call list \<Rightarrow> string \<Rightarrow> bool option \<Rightarrow> err option"
  ModifyDBCluster :: "call list \<Rightarrow> ModifyDBClusterInput \<Rightarrow> err option"
  DBClusterAvailableWaiter_Wait :: "call list \<Rightarrow> string \<Rightarrow> nat \<Rightarrow> err option"
  DBInstanceAvailableWaiter_Wait :: "call list \<Rightarrow> string \<Rightarrow> nat \<Rightarrow> err option"

subsection \<open>The clock\<close>

text \<open>
  \<open>time.Now().Format(time.RFC3339)\<close>: the layout \<open>2006-01-02T15:04:05Z07:00\<close>, digits
  zero padded, the zone written \<open>Z\<close> for UTC and as a signed offset otherwise.
\<close>

record go_time =
  year :: nat
  month :: nat
  day :: nat
  hour :: nat
  minute :: nat
  second :: nat
  zone_offset_minutes :: int

definition digit :: "nat \<Rightarrow> char" where
  "digit n = ''0123456789'' ! (n mod 10)"

definition pad2 :: "nat \<Rightarrow> string" where
  "pad2 n = [digit (n div 10), digit n]"

definition pad4 :: "nat \<Rightarrow> string" where
  "pad4 n = [digit (n div 1000), digit (n div 100), digit (n div 10), digit n]"

definition zone_RFC3339 :: "int \<Rightarrow> string" where
  "zone_RFC3339 z =
     (if z = 0 then ''Z''
      else (if z < 0 then ''-'' else ''+'') @ pad2 (nat \<bar>z\<bar> div 60) @ '':'' @ pad2 (nat \<bar>z\<bar> mod 60))"

definition Format_RFC3339 :: "go_time \<Rightarrow> string" where
  "Format_RFC3339 t =
     pad4 (year t) @ ''-'' @ pad2 (month t) @ ''-'' @ pad2 (day t) @ ''T'' @
     pad2 (hour t) @ '':'' @ pad2 (minute t) @ '':'' @ pad2 (second t) @
     zone_RFC3339 (zone_offset_minutes t)"

subsection \<open>The environment of a resource\<close>

text \<open>
  \<open>r_client\<close> is the client the provider configured (\<open>r.client\<close>, taken as set
  by Configure);
  \<open>LoadDefaultConfig\<close> gives, for a region, the client built from the configuration
  loaded for it, or the error of loading; \<open>time_Now\<close> reads the clock after the calls
  made so far.
\<close>

record env =
  r_client :: client
  LoadDefaultConfig :: "string \<Rightarrow> err + client"
  time_Now :: "call list \<Rightarrow> go_time"

text \<open>
  The block every method opens with (aurora\_reboot\_resource.go 112-125 and its copies):
  a region that is not null selects a client for that region, or the method returns
  with an error.
\<close>

definition region_client :: "env \<Rightarrow> tf_string \<Rightarrow> diagnostic list \<Rightarrow> diagnostic list + client" where
  "region_client e region ds =
     (if \<not> String_IsNull region then
        (case LoadDefaultConfig e (ValueString region) of
           Inl err \<Rightarrow>
             Inl (AddError ds ''Unable to load AWS SDK config''
                    (''Unable to load AWS SDK config with region '' @ ValueString region @ '': '' @ err))
         | Inr c \<Rightarrow> Inr c)
      else Inr (r_client e))"

section \<open>The Aurora reboot resource\<close>

record AuroraRebootResourceModel =
  ClusterIdentifier :: tf_string
  Region :: tf_string
  ForceFailover :: tf_bool
  LastRebootTime :: tf_string
  ID :: tf_string

text \<open>
  aurora\_reboot\_resource.go 149-157: the scan for a reader stops at the first member
  that is not the writer. The result is \<open>(hasReaderInstance, readerInstanceID)\<close>, or
  \<open>None\<close> when \<open>*member.IsClusterWriter\<close> dereferences nil.
\<close>

fun find_reader :: "DBClusterMember list \<Rightarrow> (bool \<times> string option) option" where
  "find_reader [] = Some (False, None)"
| "find_reader (member # rest) =
     (case IsClusterWriter member of
        None \<Rightarrow> None
      | Some w \<Rightarrow> if \<not> w then Some (True, DBInstanceIdentifier member) else find_reader rest)"

text \<open>Line 163: the condition under which the failover branch is taken.\<close>

definition use_failover :: "nat \<Rightarrow> bool \<Rightarrow> tf_bool \<Rightarrow> bool" where
  "use_failover instanceCount hasReaderInstance ff =
     (instanceCount \<ge> 2 \<and> hasReaderInstance \<and> \<not> Bool_IsNull ff \<and> ValueBool ff)"

text \<open>
  Lines 164-181: one failover call naming the reader. The debug log dereferences
  \<open>readerInstanceID\<close> before the call.
\<close>

definition failover_cluster ::
  "client \<Rightarrow> string \<Rightarrow> string option \<Rightarrow> diagnostic list \<Rightarrow> call list \<Rightarrow> call list \<times> flow" where
  "failover_cluster c cid readerInstanceID ds tr =
     (case readerInstanceID of
        None \<Rightarrow> (tr, Panics)
      | Some target \<Rightarrow>
          (case FailoverDBCluster c tr cid target of
             Some err \<Rightarrow>
               (tr @ [Call_FailoverDBCluster cid target],
                Returns (AddError ds ''Error failing over Aurora cluster''
                           (''Could not failover Aurora cluster: '' @ err)))
           | None \<Rightarrow> (tr @ [Call_FailoverDBCluster cid target], Continue)))"

text \<open>Lines 195-198: the ForceFailover field of a per-instance reboot input.\<close>

definition reboot_ForceFailover :: "nat \<Rightarrow> tf_bool \<Rightarrow> bool option" where
  "reboot_ForceFailover instanceCount ff =
     (if instanceCount \<ge> 2 \<and> \<not> Bool_IsNull ff then Some (ValueBool ff) else None)"

text \<open>
  Lines 190-209: the loop over the members. The debug log dereferences
  \<open>member.DBInstanceIdentifier\<close> before the call; an error of the call returns from
  the method.
\<close>

fun reboot_each ::
  "client \<Rightarrow> nat \<Rightarrow> tf_bool \<Rightarrow> diagnostic list \<Rightarrow> DBClusterMember list \<Rightarrow> call list \<Rightarrow> call list \<times> flow" where
  "reboot_each c instanceCount ff ds [] tr = (tr, Continue)"
| "reboot_each c instanceCount ff ds (member # rest) tr =
     (case DBInstanceIdentifier member of
        None \<Rightarrow> (tr, Panics)
      | Some iid \<Rightarrow>
          (let input = Call_RebootDBInstance iid (reboot_ForceFailover instanceCount ff) in
           case RebootDBInstance c tr iid (reboot_ForceFailover instanceCount ff) of
             Some err \<Rightarrow>
               (tr @ [input],
                Returns (AddError ds ''Error rebooting Aurora instance''
                           (''Could not reboot Aurora instance '' @ iid @ '': '' @ err)))
           | None \<Rightarrow> reboot_each c instanceCount ff ds rest (tr @ [input])))"

text \<open>Lines 212-223: one wait on the cluster, with a budget of 30 minutes.\<close>

definition wait_cluster ::
  "client \<Rightarrow> string \<Rightarrow> diagnostic list \<Rightarrow> call list \<Rightarrow> call list \<times> flow" where
  "wait_cluster c cid ds tr =
     (case DBClusterAvailableWaiter_Wait c tr cid 30 of
        Some err \<Rightarrow>
          (tr @ [Call_DBClusterAvailableWaiter_Wait cid 30],
           Returns (AddError ds ''Error waiting for Aurora cluster to become available''
                      (''Could not confirm Aurora cluster availability: '' @ err)))
      | None \<Rightarrow> (tr @ [Call_DBClusterAvailableWaiter_Wait cid 30], Continue))"

text \<open>
  Lines 127-223 of Create, which lines 297-393 of Update repeat word for word (the log
  levels apart): describe the cluster, choose between the failover and the reboot of
  every member, then wait for the cluster.
\<close>

definition AuroraReboot_reboot ::
  "client \<Rightarrow> AuroraRebootResourceModel \<Rightarrow> diagnostic list \<Rightarrow> call list \<Rightarrow> call list \<times> flow" where
  "AuroraReboot_reboot c data ds tr =
     (let cid = ValueString (ClusterIdentifier data);
          tr1 = tr @ [Call_DescribeDBClusters cid]
      in case DescribeDBClusters c tr cid of
           Inl err \<Rightarrow>
             (tr1, Returns (AddError ds ''Error describing Aurora cluster''
                              (''Could not describe Aurora cluster: '' @ err)))
         | Inr [] \<Rightarrow>
             (tr1, Returns (AddError ds ''Aurora cluster not found''
                              (''No Aurora cluster found with identifier: '' @ cid)))
         | Inr (cluster # others) \<Rightarrow>
             (let instanceCount = length (DBClusterMembers cluster) in
              case find_reader (DBClusterMembers cluster) of
                None \<Rightarrow> (tr1, Panics)
              | Some (hasReaderInstance, readerInstanceID) \<Rightarrow>
                  (case (if use_failover instanceCount hasReaderInstance (ForceFailover data)
                         then failover_cluster c cid readerInstanceID ds tr1
                         else reboot_each c instanceCount (ForceFailover data) ds
                                (DBClusterMembers cluster) tr1) of
                     (tr2, Continue) \<Rightarrow> wait_cluster c cid ds tr2
                   | (tr2, stopped) \<Rightarrow> (tr2, stopped))))"

text \<open>
  How a method ends once its calls are made: it saves the model it was given, with the
  computed values set, or leaves the diagnostics it returned with. \<open>State.Set\<close> of
  the framework is taken to store the model and to add no diagnostic.
\<close>

definition finish ::
  "diagnostic list \<Rightarrow> (call list \<Rightarrow> 'm) \<Rightarrow> call list \<times> flow \<Rightarrow> call list \<times> 'm outcome" where
  "finish ds save r =
     (case r of
        (tr, Continue) \<Rightarrow> (tr, Returned \<lparr>Diagnostics = ds, State = Some (save tr)\<rparr>)
      | (tr, Returns ds') \<Rightarrow> (tr, Returned \<lparr>Diagnostics = ds', State = None\<rparr>)
      | (tr, Panics) \<Rightarrow> (tr, Panicked))"

text \<open>Lines 103-232.\<close>

definition AuroraReboot_Create ::
  "env \<Rightarrow> AuroraRebootResourceModel request \<Rightarrow> call list \<Rightarrow>
   call list \<times> AuroraRebootResourceModel outcome" where
  "AuroraReboot_Create e req tr =
     (let ds = Get_diags req; data = Get_data req in
      if HasError ds then (tr, Returned \<lparr>Diagnostics = ds, State = None\<rparr>)
      else case region_client e (Region data) ds of
             Inl ds' \<Rightarrow> (tr, Returned \<lparr>Diagnostics = ds', State = None\<rparr>)
           | Inr c \<Rightarrow>
               finish ds
                 (\<lambda>tr'. data\<lparr>LastRebootTime := StringValue (Format_RFC3339 (time_Now e tr')),
                              ID := StringValue (ValueString (ClusterIdentifier data))\<rparr>)
                 (AuroraReboot_reboot c data ds tr))"

text \<open>Lines 273-401: as Create, but the id is left as planned.\<close>

definition AuroraReboot_Update ::
  "env \<Rightarrow> AuroraRebootResourceModel request \<Rightarrow> call list \<Rightarrow>
   call list \<times> AuroraRebootResourceModel outcome" where
  "AuroraReboot_Update e req tr =
     (let ds = Get_diags req; data = Get_data req in
      if HasError ds then (tr, Returned \<lparr>Diagnostics = ds, State = None\<rparr>)
      else case region_client e (Region data) ds of
             Inl ds' \<Rightarrow> (tr, Returned \<lparr>Diagnostics = ds', State = None\<rparr>)
           | Inr c \<Rightarrow>
               finish ds
                 (\<lambda>tr'. data\<lparr>LastRebootTime := StringValue (Format_RFC3339 (time_Now e tr'))\<rparr>)
                 (AuroraReboot_reboot c data ds tr))"

text \<open>
  Lines 234-271: Read makes one describe call, looks at its error only, and saves the
  state it was given.
\<close>

definition AuroraReboot_Read ::
  "env \<Rightarrow> AuroraRebootResourceModel request \<Rightarrow> call list \<Rightarrow>
   call list \<times> AuroraRebootResourceModel outcome" where
  "AuroraReboot_Read e req tr =
     (let ds = Get_diags req; data = Get_data req in
      if HasError ds then (tr, Returned \<lparr>Diagnostics = ds, State = None\<rparr>)
      else case region_client e (Region data) ds of
             Inl ds' \<Rightarrow> (tr, Returned \<lparr>Diagnostics = ds', State = None\<rparr>)
           | Inr c \<Rightarrow>
               (let cid = ValueString (ClusterIdentifier data) in
                case DescribeDBClusters c tr cid of
                  Inl err \<Rightarrow>
                    (tr @ [Call_DescribeDBClusters cid],
                     Returned \<lparr>Diagnostics = AddError ds ''Error reading Aurora cluster''
                                               (''Could not read Aurora cluster: '' @ err),
                               State = None\<rparr>)
                | Inr clusters \<Rightarrow>
                    (tr @ [Call_DescribeDBClusters cid],
                     Returned \<lparr>Diagnostics = ds, State = Some data\<rparr>)))"

section \<open>The Neptune reboot resource\<close>

text \<open>neptune\_reboot\_resource.go.\<close>

record NeptuneRebootResourceModel =
  ClusterIdentifier_NR :: tf_string
  Region_NR :: tf_string
  LastRebootTime_NR :: tf_string
  ID_NR :: tf_string

text \<open>\<open>aws.ToString\<close>: the empty string for a nil pointer.\<close>

fun aws_ToString :: "string option \<Rightarrow> string" where
  "aws_ToString None = []"
| "aws_ToString (Some s) = s"

text \<open>
  neptune\_reboot\_resource.go 148-168 (and 284-302): one reboot call per member, in the
  order of the member list, with no ForceFailover field; the first error returns.
\<close>

fun reboot_instances ::
  "client \<Rightarrow> diagnostic list \<Rightarrow> DBClusterMember list \<Rightarrow> call list \<Rightarrow> call list \<times> flow" where
  "reboot_instances c ds [] tr = (tr, Continue)"
| "reboot_instances c ds (member # rest) tr =
     (let instanceId = aws_ToString (DBInstanceIdentifier member) in
      case RebootDBInstance c tr instanceId None of
        Some err \<Rightarrow>
          (tr @ [Call_RebootDBInstance instanceId None],
           Returns (AddError ds ''Error rebooting Neptune instance''
                      (''Could not reboot Neptune instance '' @ instanceId @ '': '' @ err)))
      | None \<Rightarrow> reboot_instances c ds rest (tr @ [Call_RebootDBInstance instanceId None]))"

text \<open>
  Lines 170-189 (and 304-320): one wait per member, in the order of the member list,
  each with a budget of 30 minutes; the first error returns.
\<close>

fun wait_instances ::
  "client \<Rightarrow> diagnostic list \<Rightarrow> DBClusterMember list \<Rightarrow> call list \<Rightarrow> call list \<times> flow" where
  "wait_instances c ds [] tr = (tr, Continue)"
| "wait_instances c ds (member # rest) tr =
     (let instanceId = aws_ToString (DBInstanceIdentifier member) in
      case DBInstanceAvailableWaiter_Wait c tr instanceId 30 of
        Some err \<Rightarrow>
          (tr @ [Call_DBInstanceAvailableWaiter_Wait instanceId 30],
           Returns (AddError ds ''Error waiting for Neptune instance to become available''
                      (''Could not confirm Neptune instance '' @ instanceId @ '' availability: '' @ err)))
      | None \<Rightarrow> wait_instances c ds rest (tr @ [Call_DBInstanceAvailableWaiter_Wait instanceId 30]))"

text \<open>Lines 148-189: the reboots, then the waits.\<close>

definition reboot_then_wait ::
  "client \<Rightarrow> diagnostic list \<Rightarrow> DBClusterMember list \<Rightarrow> call list \<Rightarrow> call list \<times> flow" where
  "reboot_then_wait c ds instances tr =
     (case reboot_instances c ds instances tr of
        (tr2, Continue) \<Rightarrow> wait_instances c ds instances tr2
      | (tr2, stopped) \<Rightarrow> (tr2, stopped))"

text \<open>Lines 122-189 of Create: a cluster without members is refused.\<close>

definition NeptuneReboot_Create_reboot ::
  "client \<Rightarrow> NeptuneRebootResourceModel \<Rightarrow> diagnostic list \<Rightarrow> call list \<Rightarrow> call list \<times> flow" where
  "NeptuneReboot_Create_reboot c data ds tr =
     (let cid = ValueString (ClusterIdentifier_NR data);
          tr1 = tr @ [Call_DescribeDBClusters cid]
      in case DescribeDBClusters c tr cid of
           Inl err \<Rightarrow>
             (tr1, Returns (AddError ds ''Error describing Neptune cluster''
                              (''Could not describe Neptune cluster: '' @ err)))
         | Inr [] \<Rightarrow>
             (tr1, Returns (AddError ds ''Neptune cluster not found''
                              (''Neptune cluster '' @ cid @ '' not found'')))
         | Inr (cluster # others) \<Rightarrow>
             (let instances = DBClusterMembers cluster in
              if length instances = 0 then
                (tr1, Returns (AddError ds ''No instances in cluster''
                                 (''Neptune cluster '' @ cid @ '' has no instances to reboot'')))
              else reboot_then_wait c ds instances tr1))"

text \<open>Lines 265-320 of Update: the same without the check of the member list.\<close>

definition NeptuneReboot_Update_reboot ::
  "client \<Rightarrow> NeptuneRebootResourceModel \<Rightarrow> diagnostic list \<Rightarrow> call list \<Rightarrow> call list \<times> flow" where
  "NeptuneReboot_Update_reboot c data ds tr =
     (let cid = ValueString (ClusterIdentifier_NR data);
          tr1 = tr @ [Call_DescribeDBClusters cid]
      in case DescribeDBClusters c tr cid of
           Inl err \<Rightarrow>
             (tr1, Returns (AddError ds ''Error describing Neptune cluster''
                              (''Could not describe Neptune cluster: '' @ err)))
         | Inr [] \<Rightarrow>
             (tr1, Returns (AddError ds ''Neptune cluster not found''
                              (''Neptune cluster '' @ cid @ '' not found'')))
         | Inr (cluster # others) \<Rightarrow> reboot_then_wait c ds (DBClusterMembers cluster) tr1)"

text \<open>Lines 98-200.\<close>

definition NeptuneReboot_Create ::
  "env \<Rightarrow> NeptuneRebootResourceModel request \<Rightarrow> call list \<Rightarrow>
   call list \<times> NeptuneRebootResourceModel outcome" where
  "NeptuneReboot_Create e req tr =
     (let ds = Get_diags req; data = Get_data req in
      if HasError ds then (tr, Returned \<lparr>Diagnostics = ds, State = None\<rparr>)
      else case region_client e (Region_NR data) ds of
             Inl ds' \<Rightarrow> (tr, Returned \<lparr>Diagnostics = ds', State = None\<rparr>)
           | Inr c \<Rightarrow>
               finish ds
                 (\<lambda>tr'. data\<lparr>LastRebootTime_NR := StringValue (Format_RFC3339 (time_Now e tr')),
                              ID_NR := StringValue (ValueString (ClusterIdentifier_NR data))\<rparr>)
                 (NeptuneReboot_Create_reboot c data ds tr))"

text \<open>Lines 241-328.\<close>

definition NeptuneReboot_Update ::
  "env \<Rightarrow> NeptuneRebootResourceModel request \<Rightarrow> call list \<Rightarrow>
   call list \<times> NeptuneRebootResourceModel outcome" where
  "NeptuneReboot_Update e req tr =
     (let ds = Get_diags req; data = Get_data req in
      if HasError ds then (tr, Returned \<lparr>Diagnostics = ds, State = None\<rparr>)
      else case region_client e (Region_NR data) ds of
             Inl ds' \<Rightarrow> (tr, Returned \<lparr>Diagnostics = ds', State = None\<rparr>)
           | Inr c \<Rightarrow>
               finish ds
                 (\<lambda>tr'. data\<lparr>LastRebootTime_NR := StringValue (Format_RFC3339 (time_Now e tr'))\<rparr>)
                 (NeptuneReboot_Update_reboot c data ds tr))"

text \<open>Lines 202-239: Read, as for Aurora.\<close>

definition NeptuneReboot_Read ::
  "env \<Rightarrow> NeptuneRebootResourceModel request \<Rightarrow> call list \<Rightarrow>
   call list \<times> NeptuneRebootResourceModel outcome" where
  "NeptuneReboot_Read e req tr =
     (let ds = Get_diags req; data = Get_data req in
      if HasError ds then (tr, Returned \<lparr>Diagnostics = ds, State = None\<rparr>)
      else case region_client e (Region_NR data) ds of
             Inl ds' \<Rightarrow> (tr, Returned \<lparr>Diagnostics = ds', State = None\<rparr>)
           | Inr c \<Rightarrow>
               (let cid = ValueString (ClusterIdentifier_NR data) in
                case DescribeDBClusters c tr cid of
                  Inl err \<Rightarrow>
                    (tr @ [Call_DescribeDBClusters cid],
                     Returned \<lparr>Diagnostics = AddError ds ''Error reading Neptune cluster''
                                               (''Could not read Neptune cluster: '' @ err),
                               State = None\<rparr>)
                | Inr clusters \<Rightarrow>
                    (tr @ [Call_DescribeDBClusters cid],
                     Returned \<lparr>Diagnostics = ds, State = Some data\<rparr>)))"

section \<open>The Neptune modify resource\<close>

text \<open>The resource of the source file part\_000, lines 342-708.\<close>

datatype tf_list = ListNull | ListUnknown | ListValue "tf_string list"

fun List_IsNull :: "tf_list \<Rightarrow> bool" where
  "List_IsNull ListNull = True"
| "List_IsNull _ = False"

record NeptuneModifyResourceModel =
  ClusterIdentifier_NM :: tf_string
  Region_NM :: tf_string
  ClusterParameterGroupName :: tf_string
  CloudWatchLogsExports :: tf_list
  ApplyImmediately :: tf_bool
  LastModifiedTime :: tf_string
  ID_NM :: tf_string

text \<open>
  Line 541: whether the describe result shows the cluster available; \<open>None\<close> when
  \<open>*result.DBClusters[0].Status\<close> dereferences nil. An empty result is not available.
\<close>

fun cluster_available :: "DBCluster list \<Rightarrow> bool option" where
  "cluster_available [] = Some False"
| "cluster_available (cluster # others) =
     (case Status cluster of None \<Rightarrow> None | Some s \<Rightarrow> Some (s = ''available''))"

text \<open>Line 529.\<close>

definition maxAttempts :: nat where
  "maxAttempts = 60"

text \<open>
  Lines 530-552 (and 669-691): the polling loop, from attempt \<open>i\<close>. Leaving the loop by
  \<open>break\<close> or by its condition falls through to the statements after it.
\<close>

function poll_available ::
  "client \<Rightarrow> string \<Rightarrow> diagnostic list \<Rightarrow> nat \<Rightarrow> nat \<Rightarrow> call list \<Rightarrow> call list \<times> flow" where
  "poll_available c cid ds n i tr =
     (if i < n then
        (case DescribeDBClusters c tr cid of
           Inl err \<Rightarrow>
             (tr @ [Call_DescribeDBClusters cid],
              Returns (AddError ds ''Error describing Neptune cluster''
                         (''Could not describe Neptune cluster: '' @ err)))
         | Inr result \<Rightarrow>
             (case cluster_available result of
                None \<Rightarrow> (tr @ [Call_DescribeDBClusters cid], Panics)
              | Some True \<Rightarrow> (tr @ [Call_DescribeDBClusters cid], Continue)
              | Some False \<Rightarrow>
                  if i = n - 1 then
                    (tr @ [Call_DescribeDBClusters cid],
                     Returns (AddError ds ''Timeout waiting for Neptune cluster''
                                ''Neptune cluster did not become available within 30 minutes''))
                  else poll_available c cid ds n (i + 1)
                         (tr @ [Call_DescribeDBClusters cid, Call_Sleep 30])))
      else (tr, Continue))"
  by pat_completeness auto
termination
  by (relation "measure (\<lambda>(c, cid, ds, n, i, tr). n - i)") auto

text \<open>
  \<open>ElementsAs\<close> of the framework, converting the list to Go strings, is not part of
  this repository: it is a parameter, giving the diagnostics and the strings.
  Lines 497-507 (and 636-646): the diagnostics after the conversion of the log exports,
  made only when the list is not null.
\<close>

definition logs_diags ::
  "(tf_list \<Rightarrow> diagnostic list \<times> string list) \<Rightarrow> NeptuneModifyResourceModel \<Rightarrow>
   diagnostic list \<Rightarrow> diagnostic list" where
  "logs_diags ElementsAs data ds =
     (if \<not> List_IsNull (CloudWatchLogsExports data)
      then ds @ fst (ElementsAs (CloudWatchLogsExports data)) else ds)"

text \<open>Lines 487-512 (and 626-651): the modify input, a field for each attribute that is not null.\<close>

definition modify_input ::
  "(tf_list \<Rightarrow> diagnostic list \<times> string list) \<Rightarrow> NeptuneModifyResourceModel \<Rightarrow>
   ModifyDBClusterInput" where
  "modify_input ElementsAs data =
     \<lparr>Input_DBClusterIdentifier = ValueString (ClusterIdentifier_NM data),
      Input_DBClusterParameterGroupName =
        (if \<not> String_IsNull (ClusterParameterGroupName data)
         then Some (ValueString (ClusterParameterGroupName data)) else None),
      Input_EnableLogTypes =
        (if \<not> List_IsNull (CloudWatchLogsExports data)
         then Some (snd (ElementsAs (CloudWatchLogsExports data))) else None),
      Input_ApplyImmediately =
        (if \<not> Bool_IsNull (ApplyImmediately data)
         then Some (ValueBool (ApplyImmediately data)) else None)\<rparr>"

text \<open>
  Lines 487-552 of Create, which lines 626-691 of Update repeat: build the modify input,
  returning if the conversion of the log exports left an error, modify the cluster,
  then poll. The third component is the diagnostics accumulated when the block ends.
\<close>

definition NeptuneModify_modify ::
  "(tf_list \<Rightarrow> diagnostic list \<times> string list) \<Rightarrow> client \<Rightarrow> NeptuneModifyResourceModel \<Rightarrow>
   diagnostic list \<Rightarrow> call list \<Rightarrow> call list \<times> flow \<times> diagnostic list" where
  "NeptuneModify_modify ElementsAs c data ds tr =
     (let cid = ValueString (ClusterIdentifier_NM data);
          ds1 = logs_diags ElementsAs data ds;
          input = modify_input ElementsAs data
      in if \<not> List_IsNull (CloudWatchLogsExports data) \<and> HasError ds1 then (tr, Returns ds1, ds1)
         else
           (case ModifyDBCluster c tr input of
              Some err \<Rightarrow>
                (tr @ [Call_ModifyDBCluster input],
                 Returns (AddError ds1 ''Error modifying Neptune cluster''
                            (''Could not modify Neptune cluster: '' @ err)), ds1)
            | None \<Rightarrow>
                (case poll_available c cid ds1 maxAttempts 0 (tr @ [Call_ModifyDBCluster input]) of
                   (tr2, fl) \<Rightarrow> (tr2, fl, ds1))))"

text \<open>Lines 463-561.\<close>

definition NeptuneModify_Create ::
  "(tf_list \<Rightarrow> diagnostic list \<times> string list) \<Rightarrow> env \<Rightarrow> NeptuneModifyResourceModel request \<Rightarrow>
   call list \<Rightarrow> call list \<times> NeptuneModifyResourceModel outcome" where
  "NeptuneModify_Create ElementsAs e req tr =
     (let ds = Get_diags req; data = Get_data req in
      if HasError ds then (tr, Returned \<lparr>Diagnostics = ds, State = None\<rparr>)
      else case region_client e (Region_NM data) ds of
             Inl ds' \<Rightarrow> (tr, Returned \<lparr>Diagnostics = ds', State = None\<rparr>)
           | Inr c \<Rightarrow>
               (case NeptuneModify_modify ElementsAs c data ds tr of
                  (tr2, fl, ds1) \<Rightarrow>
                    finish ds1
                      (\<lambda>tr'. data\<lparr>LastModifiedTime := StringValue (Format_RFC3339 (time_Now e tr')),
                                   ID_NM := StringValue (ValueString (ClusterIdentifier_NM data))\<rparr>)
                      (tr2, fl)))"

text \<open>Lines 602-699.\<close>

definition NeptuneModify_Update ::
  "(tf_list \<Rightarrow> diagnostic list \<times> string list) \<Rightarrow> env \<Rightarrow> NeptuneModifyResourceModel request \<Rightarrow>
   call list \<Rightarrow> call list \<times> NeptuneModifyResourceModel outcome" where
  "NeptuneModify_Update ElementsAs e req tr =
     (let ds = Get_diags req; data = Get_data req in
      if HasError ds then (tr, Returned \<lparr>Diagnostics = ds, State = None\<rparr>)
      else case region_client e (Region_NM data) ds of
             Inl ds' \<Rightarrow> (tr, Returned \<lparr>Diagnostics = ds', State = None\<rparr>)
           | Inr c \<Rightarrow>
               (case NeptuneModify_modify ElementsAs c data ds tr of
                  (tr2, fl, ds1) \<Rightarrow>
                    finish ds1
                      (\<lambda>tr'. data\<lparr>LastModifiedTime := StringValue (Format_RFC3339 (time_Now e tr'))\<rparr>)
                      (tr2, fl)))"

section \<open>The Aurora modify resource\<close>

text \<open>The resource of the source file part\_000, lines 1-340.\<close>

record AuroraModifyResourceModel =
  ClusterIdentifier_AM :: tf_string
  Region_AM :: tf_string
  ParameterGroupName :: tf_string
  CloudWatchLogsExports_AM :: tf_list
  ApplyImmediately_AM :: tf_bool
  LastModifiedTime_AM :: tf_string
  ID_AM :: tf_string

text \<open>
  Lines 147-172 of Create (and 272-297 of Update): the diagnostics after the
  conversion of the log exports, and the modify input, as for Neptune.
\<close>

definition logs_diags_AM ::
  "(tf_list \<Rightarrow> diagnostic list \<times> string list) \<Rightarrow> AuroraModifyResourceModel \<Rightarrow>
   diagnostic list \<Rightarrow> diagnostic list" where
  "logs_diags_AM ElementsAs data ds =
     (if \<not> List_IsNull (CloudWatchLogsExports_AM data)
      then ds @ fst (ElementsAs (CloudWatchLogsExports_AM data)) else ds)"

definition modify_input_AM ::
  "(tf_list \<Rightarrow> diagnostic list \<times> string list) \<Rightarrow> AuroraModifyResourceModel \<Rightarrow>
   ModifyDBClusterInput" where
  "modify_input_AM ElementsAs data =
     \<lparr>Input_DBClusterIdentifier = ValueString (ClusterIdentifier_AM data),
      Input_DBClusterParameterGroupName =
        (if \<not> String_IsNull (ParameterGroupName data)
         then Some (ValueString (ParameterGroupName data)) else None),
      Input_EnableLogTypes =
        (if \<not> List_IsNull (CloudWatchLogsExports_AM data)
         then Some (snd (ElementsAs (CloudWatchLogsExports_AM data))) else None),
      Input_ApplyImmediately =
        (if \<not> Bool_IsNull (ApplyImmediately_AM data)
         then Some (ValueBool (ApplyImmediately_AM data)) else None)\<rparr>"

text \<open>
  Lines 147-199 of Create, which lines 272-324 of Update repeat: build the modify input,
  modify the cluster, then wait for the cluster with the native waiter, with a budget
  of 30 minutes and the diagnostic of the Aurora reboot.
\<close>

definition AuroraModify_modify ::
  "(tf_list \<Rightarrow> diagnostic list \<times> string list) \<Rightarrow> client \<Rightarrow> AuroraModifyResourceModel \<Rightarrow>
   diagnostic list \<Rightarrow> call list \<Rightarrow> call list \<times> flow \<times> diagnostic list" where
  "AuroraModify_modify ElementsAs c data ds tr =
     (let cid = ValueString (ClusterIdentifier_AM data);
          ds1 = logs_diags_AM ElementsAs data ds;
          input = modify_input_AM ElementsAs data
      in if \<not> List_IsNull (CloudWatchLogsExports_AM data) \<and> HasError ds1 then (tr, Returns ds1, ds1)
         else
           (case ModifyDBCluster c tr input of
              Some err \<Rightarrow>
                (tr @ [Call_ModifyDBCluster input],
                 Returns (AddError ds1 ''Error modifying Aurora cluster''
                            (''Could not modify Aurora cluster: '' @ err)), ds1)
            | None \<Rightarrow>
                (case wait_cluster c cid ds1 (tr @ [Call_ModifyDBCluster input]) of
                   (tr2, fl) \<Rightarrow> (tr2, fl, ds1))))"

text \<open>Lines 123-207.\<close>

definition AuroraModify_Create ::
  "(tf_list \<Rightarrow> diagnostic list \<times> string list) \<Rightarrow> env \<Rightarrow> AuroraModifyResourceModel request \<Rightarrow>
   call list \<Rightarrow> call list \<times> AuroraModifyResourceModel outcome" where
  "AuroraModify_Create ElementsAs e req tr =
     (let ds = Get_diags req; data = Get_data req in
      if HasError ds then (tr, Returned \<lparr>Diagnostics = ds, State = None\<rparr>)
      else case region_client e (Region_AM data) ds of
             Inl ds' \<Rightarrow> (tr, Returned \<lparr>Diagnostics = ds', State = None\<rparr>)
           | Inr c \<Rightarrow>
               (case AuroraModify_modify ElementsAs c data ds tr of
                  (tr2, fl, ds1) \<Rightarrow>
                    finish ds1
                      (\<lambda>tr'. data\<lparr>LastModifiedTime_AM := StringValue (Format_RFC3339 (time_Now e tr')),
                                   ID_AM := StringValue (ValueString (ClusterIdentifier_AM data))\<rparr>)
                      (tr2, fl)))"

text \<open>Lines 248-331.\<close>

definition AuroraModify_Update ::
  "(tf_list \<Rightarrow> diagnostic list \<times> string list) \<Rightarrow> env \<Rightarrow> AuroraModifyResourceModel request \<Rightarrow>
   call list \<Rightarrow> call list \<times> AuroraModifyResourceModel outcome" where
  "AuroraModify_Update ElementsAs e req tr =
     (let ds = Get_diags req; data = Get_data req in
      if HasError ds then (tr, Returned \<lparr>Diagnostics = ds, State = None\<rparr>)
      else case region_client e (Region_AM data) ds of
             Inl ds' \<Rightarrow> (tr, Returned \<lparr>Diagnostics = ds', State = None\<rparr>)
           | Inr c \<Rightarrow>
               (case AuroraModify_modify ElementsAs c data ds tr of
                  (tr2, fl, ds1) \<Rightarrow>
                    finish ds1
                      (\<lambda>tr'. data\<lparr>LastModifiedTime_AM := StringValue (Format_RFC3339 (time_Now e tr'))\<rparr>)
                      (tr2, fl)))"

section \<open>Vocabulary of the properties\<close>

text \<open>
  The calls an operation added to the history, and among them the mutations and the
  native waits.
\<close>

definition calls_after :: "call list \<Rightarrow> call list \<Rightarrow> call list" where
  "calls_after tr tr' = drop (length tr) tr'"

fun is_mutation :: "call \<Rightarrow> bool" where
  "is_mutation (Call_FailoverDBCluster cid target) = True"
| "is_mutation (Call_RebootDBInstance iid fo) = True"
| "is_mutation (Call_ModifyDBCluster input) = True"
| "is_mutation other = False"

definition mutations :: "call list \<Rightarrow> call list" where
  "mutations tr = filter is_mutation tr"

fun is_wait :: "call \<Rightarrow> bool" where
  "is_wait (Call_DBClusterAvailableWaiter_Wait cid budget) = True"
| "is_wait (Call_DBInstanceAvailableWaiter_Wait iid budget) = True"
| "is_wait other = False"

definition waits :: "call list \<Rightarrow> call list" where
  "waits tr = filter is_wait tr"


fun watched :: "call list \<Rightarrow> string list" where
  "watched [] = []"
| "watched (Call_DBInstanceAvailableWaiter_Wait iid budget # tr) = iid # watched tr"
| "watched (other # tr) = watched tr"

text \<open>The first reader of a member list, and the calls the fan-outs make for a member.\<close>

definition first_reader :: "DBClusterMember list \<Rightarrow> DBClusterMember option" where
  "first_reader members = find (\<lambda>m. IsClusterWriter m = Some False) members"

definition instance_id :: "DBClusterMember \<Rightarrow> string" where
  "instance_id member = aws_ToString (DBInstanceIdentifier member)"

definition aurora_reboot_call :: "nat \<Rightarrow> tf_bool \<Rightarrow> DBClusterMember \<Rightarrow> call" where
  "aurora_reboot_call instanceCount ff member =
     Call_RebootDBInstance (instance_id member) (reboot_ForceFailover instanceCount ff)"

definition neptune_reboot_call :: "DBClusterMember \<Rightarrow> call" where
  "neptune_reboot_call member = Call_RebootDBInstance (instance_id member) None"

definition instance_wait_call :: "DBClusterMember \<Rightarrow> call" where
  "instance_wait_call member = Call_DBInstanceAvailableWaiter_Wait (instance_id member) 30"

text \<open>
  Whether the call \<open>x\<close>, made after the history \<open>h\<close>, was answered without an error,
  and whether every call of \<open>xs\<close>, made in that order after \<open>h\<close>, was.
\<close>

fun call_ok :: "client \<Rightarrow> call list \<Rightarrow> call \<Rightarrow> bool" where
  "call_ok c h (Call_DescribeDBClusters cid) =
     (case DescribeDBClusters c h cid of Inl err \<Rightarrow> False | Inr result \<Rightarrow> True)"
| "call_ok c h (Call_FailoverDBCluster cid target) = (FailoverDBCluster c h cid target = None)"
| "call_ok c h (Call_RebootDBInstance iid fo) = (RebootDBInstance c h iid fo = None)"
| "call_ok c h (Call_ModifyDBCluster input) = (ModifyDBCluster c h input = None)"
| "call_ok c h (Call_DBClusterAvailableWaiter_Wait cid budget) =
     (DBClusterAvailableWaiter_Wait c h cid budget = None)"
| "call_ok c h (Call_DBInstanceAvailableWaiter_Wait iid budget) =
     (DBInstanceAvailableWaiter_Wait c h iid budget = None)"
| "call_ok c h (Call_Sleep seconds) = True"

fun calls_succeeded :: "client \<Rightarrow> call list \<Rightarrow> call list \<Rightarrow> bool" where
  "calls_succeeded c h [] = True"
| "calls_succeeded c h (x # xs) = (call_ok c h x \<and> calls_succeeded c (h @ [x]) xs)"

text \<open>
  A block of statements entered with the history \<open>tr\<close> ends well: when it falls
  through, it has extended the history by calls that all succeeded; when it returns,
  the diagnostics hold an error.
\<close>

definition block_ok :: "client \<Rightarrow> call list \<Rightarrow> call list \<times> flow \<Rightarrow> bool" where
  "block_ok c tr r =
     (case r of
        (tr', Continue) \<Rightarrow> take (length tr) tr' = tr \<and> calls_succeeded c tr (calls_after tr tr')
      | (tr', Returns d) \<Rightarrow> HasError d
      | (tr', Panics) \<Rightarrow> True)"

text \<open>The history at attempt \<open>i\<close> of a polling loop entered with the history \<open>tr\<close>.\<close>

definition poll_history :: "string \<Rightarrow> call list \<Rightarrow> nat \<Rightarrow> call list" where
  "poll_history cid tr i = tr @ concat (replicate i [Call_DescribeDBClusters cid, Call_Sleep 30])"



text \<open>The state an operation saved, if it returned and saved one.\<close>

fun saved :: "'m outcome \<Rightarrow> 'm option" where
  "saved (Returned resp) = State resp"
| "saved Panicked = None"

text \<open>
  Whether the history \<open>tr'\<close> ends with a describe call of the cluster that was answered
  with the status \<open>available\<close>.
\<close>

definition poll_succeeded :: "client \<Rightarrow> string \<Rightarrow> call list \<Rightarrow> bool" where
  "poll_succeeded c cid tr' =
     (tr' \<noteq> [] \<and> last tr' = Call_DescribeDBClusters cid \<and>
      (case DescribeDBClusters c (butlast tr') cid of
         Inl err \<Rightarrow> False
       | Inr result \<Rightarrow> cluster_available result = Some True))"

text \<open>
  The outcome of an operation started with the history \<open>tr\<close>, as the pair of the final
  history and the response: a response without saved state carries an error; a
  response with a saved state carries no error, and the state holds a non-empty
  timestamp, read from the clock after the last call, every call of the operation
  (describe, mutation and wait) having been answered without error by the client in
  use. A panic leaves no outcome.
\<close>

definition MutationOutcome_ok ::
  "('m \<Rightarrow> tf_string) \<Rightarrow> env \<Rightarrow> diagnostic list + client \<Rightarrow> call list \<Rightarrow>
   call list \<times> 'm outcome \<Rightarrow> bool" where
  "MutationOutcome_ok timestamp e cl tr r =
     (case snd r of
        Panicked \<Rightarrow> True
      | Returned resp \<Rightarrow>
          (case State resp of
             None \<Rightarrow> HasError (Diagnostics resp)
           | Some m \<Rightarrow>
               \<not> HasError (Diagnostics resp) \<and>
               timestamp m = StringValue (Format_RFC3339 (time_Now e (fst r))) \<and>
               Format_RFC3339 (time_Now e (fst r)) \<noteq> [] \<and>
               (case cl of
                  Inl ds \<Rightarrow> False
                | Inr c \<Rightarrow>
                    take (length tr) (fst r) = tr \<and>
                    calls_succeeded c tr (calls_after tr (fst r)))))"

section \<open>Example clusters\<close>

text \<open>
  Cluster \<open>db-1\<close> with a writer and a reader, clients that answer for a given member
  list and fail the reboots and the waits of given instances, and the requests of a
  caller who set the force-failover attribute to \<open>ff\<close>.
\<close>

definition db1_members :: "DBClusterMember list" where
  "db1_members =
     [\<lparr>DBInstanceIdentifier = Some ''db-1-a'', IsClusterWriter = Some True\<rparr>,
      \<lparr>DBInstanceIdentifier = Some ''db-1-b'', IsClusterWriter = Some False\<rparr>]"

definition db2_members :: "DBClusterMember list" where
  "db2_members = [\<lparr>DBInstanceIdentifier = Some ''db-2-a'', IsClusterWriter = Some True\<rparr>]"

definition example_client :: "DBClusterMember list \<Rightarrow> string list \<Rightarrow> string list \<Rightarrow> client" where
  "example_client members bad_reboots bad_waits =
     \<lparr>DescribeDBClusters =
        (\<lambda>h cid. Inr [\<lparr>DBClusterMembers = members, Status = Some ''available''\<rparr>]),
      FailoverDBCluster = (\<lambda>h cid target. None),
      RebootDBInstance =
        (\<lambda>h iid fo. if iid \<in> set bad_reboots then Some ''InvalidDBInstanceState'' else None),
      ModifyDBCluster = (\<lambda>h input. None),
      DBClusterAvailableWaiter_Wait = (\<lambda>h cid budget. None),
      DBInstanceAvailableWaiter_Wait =
        (\<lambda>h iid budget. if iid \<in> set bad_waits then Some ''exceeded max wait time'' else None)\<rparr>"

text \<open>A client for which the cluster does not exist: the describe call fails.\<close>

definition absent_client :: client where
  "absent_client =
     (example_client [] [] [])\<lparr>DescribeDBClusters := (\<lambda>h cid. Inl ''DBClusterNotFoundFault'')\<rparr>"

text \<open>
  A client whose cluster is seen \<open>modifying\<close> while fewer than \<open>n\<close> calls have been
  made, and \<open>available\<close> from then on.
\<close>

definition polling_client :: "nat \<Rightarrow> client" where
  "polling_client n =
     (example_client [] [] [])\<lparr>DescribeDBClusters :=
        (\<lambda>h cid. Inr [\<lparr>DBClusterMembers = [],
                        Status = Some (if length h < n then ''modifying'' else ''available'')\<rparr>])\<rparr>"

text \<open>A client whose cluster never leaves \<open>modifying\<close>.\<close>

definition stuck_client :: client where
  "stuck_client =
     (example_client [] [] [])\<lparr>DescribeDBClusters :=
        (\<lambda>h cid. Inr [\<lparr>DBClusterMembers = [], Status = Some ''modifying''\<rparr>])\<rparr>"

definition example_env :: "client \<Rightarrow> env" where
  "example_env c =
     \<lparr>r_client = c,
      LoadDefaultConfig = (\<lambda>region. Inl ''failed to load configuration''),
      time_Now = (\<lambda>h. \<lparr>year = 2026, month = 10, day = 30, hour = 12, minute = 0, second = 0,
                         zone_offset_minutes = 0\<rparr>)\<rparr>"

definition aurora_request :: "string \<Rightarrow> tf_bool \<Rightarrow> AuroraRebootResourceModel request" where
  "aurora_request cid ff =
     \<lparr>Get_diags = [],
      Get_data = \<lparr>ClusterIdentifier = StringValue cid, Region = StringNull, ForceFailover = ff,
                  LastRebootTime = StringUnknown, ID = StringUnknown\<rparr>\<rparr>"

definition neptune_request :: "string \<Rightarrow> NeptuneRebootResourceModel request" where
  "neptune_request cid =
     \<lparr>Get_diags = [],
      Get_data = \<lparr>ClusterIdentifier_NR = StringValue cid, Region_NR = StringNull,
                  LastRebootTime_NR = StringUnknown, ID_NR = StringUnknown\<rparr>\<rparr>"

definition modify_request :: "string \<Rightarrow> NeptuneModifyResourceModel request" where
  "modify_request cid =
     \<lparr>Get_diags = [],
      Get_data = \<lparr>ClusterIdentifier_NM = StringValue cid, Region_NM = StringNull,
                  ClusterParameterGroupName = StringValue ''pg-1'', CloudWatchLogsExports = ListNull,
                  ApplyImmediately = BoolValue True, LastModifiedTime = StringUnknown,
                  ID_NM = StringUnknown\<rparr>\<rparr>"

text \<open>A conversion of list elements for the examples: the known strings, no diagnostics.\<close>

definition example_ElementsAs :: "tf_list \<Rightarrow> diagnostic list \<times> string list" where
  "example_ElementsAs l = ([], case l of ListValue xs \<Rightarrow> map ValueString xs | _ \<Rightarrow> [])"

section \<open>Evaluation of the model and of the examples\<close>

lemmas example_defs =
  example_client_def example_env_def aurora_request_def neptune_request_def modify_request_def
  db1_members_def db2_members_def absent_client_def polling_client_def stuck_client_def
  example_ElementsAs_def

lemmas eval_defs =
  region_client_def HasError_def AddError_def instance_id_def aurora_reboot_call_def
  neptune_reboot_call_def instance_wait_call_def reboot_ForceFailover_def

lemmas model_defs =
  AuroraReboot_Create_def AuroraReboot_Update_def AuroraReboot_Read_def AuroraReboot_reboot_def
  NeptuneReboot_Create_def NeptuneReboot_Update_def NeptuneReboot_Read_def
  NeptuneReboot_Create_reboot_def NeptuneReboot_Update_reboot_def reboot_then_wait_def
  NeptuneModify_Create_def NeptuneModify_Update_def NeptuneModify_modify_def
  logs_diags_def modify_input_def
  finish_def use_failover_def failover_cluster_def wait_cluster_def
  mutations_def waits_def calls_after_def Let_def

section \<open>The Aurora reboot: choice of the strategy\<close>

lemma calls_after_append [simp]: "calls_after tr (tr @ xs) = xs"
  by (simp add: calls_after_def)

lemma calls_after_self [simp]: "calls_after tr tr = []"
  by (simp add: calls_after_def)

lemma find_reader_wf:
  "\<forall>m\<in>set ms. IsClusterWriter m \<noteq> None \<Longrightarrow>
   find_reader ms =
     Some (case first_reader ms of None \<Rightarrow> (False, None) | Some r \<Rightarrow> (True, DBInstanceIdentifier r))"
  by (induction ms) (auto simp: first_reader_def)

lemma first_reader_Some:
  "\<exists>m\<in>set ms. IsClusterWriter m = Some False \<Longrightarrow> \<exists>r. first_reader ms = Some r \<and> r \<in> set ms"
  unfolding first_reader_def by (induction ms) auto

lemma first_reader_None:
  "\<not> (\<exists>m\<in>set ms. IsClusterWriter m = Some False) \<Longrightarrow> first_reader ms = None"
  unfolding first_reader_def by (induction ms) auto

lemma instance_id_Some: "DBInstanceIdentifier m = Some iid \<Longrightarrow> instance_id m = iid"
  by (simp add: instance_id_def)

lemma aurora_reboot_call_Some:
  "DBInstanceIdentifier m = Some iid \<Longrightarrow>
   aurora_reboot_call n ff m = Call_RebootDBInstance iid (reboot_ForceFailover n ff)"
  by (simp add: aurora_reboot_call_def instance_id_def)

lemma reboot_each_shape:
  assumes "\<forall>m\<in>set ms. DBInstanceIdentifier m \<noteq> None"
  shows "\<exists>k\<le>length ms. fst (reboot_each c n ff ds ms tr) = tr @ map (aurora_reboot_call n ff) (take k ms) \<and>
      (case snd (reboot_each c n ff ds ms tr) of
         Continue \<Rightarrow> k = length ms
       | Returns d \<Rightarrow> 0 < k \<and> (\<exists>detail. d = AddError ds ''Error rebooting Aurora instance'' detail)
       | Panics \<Rightarrow> False)"
  using assms
proof (induction ms arbitrary: tr)
  case Nil
  then show ?case by simp
next
  case (Cons m ms)
  from Cons.prems obtain iid where iid: "DBInstanceIdentifier m = Some iid" by auto
  show ?case
  proof (cases "RebootDBInstance c tr iid (reboot_ForceFailover n ff)")
    case (Some err)
    then show ?thesis using iid
      by (intro exI[of _ "Suc 0"]) (auto simp: aurora_reboot_call_Some instance_id_Some)
  next
    case None
    from Cons.prems have "\<forall>m\<in>set ms. DBInstanceIdentifier m \<noteq> None" by simp
    from Cons.IH[OF this, of "tr @ [Call_RebootDBInstance iid (reboot_ForceFailover n ff)]"]
    obtain k where k: "k \<le> length ms"
      "fst (reboot_each c n ff ds ms (tr @ [Call_RebootDBInstance iid (reboot_ForceFailover n ff)])) =
         (tr @ [Call_RebootDBInstance iid (reboot_ForceFailover n ff)]) @ map (aurora_reboot_call n ff) (take k ms)"
      "(case snd (reboot_each c n ff ds ms (tr @ [Call_RebootDBInstance iid (reboot_ForceFailover n ff)])) of
         Continue \<Rightarrow> k = length ms
       | Returns d \<Rightarrow> 0 < k \<and> (\<exists>detail. d = AddError ds ''Error rebooting Aurora instance'' detail)
       | Panics \<Rightarrow> False)" by blast
    show ?thesis using None iid k
      by (intro exI[of _ "Suc k"]) (auto simp: aurora_reboot_call_Some instance_id_Some split: flow.splits)
  qed
qed

lemma reboot_each_all_ok:
  assumes "\<forall>m\<in>set ms. DBInstanceIdentifier m \<noteq> None"
    and "\<forall>j<length ms. RebootDBInstance c (tr @ map (aurora_reboot_call n ff) (take j ms))
           (instance_id (ms ! j)) (reboot_ForceFailover n ff) = None"
  shows "reboot_each c n ff ds ms tr = (tr @ map (aurora_reboot_call n ff) ms, Continue)"
  using assms
proof (induction ms arbitrary: tr)
  case Nil
  then show ?case by simp
next
  case (Cons m ms)
  from Cons.prems(1) obtain iid where iid: "DBInstanceIdentifier m = Some iid" by auto
  from Cons.prems(2)[rule_format, of 0] iid
  have first: "RebootDBInstance c tr iid (reboot_ForceFailover n ff) = None"
    by (simp add: instance_id_Some)
  have rest: "\<forall>j<length ms. RebootDBInstance c
        ((tr @ [Call_RebootDBInstance iid (reboot_ForceFailover n ff)]) @ map (aurora_reboot_call n ff) (take j ms))
        (instance_id (ms ! j)) (reboot_ForceFailover n ff) = None"
  proof (intro allI impI)
    fix j assume "j < length ms"
    with Cons.prems(2)[rule_format, of "Suc j"] iid show "RebootDBInstance c
        ((tr @ [Call_RebootDBInstance iid (reboot_ForceFailover n ff)]) @ map (aurora_reboot_call n ff) (take j ms))
        (instance_id (ms ! j)) (reboot_ForceFailover n ff) = None"
      by (simp add: aurora_reboot_call_Some instance_id_Some)
  qed
  from Cons.prems(1) have "\<forall>m\<in>set ms. DBInstanceIdentifier m \<noteq> None" by simp
  from Cons.IH[OF this rest] first iid show ?case
    by (simp add: aurora_reboot_call_Some instance_id_Some)
qed

lemma reboot_each_first_error:
  assumes "\<forall>m\<in>set ms. DBInstanceIdentifier m \<noteq> None"
    and "k < length ms"
    and "\<forall>j<k. RebootDBInstance c (tr @ map (aurora_reboot_call n ff) (take j ms))
           (instance_id (ms ! j)) (reboot_ForceFailover n ff) = None"
    and "RebootDBInstance c (tr @ map (aurora_reboot_call n ff) (take k ms))
           (instance_id (ms ! k)) (reboot_ForceFailover n ff) = Some err"
  shows "reboot_each c n ff ds ms tr =
           (tr @ map (aurora_reboot_call n ff) (take (Suc k) ms),
            Returns (AddError ds ''Error rebooting Aurora instance''
                       (''Could not reboot Aurora instance '' @ instance_id (ms ! k) @ '': '' @ err)))"
  using assms
proof (induction ms arbitrary: tr k)
  case Nil
  then show ?case by simp
next
  case (Cons m ms)
  from Cons.prems(1) obtain iid where iid: "DBInstanceIdentifier m = Some iid" by auto
  show ?case
  proof (cases k)
    case 0
    with Cons.prems(4) iid show ?thesis
      by (simp add: aurora_reboot_call_Some instance_id_Some)
  next
    case (Suc k')
    from Cons.prems(3)[rule_format, of 0] Suc iid
    have first: "RebootDBInstance c tr iid (reboot_ForceFailover n ff) = None"
      by (simp add: instance_id_Some)
    let ?tr = "tr @ [Call_RebootDBInstance iid (reboot_ForceFailover n ff)]"
    have rest: "\<forall>j<k'. RebootDBInstance c (?tr @ map (aurora_reboot_call n ff) (take j ms))
        (instance_id (ms ! j)) (reboot_ForceFailover n ff) = None"
    proof (intro allI impI)
      fix j assume "j < k'"
      with Cons.prems(3)[rule_format, of "Suc j"] Suc iid
      show "RebootDBInstance c (?tr @ map (aurora_reboot_call n ff) (take j ms))
        (instance_id (ms ! j)) (reboot_ForceFailover n ff) = None"
        by (simp add: aurora_reboot_call_Some instance_id_Some)
    qed
    from Cons.prems(4) Suc iid
    have fails: "RebootDBInstance c (?tr @ map (aurora_reboot_call n ff) (take k' ms))
        (instance_id (ms ! k')) (reboot_ForceFailover n ff) = Some err"
      by (simp add: aurora_reboot_call_Some instance_id_Some)
    from Cons.prems(1) have wf: "\<forall>m\<in>set ms. DBInstanceIdentifier m \<noteq> None" by simp
    from Cons.prems(2) Suc have k': "k' < length ms" by simp
    from Cons.IH[OF wf k' rest fails] first iid Suc show ?thesis
      by (simp add: aurora_reboot_call_Some instance_id_Some)
  qed
qed


lemma mutations_reboot_calls [simp]:
  "mutations (map (aurora_reboot_call n ff) ms) = map (aurora_reboot_call n ff) ms"
  by (induction ms) (simp_all add: mutations_def aurora_reboot_call_def)

lemma mutations_append [simp]: "mutations (xs @ ys) = mutations xs @ mutations ys"
  by (simp add: mutations_def)

lemma mutations_Cons:
  "mutations (x # xs) = (if is_mutation x then x # mutations xs else mutations xs)"
  by (simp add: mutations_def)

lemma mutations_Nil [simp]: "mutations [] = []"
  by (simp add: mutations_def)

lemma fst_finish [simp]: "fst (finish ds save r) = fst r"
  by (cases r) (simp add: finish_def split: flow.splits)

lemma snd_finish_Returns [simp]:
  "snd (finish ds save (tr, Returns d)) = Returned \<lparr>Diagnostics = d, State = None\<rparr>"
  by (simp add: finish_def)

lemma AuroraReboot_ops_run:
  assumes "f = AuroraReboot_Create \<or> f = AuroraReboot_Update"
    and "\<not> HasError (Get_diags req)"
    and "region_client e (Region (Get_data req)) (Get_diags req) = Inr c"
  shows "\<exists>save. f e req tr = finish (Get_diags req) save (AuroraReboot_reboot c (Get_data req) (Get_diags req) tr)"
  using assms by (auto simp: AuroraReboot_Create_def AuroraReboot_Update_def Let_def)

lemma wait_cluster_cases:
  "wait_cluster c cid ds tr = (tr @ [Call_DBClusterAvailableWaiter_Wait cid 30], Continue) \<or>
   (\<exists>err. wait_cluster c cid ds tr =
      (tr @ [Call_DBClusterAvailableWaiter_Wait cid 30],
       Returns (AddError ds ''Error waiting for Aurora cluster to become available''
                  (''Could not confirm Aurora cluster availability: '' @ err))))"
  by (auto simp: wait_cluster_def split: option.splits)

lemma AuroraReboot_reboot_described:
  assumes "DescribeDBClusters c tr (ValueString (ClusterIdentifier data)) = Inr (cluster # others)"
    and "\<forall>m\<in>set (DBClusterMembers cluster). IsClusterWriter m \<noteq> None"
  shows "AuroraReboot_reboot c data ds tr =
    (case (if use_failover (length (DBClusterMembers cluster))
                (first_reader (DBClusterMembers cluster) \<noteq> None) (ForceFailover data)
           then failover_cluster c (ValueString (ClusterIdentifier data))
                  (case first_reader (DBClusterMembers cluster) of None \<Rightarrow> None
                   | Some r \<Rightarrow> DBInstanceIdentifier r) ds
                  (tr @ [Call_DescribeDBClusters (ValueString (ClusterIdentifier data))])
           else reboot_each c (length (DBClusterMembers cluster)) (ForceFailover data) ds
                  (DBClusterMembers cluster)
                  (tr @ [Call_DescribeDBClusters (ValueString (ClusterIdentifier data))])) of
       (tr2, Continue) \<Rightarrow> wait_cluster c (ValueString (ClusterIdentifier data)) ds tr2
     | (tr2, stopped) \<Rightarrow> (tr2, stopped))"
  using assms(1) find_reader_wf[OF assms(2)]
  by (cases "first_reader (DBClusterMembers cluster)") (simp_all add: AuroraReboot_reboot_def Let_def)

lemma AuroraReboot_reboot_failover:
  assumes "DescribeDBClusters c tr (ValueString (ClusterIdentifier data)) = Inr (cluster # others)"
    and "\<forall>m\<in>set (DBClusterMembers cluster). IsClusterWriter m \<noteq> None"
    and "use_failover (length (DBClusterMembers cluster))
           (first_reader (DBClusterMembers cluster) \<noteq> None) (ForceFailover data)"
    and "first_reader (DBClusterMembers cluster) = Some r"
  shows "AuroraReboot_reboot c data ds tr =
    (case failover_cluster c (ValueString (ClusterIdentifier data)) (DBInstanceIdentifier r) ds
            (tr @ [Call_DescribeDBClusters (ValueString (ClusterIdentifier data))]) of
       (tr2, Continue) \<Rightarrow> wait_cluster c (ValueString (ClusterIdentifier data)) ds tr2
     | (tr2, stopped) \<Rightarrow> (tr2, stopped))"
  by (simp only: AuroraReboot_reboot_described[OF assms(1,2)] assms(3) if_True)
     (simp only: assms(4) option.case)

lemma AuroraReboot_reboot_fanout:
  assumes "DescribeDBClusters c tr (ValueString (ClusterIdentifier data)) = Inr (cluster # others)"
    and "\<forall>m\<in>set (DBClusterMembers cluster). IsClusterWriter m \<noteq> None"
    and "\<not> use_failover (length (DBClusterMembers cluster))
           (first_reader (DBClusterMembers cluster) \<noteq> None) (ForceFailover data)"
  shows "AuroraReboot_reboot c data ds tr =
    (case reboot_each c (length (DBClusterMembers cluster)) (ForceFailover data) ds
            (DBClusterMembers cluster)
            (tr @ [Call_DescribeDBClusters (ValueString (ClusterIdentifier data))]) of
       (tr2, Continue) \<Rightarrow> wait_cluster c (ValueString (ClusterIdentifier data)) ds tr2
     | (tr2, stopped) \<Rightarrow> (tr2, stopped))"
  by (simp only: AuroraReboot_reboot_described[OF assms(1,2)] assms(3) if_False)

lemma use_failover_iff:
  "use_failover n h ff = (2 \<le> n \<and> h \<and> ff = BoolValue True)"
  by (cases ff) (auto simp: use_failover_def)

lemma AuroraReboot_fanout_mutations:
  assumes op: "f = AuroraReboot_Create \<or> f = AuroraReboot_Update"
    and plan: "\<not> HasError (Get_diags req)"
    and cl: "region_client e (Region (Get_data req)) (Get_diags req) = Inr c"
    and desc: "DescribeDBClusters c tr (ValueString (ClusterIdentifier (Get_data req))) = Inr (cluster # others)"
    and wf: "\<forall>m\<in>set (DBClusterMembers cluster). IsClusterWriter m \<noteq> None \<and> DBInstanceIdentifier m \<noteq> None"
    and uf: "\<not> use_failover (length (DBClusterMembers cluster))
               (first_reader (DBClusterMembers cluster) \<noteq> None) (ForceFailover (Get_data req))"
  shows "\<exists>k\<le>length (DBClusterMembers cluster).
           mutations (calls_after tr (fst (f e req tr))) =
             map (aurora_reboot_call (length (DBClusterMembers cluster)) (ForceFailover (Get_data req)))
               (take k (DBClusterMembers cluster)) \<and>
           (k = length (DBClusterMembers cluster) \<or>
            0 < k \<and>
            (\<exists>detail. snd (f e req tr) =
               Returned \<lparr>Diagnostics = AddError (Get_diags req) ''Error rebooting Aurora instance'' detail,
                         State = None\<rparr>))"
proof -
  let ?ms = "DBClusterMembers cluster"
  let ?cid = "ValueString (ClusterIdentifier (Get_data req))"
  let ?ds = "Get_diags req"
  let ?ff = "ForceFailover (Get_data req)"
  let ?tr1 = "tr @ [Call_DescribeDBClusters ?cid]"
  from AuroraReboot_ops_run[OF op plan cl] obtain save where
    run: "f e req tr = finish ?ds save (AuroraReboot_reboot c (Get_data req) ?ds tr)" by blast
  from wf have wfw: "\<forall>m\<in>set ?ms. IsClusterWriter m \<noteq> None" by simp
  from wf have wfi: "\<forall>m\<in>set ?ms. DBInstanceIdentifier m \<noteq> None" by simp
  note body = AuroraReboot_reboot_fanout[OF desc wfw uf, of ?ds]
  from reboot_each_shape[OF wfi, of c "length ?ms" ?ff ?ds ?tr1]
  obtain k where k: "k \<le> length ?ms"
    "fst (reboot_each c (length ?ms) ?ff ?ds ?ms ?tr1) =
       ?tr1 @ map (aurora_reboot_call (length ?ms) ?ff) (take k ?ms)"
    "(case snd (reboot_each c (length ?ms) ?ff ?ds ?ms ?tr1) of
       Continue \<Rightarrow> k = length ?ms
     | Returns d \<Rightarrow> 0 < k \<and> (\<exists>detail. d = AddError ?ds ''Error rebooting Aurora instance'' detail)
     | Panics \<Rightarrow> False)" by blast
  obtain tr2 fl where rb: "reboot_each c (length ?ms) ?ff ?ds ?ms ?tr1 = (tr2, fl)"
    by (cases "reboot_each c (length ?ms) ?ff ?ds ?ms ?tr1")
  have tr2: "tr2 = ?tr1 @ map (aurora_reboot_call (length ?ms) ?ff) (take k ?ms)"
    using k(2) rb by simp
  have "mutations (calls_after tr (fst (f e req tr))) =
          map (aurora_reboot_call (length ?ms) ?ff) (take k ?ms) \<and>
        (k = length ?ms \<or>
         0 < k \<and>
         (\<exists>detail. snd (f e req tr) =
            Returned \<lparr>Diagnostics = AddError ?ds ''Error rebooting Aurora instance'' detail, State = None\<rparr>))"
  proof (cases fl)
    case Continue
    with k(3) rb have "k = length ?ms" by simp
    moreover have "mutations (calls_after tr (fst (f e req tr))) =
          map (aurora_reboot_call (length ?ms) ?ff) (take k ?ms)"
      using wait_cluster_cases[of c ?cid ?ds tr2] Continue
      unfolding run fst_finish body
      by (auto simp: rb tr2 mutations_Cons)
    ultimately show ?thesis by simp
  next
    case (Returns d)
    with k(3) rb obtain detail where d: "d = AddError ?ds ''Error rebooting Aurora instance'' detail"
      and pos: "0 < k" by auto
    have "f e req tr = finish ?ds save (tr2, Returns d)"
      unfolding run body using Returns by (simp add: rb)
    then show ?thesis using d pos tr2 by (auto simp: mutations_Cons finish_def)
  next
    case Panics
    with k(3) rb show ?thesis by simp
  qed
  with k(1) show ?thesis by blast
qed

lemma AuroraReboot_failover_mutations:
  assumes op: "f = AuroraReboot_Create \<or> f = AuroraReboot_Update"
    and plan: "\<not> HasError (Get_diags req)"
    and cl: "region_client e (Region (Get_data req)) (Get_diags req) = Inr c"
    and desc: "DescribeDBClusters c tr (ValueString (ClusterIdentifier (Get_data req))) = Inr (cluster # others)"
    and wf: "\<forall>m\<in>set (DBClusterMembers cluster). IsClusterWriter m \<noteq> None \<and> DBInstanceIdentifier m \<noteq> None"
    and uf: "use_failover (length (DBClusterMembers cluster))
               (first_reader (DBClusterMembers cluster) \<noteq> None) (ForceFailover (Get_data req))"
  shows "\<exists>r target. first_reader (DBClusterMembers cluster) = Some r \<and>
           DBInstanceIdentifier r = Some target \<and>
           mutations (calls_after tr (fst (f e req tr))) =
             [Call_FailoverDBCluster (ValueString (ClusterIdentifier (Get_data req))) target]"
proof -
  let ?ms = "DBClusterMembers cluster"
  let ?cid = "ValueString (ClusterIdentifier (Get_data req))"
  let ?ds = "Get_diags req"
  let ?tr1 = "tr @ [Call_DescribeDBClusters ?cid]"
  from AuroraReboot_ops_run[OF op plan cl] obtain save where
    run: "f e req tr = finish ?ds save (AuroraReboot_reboot c (Get_data req) ?ds tr)" by blast
  from wf have wfw: "\<forall>m\<in>set ?ms. IsClusterWriter m \<noteq> None" by simp
  from uf obtain r where r: "first_reader ?ms = Some r"
    by (auto simp: use_failover_def)
  then have "r \<in> set ?ms"
    unfolding first_reader_def by (auto simp: find_Some_iff)
  with wf obtain target where target: "DBInstanceIdentifier r = Some target" by auto
  note body = AuroraReboot_reboot_failover[OF desc wfw uf r, of ?ds]
  have "mutations (calls_after tr (fst (AuroraReboot_reboot c (Get_data req) ?ds tr))) =
          [Call_FailoverDBCluster ?cid target]"
    using wait_cluster_cases[of c ?cid ?ds "?tr1 @ [Call_FailoverDBCluster ?cid target]"]
    unfolding body
    by (auto simp: target failover_cluster_def mutations_Cons split: option.splits)
  with r target run show ?thesis by auto
qed

lemma AuroraReboot_fanout_all_ok:
  assumes op: "f = AuroraReboot_Create \<or> f = AuroraReboot_Update"
    and plan: "\<not> HasError (Get_diags req)"
    and cl: "region_client e (Region (Get_data req)) (Get_diags req) = Inr c"
    and desc: "DescribeDBClusters c tr (ValueString (ClusterIdentifier (Get_data req))) = Inr (cluster # others)"
    and wf: "\<forall>m\<in>set (DBClusterMembers cluster). IsClusterWriter m \<noteq> None \<and> DBInstanceIdentifier m \<noteq> None"
    and uf: "\<not> use_failover (length (DBClusterMembers cluster))
               (first_reader (DBClusterMembers cluster) \<noteq> None) (ForceFailover (Get_data req))"
    and ok: "\<forall>j<length (DBClusterMembers cluster). RebootDBInstance c
               ((tr @ [Call_DescribeDBClusters (ValueString (ClusterIdentifier (Get_data req)))]) @
                map (aurora_reboot_call (length (DBClusterMembers cluster)) (ForceFailover (Get_data req)))
                  (take j (DBClusterMembers cluster)))
               (instance_id (DBClusterMembers cluster ! j))
               (reboot_ForceFailover (length (DBClusterMembers cluster)) (ForceFailover (Get_data req))) = None"
  shows "fst (f e req tr) =
           ((tr @ [Call_DescribeDBClusters (ValueString (ClusterIdentifier (Get_data req)))]) @
            map (aurora_reboot_call (length (DBClusterMembers cluster)) (ForceFailover (Get_data req)))
              (DBClusterMembers cluster)) @
           [Call_DBClusterAvailableWaiter_Wait (ValueString (ClusterIdentifier (Get_data req))) 30]"
proof -
  let ?ms = "DBClusterMembers cluster"
  let ?cid = "ValueString (ClusterIdentifier (Get_data req))"
  from AuroraReboot_ops_run[OF op plan cl] obtain save where
    run: "f e req tr = finish (Get_diags req) save (AuroraReboot_reboot c (Get_data req) (Get_diags req) tr)"
    by blast
  from wf have wfw: "\<forall>m\<in>set ?ms. IsClusterWriter m \<noteq> None" by simp
  from wf have wfi: "\<forall>m\<in>set ?ms. DBInstanceIdentifier m \<noteq> None" by simp
  show ?thesis
    unfolding run fst_finish AuroraReboot_reboot_fanout[OF desc wfw uf]
      reboot_each_all_ok[OF wfi ok]
    using wait_cluster_cases[of c ?cid "Get_diags req"
        "(tr @ [Call_DescribeDBClusters ?cid]) @
         map (aurora_reboot_call (length ?ms) (ForceFailover (Get_data req))) ?ms"]
    by auto
qed

lemma AuroraReboot_fanout_first_error:
  assumes op: "f = AuroraReboot_Create \<or> f = AuroraReboot_Update"
    and plan: "\<not> HasError (Get_diags req)"
    and cl: "region_client e (Region (Get_data req)) (Get_diags req) = Inr c"
    and desc: "DescribeDBClusters c tr (ValueString (ClusterIdentifier (Get_data req))) = Inr (cluster # others)"
    and wf: "\<forall>m\<in>set (DBClusterMembers cluster). IsClusterWriter m \<noteq> None \<and> DBInstanceIdentifier m \<noteq> None"
    and uf: "\<not> use_failover (length (DBClusterMembers cluster))
               (first_reader (DBClusterMembers cluster) \<noteq> None) (ForceFailover (Get_data req))"
    and k: "k < length (DBClusterMembers cluster)"
    and ok: "\<forall>j<k. RebootDBInstance c
               ((tr @ [Call_DescribeDBClusters (ValueString (ClusterIdentifier (Get_data req)))]) @
                map (aurora_reboot_call (length (DBClusterMembers cluster)) (ForceFailover (Get_data req)))
                  (take j (DBClusterMembers cluster)))
               (instance_id (DBClusterMembers cluster ! j))
               (reboot_ForceFailover (length (DBClusterMembers cluster)) (ForceFailover (Get_data req))) = None"
    and err: "RebootDBInstance c
               ((tr @ [Call_DescribeDBClusters (ValueString (ClusterIdentifier (Get_data req)))]) @
                map (aurora_reboot_call (length (DBClusterMembers cluster)) (ForceFailover (Get_data req)))
                  (take k (DBClusterMembers cluster)))
               (instance_id (DBClusterMembers cluster ! k))
               (reboot_ForceFailover (length (DBClusterMembers cluster)) (ForceFailover (Get_data req))) = Some err"
  shows "f e req tr =
           ((tr @ [Call_DescribeDBClusters (ValueString (ClusterIdentifier (Get_data req)))]) @
            map (aurora_reboot_call (length (DBClusterMembers cluster)) (ForceFailover (Get_data req)))
              (take (Suc k) (DBClusterMembers cluster)),
            Returned \<lparr>Diagnostics = AddError (Get_diags req) ''Error rebooting Aurora instance''
                        (''Could not reboot Aurora instance '' @ instance_id (DBClusterMembers cluster ! k) @
                         '': '' @ err),
                      State = None\<rparr>)"
proof -
  let ?ms = "DBClusterMembers cluster"
  from AuroraReboot_ops_run[OF op plan cl] obtain save where
    run: "f e req tr = finish (Get_diags req) save (AuroraReboot_reboot c (Get_data req) (Get_diags req) tr)"
    by blast
  from wf have wfw: "\<forall>m\<in>set ?ms. IsClusterWriter m \<noteq> None" by simp
  from wf have wfi: "\<forall>m\<in>set ?ms. DBInstanceIdentifier m \<noteq> None" by simp
  show ?thesis
    unfolding run AuroraReboot_reboot_fanout[OF desc wfw uf]
      reboot_each_first_error[OF wfi k ok err]
    by (simp add: finish_def)
qed

text \<open>
  Claim C1. For an Aurora reboot (Create or Update) whose described cluster has members
  with their role and identifier set: when the member list has at least 2 members,
  contains a reader and the caller set force-failover to true, the only mutation is one
  failover call on the cluster whose target is the first reader of the member list.
  In every other case the mutations are reboot calls, one per member in the order of
  the member list whatever the role: when every reboot call is answered without error,
  the calls made are the describe call, the reboot of every member in that order, and
  the wait for the cluster; when the call for member \<open>k\<close> is the first to be answered
  with an error, the calls made are the describe call and the reboots of the members
  up to \<open>k\<close>, and the operation returns that error. In either case the mutations are
  the reboots of a non-empty prefix of the member list, or of the whole list.
\<close>

theorem reboot_strategy:
  assumes op: "f = AuroraReboot_Create \<or> f = AuroraReboot_Update"
    and plan: "\<not> HasError (Get_diags req)"
    and cl: "region_client e (Region (Get_data req)) (Get_diags req) = Inr c"
    and desc: "DescribeDBClusters c tr (ValueString (ClusterIdentifier (Get_data req))) = Inr (cluster # others)"
    and wf: "\<forall>m\<in>set (DBClusterMembers cluster). IsClusterWriter m \<noteq> None \<and> DBInstanceIdentifier m \<noteq> None"
    and ms: "ms = DBClusterMembers cluster"
    and tr1: "tr1 = tr @ [Call_DescribeDBClusters (ValueString (ClusterIdentifier (Get_data req)))]"
    and rc: "rc = aurora_reboot_call (length ms) (ForceFailover (Get_data req))"
    and fo: "fo = reboot_ForceFailover (length ms) (ForceFailover (Get_data req))"
  shows "if 2 \<le> length ms \<and> (\<exists>m\<in>set ms. IsClusterWriter m = Some False) \<and>
            ForceFailover (Get_data req) = BoolValue True
         then \<exists>r target. first_reader ms = Some r \<and>
                DBInstanceIdentifier r = Some target \<and>
                mutations (calls_after tr (fst (f e req tr))) =
                  [Call_FailoverDBCluster (ValueString (ClusterIdentifier (Get_data req))) target]
         else ((\<forall>j<length ms. RebootDBInstance c (tr1 @ map rc (take j ms)) (instance_id (ms ! j)) fo = None) \<longrightarrow>
                 fst (f e req tr) =
                   (tr1 @ map rc ms) @
                   [Call_DBClusterAvailableWaiter_Wait (ValueString (ClusterIdentifier (Get_data req))) 30] \<and>
                 mutations (calls_after tr (fst (f e req tr))) = map rc ms) \<and>
              (\<forall>k<length ms. \<forall>err.
                 (\<forall>j<k. RebootDBInstance c (tr1 @ map rc (take j ms)) (instance_id (ms ! j)) fo = None) \<and>
                 RebootDBInstance c (tr1 @ map rc (take k ms)) (instance_id (ms ! k)) fo = Some err \<longrightarrow>
                 f e req tr =
                   (tr1 @ map rc (take (Suc k) ms),
                    Returned \<lparr>Diagnostics = AddError (Get_diags req) ''Error rebooting Aurora instance''
                                (''Could not reboot Aurora instance '' @ instance_id (ms ! k) @ '': '' @ err),
                              State = None\<rparr>) \<and>
                 mutations (calls_after tr (fst (f e req tr))) = map rc (take (Suc k) ms)) \<and>
              (\<exists>k\<le>length ms.
                 mutations (calls_after tr (fst (f e req tr))) = map rc (take k ms) \<and>
                 (k = length ms \<or>
                  0 < k \<and>
                  (\<exists>detail. snd (f e req tr) =
                     Returned \<lparr>Diagnostics = AddError (Get_diags req) ''Error rebooting Aurora instance'' detail,
                               State = None\<rparr>)))"
proof (cases "2 \<le> length ms \<and> (\<exists>m\<in>set ms. IsClusterWriter m = Some False) \<and>
            ForceFailover (Get_data req) = BoolValue True")
  case True
  then obtain r where "first_reader (DBClusterMembers cluster) = Some r"
    using first_reader_Some unfolding ms by blast
  with True have "use_failover (length (DBClusterMembers cluster))
      (first_reader (DBClusterMembers cluster) \<noteq> None) (ForceFailover (Get_data req))"
    unfolding ms by (simp add: use_failover_iff)
  from AuroraReboot_failover_mutations[OF op plan cl desc wf this] True
  show ?thesis unfolding ms by simp
next
  case False
  then have uf: "\<not> use_failover (length (DBClusterMembers cluster))
      (first_reader (DBClusterMembers cluster) \<noteq> None) (ForceFailover (Get_data req))"
    using first_reader_None[of "DBClusterMembers cluster"] unfolding ms by (auto simp: use_failover_iff)
  have a: "fst (f e req tr) =
             (tr1 @ map rc ms) @
             [Call_DBClusterAvailableWaiter_Wait (ValueString (ClusterIdentifier (Get_data req))) 30] \<and>
           mutations (calls_after tr (fst (f e req tr))) = map rc ms"
    if ok: "\<forall>j<length ms. RebootDBInstance c (tr1 @ map rc (take j ms)) (instance_id (ms ! j)) fo = None"
  proof -
    from AuroraReboot_fanout_all_ok[OF op plan cl desc wf uf ok[unfolded ms tr1 rc fo]]
    have t: "fst (f e req tr) =
             (tr1 @ map rc ms) @
             [Call_DBClusterAvailableWaiter_Wait (ValueString (ClusterIdentifier (Get_data req))) 30]"
      unfolding ms tr1 rc fo .
    then show ?thesis
      unfolding rc tr1 by (simp add: mutations_Cons)
  qed
  have b: "f e req tr =
             (tr1 @ map rc (take (Suc k) ms),
              Returned \<lparr>Diagnostics = AddError (Get_diags req) ''Error rebooting Aurora instance''
                          (''Could not reboot Aurora instance '' @ instance_id (ms ! k) @ '': '' @ err),
                        State = None\<rparr>) \<and>
           mutations (calls_after tr (fst (f e req tr))) = map rc (take (Suc k) ms)"
    if k: "k < length ms"
      and ok: "\<forall>j<k. RebootDBInstance c (tr1 @ map rc (take j ms)) (instance_id (ms ! j)) fo = None"
      and err: "RebootDBInstance c (tr1 @ map rc (take k ms)) (instance_id (ms ! k)) fo = Some err"
    for k err
  proof -
    from AuroraReboot_fanout_first_error[OF op plan cl desc wf uf k[unfolded ms]
        ok[unfolded ms tr1 rc fo] err[unfolded ms tr1 rc fo]]
    have t: "f e req tr =
             (tr1 @ map rc (take (Suc k) ms),
              Returned \<lparr>Diagnostics = AddError (Get_diags req) ''Error rebooting Aurora instance''
                          (''Could not reboot Aurora instance '' @ instance_id (ms ! k) @ '': '' @ err),
                        State = None\<rparr>)"
      unfolding ms tr1 rc fo .
    then show ?thesis
      unfolding rc tr1 by (simp add: mutations_Cons del: take_Suc_Cons)
  qed
  from AuroraReboot_fanout_mutations[OF op plan cl desc wf uf]
  have c: "\<exists>k\<le>length ms.
             mutations (calls_after tr (fst (f e req tr))) = map rc (take k ms) \<and>
             (k = length ms \<or>
              0 < k \<and>
              (\<exists>detail. snd (f e req tr) =
                 Returned \<lparr>Diagnostics = AddError (Get_diags req) ''Error rebooting Aurora instance'' detail,
                           State = None\<rparr>))"
    unfolding ms rc .
  from a have a': "(\<forall>j<length ms. RebootDBInstance c (tr1 @ map rc (take j ms)) (instance_id (ms ! j)) fo = None) \<longrightarrow>
                 fst (f e req tr) =
                   (tr1 @ map rc ms) @
                   [Call_DBClusterAvailableWaiter_Wait (ValueString (ClusterIdentifier (Get_data req))) 30] \<and>
                 mutations (calls_after tr (fst (f e req tr))) = map rc ms"
    by (rule impI)
  have b': "\<forall>k<length ms. \<forall>err.
                 (\<forall>j<k. RebootDBInstance c (tr1 @ map rc (take j ms)) (instance_id (ms ! j)) fo = None) \<and>
                 RebootDBInstance c (tr1 @ map rc (take k ms)) (instance_id (ms ! k)) fo = Some err \<longrightarrow>
                 f e req tr =
                   (tr1 @ map rc (take (Suc k) ms),
                    Returned \<lparr>Diagnostics = AddError (Get_diags req) ''Error rebooting Aurora instance''
                                (''Could not reboot Aurora instance '' @ instance_id (ms ! k) @ '': '' @ err),
                              State = None\<rparr>) \<and>
                 mutations (calls_after tr (fst (f e req tr))) = map rc (take (Suc k) ms)"
  proof (intro allI impI)
    fix k err
    assume "k < length ms"
      and "(\<forall>j<k. RebootDBInstance c (tr1 @ map rc (take j ms)) (instance_id (ms ! j)) fo = None) \<and>
           RebootDBInstance c (tr1 @ map rc (take k ms)) (instance_id (ms ! k)) fo = Some err"
    then show "f e req tr =
                   (tr1 @ map rc (take (Suc k) ms),
                    Returned \<lparr>Diagnostics = AddError (Get_diags req) ''Error rebooting Aurora instance''
                                (''Could not reboot Aurora instance '' @ instance_id (ms ! k) @ '': '' @ err),
                              State = None\<rparr>) \<and>
                 mutations (calls_after tr (fst (f e req tr))) = map rc (take (Suc k) ms)"
      using b[of k err] by blast
  qed
  show ?thesis
    unfolding if_not_P[OF False] by (intro conjI a' b' c)
qed

theorem reboot_strategy_witness:
  "mutations (calls_after []
     (fst (AuroraReboot_Create (example_env (example_client db1_members [] []))
             (aurora_request ''db-1'' (BoolValue True)) []))) =
     [Call_FailoverDBCluster ''db-1'' ''db-1-b''] \<and>
   fst (AuroraReboot_Update (example_env (example_client db1_members [] []))
          (aurora_request ''db-1'' (BoolValue False)) []) =
     [Call_DescribeDBClusters ''db-1'', Call_RebootDBInstance ''db-1-a'' (Some False),
      Call_RebootDBInstance ''db-1-b'' (Some False), Call_DBClusterAvailableWaiter_Wait ''db-1'' 30] \<and>
   AuroraReboot_Update (example_env (example_client db1_members [''db-1-b''] []))
     (aurora_request ''db-1'' (BoolValue False)) [] =
     ([Call_DescribeDBClusters ''db-1'', Call_RebootDBInstance ''db-1-a'' (Some False),
       Call_RebootDBInstance ''db-1-b'' (Some False)],
      Returned \<lparr>Diagnostics =
                  [Diagnostic SeverityError ''Error rebooting Aurora instance''
                     ''Could not reboot Aurora instance db-1-b: InvalidDBInstanceState''],
                State = None\<rparr>)"
proof -
  let ?c = "example_client db1_members [] []"
  let ?b = "example_client db1_members [''db-1-b''] []"
  let ?cl = "\<lparr>DBClusterMembers = db1_members, Status = Some ''available''\<rparr>"
  let ?t = "aurora_request ''db-1'' (BoolValue True)"
  let ?f = "aurora_request ''db-1'' (BoolValue False)"
  let ?ms = "DBClusterMembers ?cl"
  let ?tr1 = "[] @ [Call_DescribeDBClusters (ValueString (ClusterIdentifier (Get_data ?f)))]"
  let ?rc = "aurora_reboot_call (length ?ms) (ForceFailover (Get_data ?f))"
  let ?fo = "reboot_ForceFailover (length ?ms) (ForceFailover (Get_data ?f))"
  have wf: "\<forall>m\<in>set (DBClusterMembers ?cl). IsClusterWriter m \<noteq> None \<and> DBInstanceIdentifier m \<noteq> None"
    by (auto simp: db1_members_def)
  have op1: "AuroraReboot_Create = AuroraReboot_Create \<or> AuroraReboot_Create = AuroraReboot_Update"
    by simp
  have plan1: "\<not> HasError (Get_diags ?t)"
    by (simp add: example_defs eval_defs)
  have cl1: "region_client (example_env ?c) (Region (Get_data ?t)) (Get_diags ?t) = Inr ?c"
    by (simp add: example_defs eval_defs)
  have desc1: "DescribeDBClusters ?c [] (ValueString (ClusterIdentifier (Get_data ?t))) = Inr (?cl # [])"
    by (simp add: example_defs)
  have op2: "AuroraReboot_Update = AuroraReboot_Create \<or> AuroraReboot_Update = AuroraReboot_Update"
    by simp
  have plan2: "\<not> HasError (Get_diags ?f)"
    by (simp add: example_defs eval_defs)
  have cl2: "region_client (example_env ?c) (Region (Get_data ?f)) (Get_diags ?f) = Inr ?c"
    by (simp add: example_defs eval_defs)
  have desc2: "DescribeDBClusters ?c [] (ValueString (ClusterIdentifier (Get_data ?f))) = Inr (?cl # [])"
    by (simp add: example_defs)
  have cl3: "region_client (example_env ?b) (Region (Get_data ?f)) (Get_diags ?f) = Inr ?b"
    by (simp add: example_defs eval_defs)
  have desc3: "DescribeDBClusters ?b [] (ValueString (ClusterIdentifier (Get_data ?f))) = Inr (?cl # [])"
    by (simp add: example_defs)
  have fan: "\<not> (2 \<le> length ?ms \<and> (\<exists>m\<in>set ?ms. IsClusterWriter m = Some False) \<and>
              ForceFailover (Get_data ?f) = BoolValue True)"
    by (simp add: example_defs)
  have a: "mutations (calls_after []
     (fst (AuroraReboot_Create (example_env ?c) ?t []))) = [Call_FailoverDBCluster ''db-1'' ''db-1-b'']"
    using reboot_strategy[OF op1 plan1 cl1 desc1 wf refl refl refl refl]
    by (auto simp: example_defs first_reader_def)
  have all: "\<forall>j<length ?ms. RebootDBInstance ?c (?tr1 @ map ?rc (take j ?ms)) (instance_id (?ms ! j)) ?fo = None"
    by (simp add: example_defs)
  from reboot_strategy[OF op2 plan2 cl2 desc2 wf refl refl refl refl] fan
  have "(\<forall>j<length ?ms. RebootDBInstance ?c (?tr1 @ map ?rc (take j ?ms)) (instance_id (?ms ! j)) ?fo = None) \<longrightarrow>
          fst (AuroraReboot_Update (example_env ?c) ?f []) =
            (?tr1 @ map ?rc ?ms) @
            [Call_DBClusterAvailableWaiter_Wait (ValueString (ClusterIdentifier (Get_data ?f))) 30] \<and>
          mutations (calls_after [] (fst (AuroraReboot_Update (example_env ?c) ?f []))) = map ?rc ?ms"
    by (simp only: if_False) blast
  from this[THEN mp, OF all, THEN conjunct1]
  have b: "fst (AuroraReboot_Update (example_env ?c) ?f []) =
     [Call_DescribeDBClusters ''db-1'', Call_RebootDBInstance ''db-1-a'' (Some False),
      Call_RebootDBInstance ''db-1-b'' (Some False), Call_DBClusterAvailableWaiter_Wait ''db-1'' 30]"
    by (simp add: example_defs eval_defs)
  have k: "1 < length ?ms"
    by (simp add: example_defs)
  have ok: "\<forall>j<1. RebootDBInstance ?b (?tr1 @ map ?rc (take j ?ms)) (instance_id (?ms ! j)) ?fo = None"
    by (simp add: example_defs eval_defs)
  have err: "RebootDBInstance ?b (?tr1 @ map ?rc (take 1 ?ms)) (instance_id (?ms ! 1)) ?fo =
      Some ''InvalidDBInstanceState''"
    by (simp add: example_defs eval_defs)
  from reboot_strategy[OF op2 plan2 cl3 desc3 wf refl refl refl refl] fan
  have "\<forall>k<length ?ms. \<forall>err.
          (\<forall>j<k. RebootDBInstance ?b (?tr1 @ map ?rc (take j ?ms)) (instance_id (?ms ! j)) ?fo = None) \<and>
          RebootDBInstance ?b (?tr1 @ map ?rc (take k ?ms)) (instance_id (?ms ! k)) ?fo = Some err \<longrightarrow>
          AuroraReboot_Update (example_env ?b) ?f [] =
            (?tr1 @ map ?rc (take (Suc k) ?ms),
             Returned \<lparr>Diagnostics = AddError (Get_diags ?f) ''Error rebooting Aurora instance''
                         (''Could not reboot Aurora instance '' @ instance_id (?ms ! k) @ '': '' @ err),
                       State = None\<rparr>) \<and>
          mutations (calls_after [] (fst (AuroraReboot_Update (example_env ?b) ?f []))) =
            map ?rc (take (Suc k) ?ms)"
    by (simp only: if_False) blast
  from this[THEN spec, THEN mp, OF k, THEN spec, THEN mp, OF conjI[OF ok err], THEN conjunct1]
  have c: "AuroraReboot_Update (example_env ?b) ?f [] =
     ([Call_DescribeDBClusters ''db-1'', Call_RebootDBInstance ''db-1-a'' (Some False),
       Call_RebootDBInstance ''db-1-b'' (Some False)],
      Returned \<lparr>Diagnostics =
                  [Diagnostic SeverityError ''Error rebooting Aurora instance''
                     ''Could not reboot Aurora instance db-1-b: InvalidDBInstanceState''],
                State = None\<rparr>)"
    by (simp add: example_defs eval_defs)
  from a b c show ?thesis by simp
qed

section \<open>The loops of the Neptune reboot\<close>


lemma reboot_instances_first_error:
  assumes "k < length ms"
    and "\<forall>j<k. RebootDBInstance c (tr @ map neptune_reboot_call (take j ms))
           (instance_id (ms ! j)) None = None"
    and "RebootDBInstance c (tr @ map neptune_reboot_call (take k ms))
           (instance_id (ms ! k)) None = Some err"
  shows "reboot_instances c ds ms tr =
           (tr @ map neptune_reboot_call (take (Suc k) ms),
            Returns (AddError ds ''Error rebooting Neptune instance''
                       (''Could not reboot Neptune instance '' @ instance_id (ms ! k) @ '': '' @ err)))"
  using assms
proof (induction ms arbitrary: tr k)
  case Nil
  then show ?case by simp
next
  case (Cons m ms)
  let ?x = "neptune_reboot_call m"
  show ?case
  proof (cases k)
    case 0
    with Cons.prems(3) show ?thesis
      by (simp add: neptune_reboot_call_def instance_id_def Let_def)
  next
    case (Suc k')
    from Cons.prems(2)[rule_format, of 0] Suc
    have first: "RebootDBInstance c tr (instance_id m) None = None" by simp
    have rest: "\<forall>j<k'. RebootDBInstance c ((tr @ [?x]) @ map neptune_reboot_call (take j ms))
        (instance_id (ms ! j)) None = None"
    proof (intro allI impI)
      fix j assume "j < k'"
      with Cons.prems(2)[rule_format, of "Suc j"] Suc
      show "RebootDBInstance c ((tr @ [?x]) @ map neptune_reboot_call (take j ms))
        (instance_id (ms ! j)) None = None"
        by simp
    qed
    from Cons.prems(3) Suc
    have fails: "RebootDBInstance c ((tr @ [?x]) @ map neptune_reboot_call (take k' ms))
        (instance_id (ms ! k')) None = Some err"
      by simp
    from Cons.prems(1) Suc have k': "k' < length ms" by simp
    from Cons.IH[OF k' rest fails] first Suc show ?thesis
      by (simp add: neptune_reboot_call_def instance_id_def Let_def)
  qed
qed



section \<open>The fan-out and its first error\<close>


lemma NeptuneReboot_Create_run:
  assumes "\<not> HasError (Get_diags req)"
    and "region_client e (Region_NR (Get_data req)) (Get_diags req) = Inr c"
  shows "\<exists>save. NeptuneReboot_Create e req tr =
           finish (Get_diags req) save (NeptuneReboot_Create_reboot c (Get_data req) (Get_diags req) tr)"
  using assms by (auto simp: NeptuneReboot_Create_def Let_def)

lemma NeptuneReboot_Update_run:
  assumes "\<not> HasError (Get_diags req)"
    and "region_client e (Region_NR (Get_data req)) (Get_diags req) = Inr c"
  shows "\<exists>save. NeptuneReboot_Update e req tr =
           finish (Get_diags req) save (NeptuneReboot_Update_reboot c (Get_data req) (Get_diags req) tr)"
  using assms by (auto simp: NeptuneReboot_Update_def Let_def)

lemma NeptuneReboot_ops_described:
  assumes "f = NeptuneReboot_Create \<or> f = NeptuneReboot_Update"
    and "\<not> HasError (Get_diags req)"
    and "region_client e (Region_NR (Get_data req)) (Get_diags req) = Inr c"
    and "DescribeDBClusters c tr (ValueString (ClusterIdentifier_NR (Get_data req))) = Inr (cluster # others)"
    and "DBClusterMembers cluster \<noteq> []"
  shows "\<exists>save. f e req tr =
           finish (Get_diags req) save
             (reboot_then_wait c (Get_diags req) (DBClusterMembers cluster)
                (tr @ [Call_DescribeDBClusters (ValueString (ClusterIdentifier_NR (Get_data req)))]))"
proof -
  have "NeptuneReboot_Create_reboot c (Get_data req) (Get_diags req) tr =
          reboot_then_wait c (Get_diags req) (DBClusterMembers cluster)
            (tr @ [Call_DescribeDBClusters (ValueString (ClusterIdentifier_NR (Get_data req)))])"
    using assms(4,5) by (simp add: NeptuneReboot_Create_reboot_def Let_def)
  moreover have "NeptuneReboot_Update_reboot c (Get_data req) (Get_diags req) tr =
          reboot_then_wait c (Get_diags req) (DBClusterMembers cluster)
            (tr @ [Call_DescribeDBClusters (ValueString (ClusterIdentifier_NR (Get_data req)))])"
    using assms(4) by (simp add: NeptuneReboot_Update_reboot_def Let_def)
  ultimately show ?thesis
    using assms(1) NeptuneReboot_Create_run[OF assms(2,3), of tr]
      NeptuneReboot_Update_run[OF assms(2,3), of tr]
    by auto
qed

text \<open>
  Claim C6. In a per-member fan-out (the Aurora reboot when the failover is not chosen,
  the Neptune reboot always), the reboot calls are made in the order of the member
  list; when the call for member \<open>k\<close> is the first to fail, the calls made are the
  describe call and the reboots of the members up to \<open>k\<close>, no later member is
  rebooted, no wait is started, and the operation returns the error of that call.
\<close>

theorem fan_out_stops_at_first_error:
  assumes opA: "fA = AuroraReboot_Create \<or> fA = AuroraReboot_Update"
    and planA: "\<not> HasError (Get_diags reqA)"
    and clA: "region_client eA (Region (Get_data reqA)) (Get_diags reqA) = Inr cA"
    and descA: "DescribeDBClusters cA trA (ValueString (ClusterIdentifier (Get_data reqA))) = Inr (clusterA # othersA)"
    and wfA: "\<forall>m\<in>set (DBClusterMembers clusterA). IsClusterWriter m \<noteq> None \<and> DBInstanceIdentifier m \<noteq> None"
    and fanA: "\<not> (2 \<le> length (DBClusterMembers clusterA) \<and>
                 (\<exists>m\<in>set (DBClusterMembers clusterA). IsClusterWriter m = Some False) \<and>
                 ForceFailover (Get_data reqA) = BoolValue True)"
    and kA: "kA < length (DBClusterMembers clusterA)"
    and okA: "\<forall>j<kA. RebootDBInstance cA
                ((trA @ [Call_DescribeDBClusters (ValueString (ClusterIdentifier (Get_data reqA)))]) @
                 map (aurora_reboot_call (length (DBClusterMembers clusterA)) (ForceFailover (Get_data reqA)))
                   (take j (DBClusterMembers clusterA)))
                (instance_id (DBClusterMembers clusterA ! j))
                (reboot_ForceFailover (length (DBClusterMembers clusterA)) (ForceFailover (Get_data reqA))) = None"
    and errA: "RebootDBInstance cA
                ((trA @ [Call_DescribeDBClusters (ValueString (ClusterIdentifier (Get_data reqA)))]) @
                 map (aurora_reboot_call (length (DBClusterMembers clusterA)) (ForceFailover (Get_data reqA)))
                   (take kA (DBClusterMembers clusterA)))
                (instance_id (DBClusterMembers clusterA ! kA))
                (reboot_ForceFailover (length (DBClusterMembers clusterA)) (ForceFailover (Get_data reqA))) = Some errA"
    and opN: "fN = NeptuneReboot_Create \<or> fN = NeptuneReboot_Update"
    and planN: "\<not> HasError (Get_diags reqN)"
    and clN: "region_client eN (Region_NR (Get_data reqN)) (Get_diags reqN) = Inr cN"
    and descN: "DescribeDBClusters cN trN (ValueString (ClusterIdentifier_NR (Get_data reqN))) = Inr (clusterN # othersN)"
    and kN: "kN < length (DBClusterMembers clusterN)"
    and okN: "\<forall>j<kN. RebootDBInstance cN
                ((trN @ [Call_DescribeDBClusters (ValueString (ClusterIdentifier_NR (Get_data reqN)))]) @
                 map neptune_reboot_call (take j (DBClusterMembers clusterN)))
                (instance_id (DBClusterMembers clusterN ! j)) None = None"
    and errN: "RebootDBInstance cN
                ((trN @ [Call_DescribeDBClusters (ValueString (ClusterIdentifier_NR (Get_data reqN)))]) @
                 map neptune_reboot_call (take kN (DBClusterMembers clusterN)))
                (instance_id (DBClusterMembers clusterN ! kN)) None = Some errN"
  shows "fA eA reqA trA =
           ((trA @ [Call_DescribeDBClusters (ValueString (ClusterIdentifier (Get_data reqA)))]) @
            map (aurora_reboot_call (length (DBClusterMembers clusterA)) (ForceFailover (Get_data reqA)))
              (take (Suc kA) (DBClusterMembers clusterA)),
            Returned \<lparr>Diagnostics = AddError (Get_diags reqA) ''Error rebooting Aurora instance''
                        (''Could not reboot Aurora instance '' @ instance_id (DBClusterMembers clusterA ! kA) @
                         '': '' @ errA),
                      State = None\<rparr>) \<and>
         fN eN reqN trN =
           ((trN @ [Call_DescribeDBClusters (ValueString (ClusterIdentifier_NR (Get_data reqN)))]) @
            map neptune_reboot_call (take (Suc kN) (DBClusterMembers clusterN)),
            Returned \<lparr>Diagnostics = AddError (Get_diags reqN) ''Error rebooting Neptune instance''
                        (''Could not reboot Neptune instance '' @ instance_id (DBClusterMembers clusterN ! kN) @
                         '': '' @ errN),
                      State = None\<rparr>)"
proof
  let ?ms = "DBClusterMembers clusterA"
  from wfA have wfw: "\<forall>m\<in>set ?ms. IsClusterWriter m \<noteq> None" by simp
  from wfA have wfi: "\<forall>m\<in>set ?ms. DBInstanceIdentifier m \<noteq> None" by simp
  have uf: "\<not> use_failover (length ?ms) (first_reader ?ms \<noteq> None) (ForceFailover (Get_data reqA))"
    using fanA first_reader_None[of ?ms] by (auto simp: use_failover_iff)
  from AuroraReboot_ops_run[OF opA planA clA] obtain save where
    run: "fA eA reqA trA = finish (Get_diags reqA) save (AuroraReboot_reboot cA (Get_data reqA) (Get_diags reqA) trA)"
    by blast
  show "fA eA reqA trA =
           ((trA @ [Call_DescribeDBClusters (ValueString (ClusterIdentifier (Get_data reqA)))]) @
            map (aurora_reboot_call (length ?ms) (ForceFailover (Get_data reqA))) (take (Suc kA) ?ms),
            Returned \<lparr>Diagnostics = AddError (Get_diags reqA) ''Error rebooting Aurora instance''
                        (''Could not reboot Aurora instance '' @ instance_id (?ms ! kA) @ '': '' @ errA),
                      State = None\<rparr>)"
    unfolding run AuroraReboot_reboot_fanout[OF descA wfw uf]
      reboot_each_first_error[OF wfi kA okA errA]
    by (simp add: finish_def)
next
  let ?ms = "DBClusterMembers clusterN"
  from kN have ne: "?ms \<noteq> []" by auto
  from NeptuneReboot_ops_described[OF opN planN clN descN ne] obtain save where
    run: "fN eN reqN trN = finish (Get_diags reqN) save
             (reboot_then_wait cN (Get_diags reqN) ?ms
                (trN @ [Call_DescribeDBClusters (ValueString (ClusterIdentifier_NR (Get_data reqN)))]))"
    by blast
  show "fN eN reqN trN =
           ((trN @ [Call_DescribeDBClusters (ValueString (ClusterIdentifier_NR (Get_data reqN)))]) @
            map neptune_reboot_call (take (Suc kN) ?ms),
            Returned \<lparr>Diagnostics = AddError (Get_diags reqN) ''Error rebooting Neptune instance''
                        (''Could not reboot Neptune instance '' @ instance_id (?ms ! kN) @ '': '' @ errN),
                      State = None\<rparr>)"
    unfolding run reboot_then_wait_def reboot_instances_first_error[OF kN okN errN]
    by (simp add: finish_def)
qed

theorem fan_out_stops_at_first_error_witness:
  "AuroraReboot_Create (example_env (example_client db1_members [''db-1-b''] []))
     (aurora_request ''db-1'' BoolNull) [] =
     ([Call_DescribeDBClusters ''db-1'', Call_RebootDBInstance ''db-1-a'' None,
       Call_RebootDBInstance ''db-1-b'' None],
      Returned \<lparr>Diagnostics =
                  [Diagnostic SeverityError ''Error rebooting Aurora instance''
                     ''Could not reboot Aurora instance db-1-b: InvalidDBInstanceState''],
                State = None\<rparr>) \<and>
   NeptuneReboot_Update (example_env (example_client db1_members [''db-1-a''] []))
     (neptune_request ''db-1'') [] =
     ([Call_DescribeDBClusters ''db-1'', Call_RebootDBInstance ''db-1-a'' None],
      Returned \<lparr>Diagnostics =
                  [Diagnostic SeverityError ''Error rebooting Neptune instance''
                     ''Could not reboot Neptune instance db-1-a: InvalidDBInstanceState''],
                State = None\<rparr>)"
proof -
  let ?cA = "example_client db1_members [''db-1-b''] []"
  let ?cN = "example_client db1_members [''db-1-a''] []"
  let ?reqA = "aurora_request ''db-1'' BoolNull"
  let ?reqN = "neptune_request ''db-1''"
  let ?cl = "\<lparr>DBClusterMembers = db1_members, Status = Some ''available''\<rparr>"
  let ?trA = "[Call_DescribeDBClusters (ValueString (ClusterIdentifier (Get_data ?reqA)))]"
  let ?trN = "[Call_DescribeDBClusters (ValueString (ClusterIdentifier_NR (Get_data ?reqN)))]"
  let ?rc = "aurora_reboot_call (length (DBClusterMembers ?cl)) (ForceFailover (Get_data ?reqA))"
  let ?fo = "reboot_ForceFailover (length (DBClusterMembers ?cl)) (ForceFailover (Get_data ?reqA))"
  have opA: "AuroraReboot_Create = AuroraReboot_Create \<or> AuroraReboot_Create = AuroraReboot_Update"
    by simp
  have planA: "\<not> HasError (Get_diags ?reqA)"
    by (simp add: example_defs eval_defs)
  have clA: "region_client (example_env ?cA) (Region (Get_data ?reqA)) (Get_diags ?reqA) = Inr ?cA"
    by (simp add: example_defs eval_defs)
  have descA: "DescribeDBClusters ?cA [] (ValueString (ClusterIdentifier (Get_data ?reqA))) = Inr (?cl # [])"
    by (simp add: example_defs)
  have wfA: "\<forall>m\<in>set (DBClusterMembers ?cl). IsClusterWriter m \<noteq> None \<and> DBInstanceIdentifier m \<noteq> None"
    by (auto simp: example_defs)
  have fanA: "\<not> (2 \<le> length (DBClusterMembers ?cl) \<and>
                 (\<exists>m\<in>set (DBClusterMembers ?cl). IsClusterWriter m = Some False) \<and>
                 ForceFailover (Get_data ?reqA) = BoolValue True)"
    by (simp add: example_defs)
  have kA: "1 < length (DBClusterMembers ?cl)"
    by (simp add: example_defs)
  have okA: "\<forall>j<1. RebootDBInstance ?cA (([] @ ?trA) @ map ?rc (take j (DBClusterMembers ?cl)))
                (instance_id (DBClusterMembers ?cl ! j)) ?fo = None"
    by (simp add: example_defs eval_defs)
  have errA: "RebootDBInstance ?cA (([] @ ?trA) @ map ?rc (take 1 (DBClusterMembers ?cl)))
                (instance_id (DBClusterMembers ?cl ! 1)) ?fo = Some ''InvalidDBInstanceState''"
    by (simp add: example_defs eval_defs)
  have opN: "NeptuneReboot_Update = NeptuneReboot_Create \<or> NeptuneReboot_Update = NeptuneReboot_Update"
    by simp
  have planN: "\<not> HasError (Get_diags ?reqN)"
    by (simp add: example_defs eval_defs)
  have clN: "region_client (example_env ?cN) (Region_NR (Get_data ?reqN)) (Get_diags ?reqN) = Inr ?cN"
    by (simp add: example_defs eval_defs)
  have descN: "DescribeDBClusters ?cN [] (ValueString (ClusterIdentifier_NR (Get_data ?reqN))) = Inr (?cl # [])"
    by (simp add: example_defs)
  have kN: "0 < length (DBClusterMembers ?cl)"
    by (simp add: example_defs)
  have okN: "\<forall>j<0. RebootDBInstance ?cN (([] @ ?trN) @ map neptune_reboot_call (take j (DBClusterMembers ?cl)))
                (instance_id (DBClusterMembers ?cl ! j)) None = None"
    by simp
  have errN: "RebootDBInstance ?cN (([] @ ?trN) @ map neptune_reboot_call (take 0 (DBClusterMembers ?cl)))
                (instance_id (DBClusterMembers ?cl ! 0)) None = Some ''InvalidDBInstanceState''"
    by (simp add: example_defs eval_defs)
  from fan_out_stops_at_first_error
         [OF opA planA clA descA wfA fanA kA okA errA opN planN clN descN kN okN errN]
  show ?thesis
    by (simp add: example_defs eval_defs)
qed

section \<open>Single members and the force-failover hint\<close>

lemma reboot_ForceFailover_single [simp]: "reboot_ForceFailover (Suc 0) ff = None"
  by (simp add: reboot_ForceFailover_def)

lemma reboot_ForceFailover_set:
  "2 \<le> n \<Longrightarrow> \<not> Bool_IsNull ff \<Longrightarrow> reboot_ForceFailover n ff = Some (ValueBool ff)"
  by (simp add: reboot_ForceFailover_def)

text \<open>
  Claim C7. When the described cluster has exactly one member, the only mutation a
  reboot makes is one reboot call for that member, and the call carries no
  ForceFailover field, whatever the force-failover attribute: for the Aurora reboot
  (the member having its role and identifier set) and for the Neptune reboot.
\<close>

theorem single_member_reboot:
  assumes opA: "fA = AuroraReboot_Create \<or> fA = AuroraReboot_Update"
    and planA: "\<not> HasError (Get_diags reqA)"
    and clA: "region_client eA (Region (Get_data reqA)) (Get_diags reqA) = Inr cA"
    and descA: "DescribeDBClusters cA trA (ValueString (ClusterIdentifier (Get_data reqA))) = Inr (clusterA # othersA)"
    and oneA: "DBClusterMembers clusterA = [mA]"
    and wfA: "IsClusterWriter mA \<noteq> None \<and> DBInstanceIdentifier mA \<noteq> None"
    and opN: "fN = NeptuneReboot_Create \<or> fN = NeptuneReboot_Update"
    and planN: "\<not> HasError (Get_diags reqN)"
    and clN: "region_client eN (Region_NR (Get_data reqN)) (Get_diags reqN) = Inr cN"
    and descN: "DescribeDBClusters cN trN (ValueString (ClusterIdentifier_NR (Get_data reqN))) = Inr (clusterN # othersN)"
    and oneN: "DBClusterMembers clusterN = [mN]"
  shows "mutations (calls_after trA (fst (fA eA reqA trA))) = [Call_RebootDBInstance (instance_id mA) None] \<and>
         mutations (calls_after trN (fst (fN eN reqN trN))) = [Call_RebootDBInstance (instance_id mN) None]"
proof
  from wfA oneA have wf: "\<forall>m\<in>set (DBClusterMembers clusterA). IsClusterWriter m \<noteq> None \<and> DBInstanceIdentifier m \<noteq> None"
    by simp
  have uf: "\<not> use_failover (length (DBClusterMembers clusterA))
      (first_reader (DBClusterMembers clusterA) \<noteq> None) (ForceFailover (Get_data reqA))"
    using oneA by (simp add: use_failover_def)
  from AuroraReboot_fanout_mutations[OF opA planA clA descA wf uf]
  obtain k where k: "k \<le> length (DBClusterMembers clusterA)"
    "mutations (calls_after trA (fst (fA eA reqA trA))) =
       map (aurora_reboot_call (length (DBClusterMembers clusterA)) (ForceFailover (Get_data reqA)))
         (take k (DBClusterMembers clusterA))"
    "k = length (DBClusterMembers clusterA) \<or> 0 < k" by blast
  from k(1,3) oneA have "k = 1" by auto
  with k(2) oneA show "mutations (calls_after trA (fst (fA eA reqA trA))) =
      [Call_RebootDBInstance (instance_id mA) None]"
    by (simp add: aurora_reboot_call_def)
next
  let ?tr1 = "trN @ [Call_DescribeDBClusters (ValueString (ClusterIdentifier_NR (Get_data reqN)))]"
  let ?r = "Call_RebootDBInstance (instance_id mN) None"
  from oneN have ne: "DBClusterMembers clusterN \<noteq> []" by simp
  from NeptuneReboot_ops_described[OF opN planN clN descN ne] oneN obtain save where
    run: "fN eN reqN trN = finish (Get_diags reqN) save (reboot_then_wait cN (Get_diags reqN) [mN] ?tr1)"
    by auto
  have "mutations (calls_after trN (fst (reboot_then_wait cN (Get_diags reqN) [mN] ?tr1))) = [?r]"
    by (auto simp: reboot_then_wait_def instance_id_def Let_def mutations_Cons split: option.splits)
  then show "mutations (calls_after trN (fst (fN eN reqN trN))) = [?r]"
    unfolding run by simp
qed

theorem single_member_reboot_witness:
  "mutations (calls_after []
     (fst (AuroraReboot_Create (example_env (example_client db2_members [] []))
             (aurora_request ''db-2'' (BoolValue True)) []))) =
     [Call_RebootDBInstance ''db-2-a'' None] \<and>
   mutations (calls_after []
     (fst (NeptuneReboot_Create (example_env (example_client db2_members [] []))
             (neptune_request ''db-2'') []))) =
     [Call_RebootDBInstance ''db-2-a'' None]"
proof -
  let ?c = "example_client db2_members [] []"
  let ?cl = "\<lparr>DBClusterMembers = db2_members, Status = Some ''available''\<rparr>"
  let ?m = "\<lparr>DBInstanceIdentifier = Some ''db-2-a'', IsClusterWriter = Some True\<rparr>"
  let ?reqA = "aurora_request ''db-2'' (BoolValue True)"
  let ?reqN = "neptune_request ''db-2''"
  have opA: "AuroraReboot_Create = AuroraReboot_Create \<or> AuroraReboot_Create = AuroraReboot_Update"
    by simp
  have planA: "\<not> HasError (Get_diags ?reqA)"
    by (simp add: example_defs eval_defs)
  have clA: "region_client (example_env ?c) (Region (Get_data ?reqA)) (Get_diags ?reqA) = Inr ?c"
    by (simp add: example_defs eval_defs)
  have descA: "DescribeDBClusters ?c [] (ValueString (ClusterIdentifier (Get_data ?reqA))) = Inr (?cl # [])"
    by (simp add: example_defs)
  have one: "DBClusterMembers ?cl = [?m]"
    by (simp add: example_defs)
  have wf: "IsClusterWriter ?m \<noteq> None \<and> DBInstanceIdentifier ?m \<noteq> None"
    by simp
  have opN: "NeptuneReboot_Create = NeptuneReboot_Create \<or> NeptuneReboot_Create = NeptuneReboot_Update"
    by simp
  have planN: "\<not> HasError (Get_diags ?reqN)"
    by (simp add: example_defs eval_defs)
  have clN: "region_client (example_env ?c) (Region_NR (Get_data ?reqN)) (Get_diags ?reqN) = Inr ?c"
    by (simp add: example_defs eval_defs)
  have descN: "DescribeDBClusters ?c [] (ValueString (ClusterIdentifier_NR (Get_data ?reqN))) = Inr (?cl # [])"
    by (simp add: example_defs)
  from single_member_reboot[OF opA planA clA descA one wf opN planN clN descN one]
  show ?thesis by (simp add: instance_id_def)
qed

text \<open>
  Claim C10. In the per-member fan-out of the Aurora reboot (Create or Update), when
  the cluster has at least 2 members and the force-failover attribute is not null, at
  least one reboot call is made and every reboot call made carries the value of the
  attribute in its ForceFailover field, also when that value is false.
\<close>

theorem force_failover_forwarded_when_set:
  assumes op: "f = AuroraReboot_Create \<or> f = AuroraReboot_Update"
    and plan: "\<not> HasError (Get_diags req)"
    and cl: "region_client e (Region (Get_data req)) (Get_diags req) = Inr c"
    and desc: "DescribeDBClusters c tr (ValueString (ClusterIdentifier (Get_data req))) = Inr (cluster # others)"
    and wf: "\<forall>m\<in>set (DBClusterMembers cluster). IsClusterWriter m \<noteq> None \<and> DBInstanceIdentifier m \<noteq> None"
    and two: "2 \<le> length (DBClusterMembers cluster)"
    and set: "\<not> Bool_IsNull (ForceFailover (Get_data req))"
    and fan: "\<not> ((\<exists>m\<in>set (DBClusterMembers cluster). IsClusterWriter m = Some False) \<and>
                ForceFailover (Get_data req) = BoolValue True)"
  shows "\<exists>k. 0 < k \<and> k \<le> length (DBClusterMembers cluster) \<and>
           mutations (calls_after tr (fst (f e req tr))) =
             map (\<lambda>m. Call_RebootDBInstance (instance_id m) (Some (ValueBool (ForceFailover (Get_data req)))))
               (take k (DBClusterMembers cluster))"
proof -
  have uf: "\<not> use_failover (length (DBClusterMembers cluster))
      (first_reader (DBClusterMembers cluster) \<noteq> None) (ForceFailover (Get_data req))"
    using fan first_reader_None[of "DBClusterMembers cluster"] by (auto simp: use_failover_iff)
  from AuroraReboot_fanout_mutations[OF op plan cl desc wf uf]
  obtain k where k: "k \<le> length (DBClusterMembers cluster)"
    "mutations (calls_after tr (fst (f e req tr))) =
       map (aurora_reboot_call (length (DBClusterMembers cluster)) (ForceFailover (Get_data req)))
         (take k (DBClusterMembers cluster))"
    "k = length (DBClusterMembers cluster) \<or> 0 < k" by blast
  from k(3) two have "0 < k" by auto
  moreover have "aurora_reboot_call (length (DBClusterMembers cluster)) (ForceFailover (Get_data req)) =
      (\<lambda>m. Call_RebootDBInstance (instance_id m) (Some (ValueBool (ForceFailover (Get_data req)))))"
    by (rule ext) (simp add: aurora_reboot_call_def reboot_ForceFailover_set[OF two set])
  ultimately show ?thesis using k(1,2) by auto
qed

theorem force_failover_forwarded_when_set_witness:
  "mutations (calls_after []
     (fst (AuroraReboot_Create (example_env (example_client db1_members [] []))
             (aurora_request ''db-1'' (BoolValue False)) []))) =
     [Call_RebootDBInstance ''db-1-a'' (Some False), Call_RebootDBInstance ''db-1-b'' (Some False)]"
proof -
  let ?c = "example_client db1_members [] []"
  let ?cl = "\<lparr>DBClusterMembers = db1_members, Status = Some ''available''\<rparr>"
  let ?req = "aurora_request ''db-1'' (BoolValue False)"
  have op: "AuroraReboot_Create = AuroraReboot_Create \<or> AuroraReboot_Create = AuroraReboot_Update"
    by simp
  have plan: "\<not> HasError (Get_diags ?req)"
    by (simp add: example_defs eval_defs)
  have cl: "region_client (example_env ?c) (Region (Get_data ?req)) (Get_diags ?req) = Inr ?c"
    by (simp add: example_defs eval_defs)
  have desc: "DescribeDBClusters ?c [] (ValueString (ClusterIdentifier (Get_data ?req))) = Inr (?cl # [])"
    by (simp add: example_defs)
  have wf: "\<forall>m\<in>set (DBClusterMembers ?cl). IsClusterWriter m \<noteq> None \<and> DBInstanceIdentifier m \<noteq> None"
    by (auto simp: db1_members_def)
  have two: "2 \<le> length (DBClusterMembers ?cl)"
    by (simp add: example_defs)
  have set: "\<not> Bool_IsNull (ForceFailover (Get_data ?req))"
    by (simp add: example_defs)
  have fan: "\<not> ((\<exists>m\<in>set (DBClusterMembers ?cl). IsClusterWriter m = Some False) \<and>
                ForceFailover (Get_data ?req) = BoolValue True)"
    by (simp add: example_defs)
  from force_failover_forwarded_when_set[OF op plan cl desc wf two set fan]
  show ?thesis
    by (auto simp: example_defs eval_defs model_defs)
qed

section \<open>Missing clusters and empty member lists\<close>

lemma Format_RFC3339_nonempty: "Format_RFC3339 t \<noteq> []"
  by (simp add: Format_RFC3339_def pad4_def)

lemma Format_RFC3339_example:
  "Format_RFC3339 (time_Now (example_env c) h) = ''2026-10-30T12:00:00Z''"
  by (simp add: Format_RFC3339_def example_env_def pad2_def pad4_def digit_def zone_RFC3339_def)

text \<open>
  Claim C2, at the inputs where the code departs from it: the cluster exists and has
  no member. The Aurora reboot (here Create) and the Neptune Update make no reboot
  call and save a state with a reboot time, where the claim has them fail with an
  empty-topology error as the Neptune Create does.
\<close>

theorem empty_topology_not_refused:
  "AuroraReboot_Create (example_env (example_client [] [] [])) (aurora_request ''db-1'' BoolNull) [] =
     ([Call_DescribeDBClusters ''db-1'', Call_DBClusterAvailableWaiter_Wait ''db-1'' 30],
      Returned \<lparr>Diagnostics = [],
                State = Some \<lparr>ClusterIdentifier = StringValue ''db-1'', Region = StringNull,
                               ForceFailover = BoolNull,
                               LastRebootTime = StringValue ''2026-10-30T12:00:00Z'',
                               ID = StringValue ''db-1''\<rparr>\<rparr>) \<and>
   NeptuneReboot_Update (example_env (example_client [] [] [])) (neptune_request ''np-1'') [] =
     ([Call_DescribeDBClusters ''np-1''],
      Returned \<lparr>Diagnostics = [],
                State = Some \<lparr>ClusterIdentifier_NR = StringValue ''np-1'', Region_NR = StringNull,
                               LastRebootTime_NR = StringValue ''2026-10-30T12:00:00Z'',
                               ID_NR = StringUnknown\<rparr>\<rparr>)"
  by (simp add: model_defs eval_defs Format_RFC3339_example)
     (simp add: example_defs model_defs eval_defs)

text \<open>
  Claim C9. For the Neptune reboot of a cluster that exists and whose member list is
  empty, Update makes the describe call and no other call (no reboot, no wait) and
  saves the state with a fresh, non-empty reboot time and no error, while Create on
  the same input returns the error that the cluster has no instances.
\<close>

theorem empty_member_list_refused_by_Create_only:
  assumes plan: "\<not> HasError (Get_diags req)"
    and cl: "region_client e (Region_NR (Get_data req)) (Get_diags req) = Inr c"
    and desc: "DescribeDBClusters c tr (ValueString (ClusterIdentifier_NR (Get_data req))) = Inr (cluster # others)"
    and empty: "DBClusterMembers cluster = []"
  shows "NeptuneReboot_Update e req tr =
           (tr @ [Call_DescribeDBClusters (ValueString (ClusterIdentifier_NR (Get_data req)))],
            Returned \<lparr>Diagnostics = Get_diags req,
                      State = Some ((Get_data req)\<lparr>LastRebootTime_NR := StringValue (Format_RFC3339
                        (time_Now e (tr @ [Call_DescribeDBClusters (ValueString (ClusterIdentifier_NR (Get_data req)))])))\<rparr>)\<rparr>) \<and>
         Format_RFC3339
           (time_Now e (tr @ [Call_DescribeDBClusters (ValueString (ClusterIdentifier_NR (Get_data req)))])) \<noteq> [] \<and>
         NeptuneReboot_Create e req tr =
           (tr @ [Call_DescribeDBClusters (ValueString (ClusterIdentifier_NR (Get_data req)))],
            Returned \<lparr>Diagnostics = AddError (Get_diags req) ''No instances in cluster''
                        (''Neptune cluster '' @ ValueString (ClusterIdentifier_NR (Get_data req)) @
                         '' has no instances to reboot''),
                      State = None\<rparr>)"
  using assms
  by (simp add: NeptuneReboot_Update_def NeptuneReboot_Update_reboot_def NeptuneReboot_Create_def
      NeptuneReboot_Create_reboot_def reboot_then_wait_def finish_def Let_def Format_RFC3339_nonempty)

theorem empty_member_list_refused_by_Create_only_witness:
  "NeptuneReboot_Update (example_env (example_client [] [] [])) (neptune_request ''np-1'') [] =
     ([Call_DescribeDBClusters ''np-1''],
      Returned \<lparr>Diagnostics = [],
                State = Some \<lparr>ClusterIdentifier_NR = StringValue ''np-1'', Region_NR = StringNull,
                               LastRebootTime_NR = StringValue ''2026-10-30T12:00:00Z'',
                               ID_NR = StringUnknown\<rparr>\<rparr>) \<and>
   NeptuneReboot_Create (example_env (example_client [] [] [])) (neptune_request ''np-1'') [] =
     ([Call_DescribeDBClusters ''np-1''],
      Returned \<lparr>Diagnostics = [Diagnostic SeverityError ''No instances in cluster''
                                 ''Neptune cluster np-1 has no instances to reboot''],
                State = None\<rparr>)"
proof -
  let ?c = "example_client [] [] []"
  let ?req = "neptune_request ''np-1''"
  let ?cl = "\<lparr>DBClusterMembers = [], Status = Some ''available''\<rparr>"
  have plan: "\<not> HasError (Get_diags ?req)"
    by (simp add: example_defs eval_defs)
  have cl: "region_client (example_env ?c) (Region_NR (Get_data ?req)) (Get_diags ?req) = Inr ?c"
    by (simp add: example_defs eval_defs)
  have desc: "DescribeDBClusters ?c [] (ValueString (ClusterIdentifier_NR (Get_data ?req))) = Inr (?cl # [])"
    by (simp add: example_defs)
  have empty: "DBClusterMembers ?cl = []"
    by simp
  from empty_member_list_refused_by_Create_only[OF plan cl desc empty]
  show ?thesis
    by (simp add: Format_RFC3339_example) (simp add: example_defs eval_defs)
qed



text \<open>
  Read looks at the error of the describe call only: an answer without error is taken
  as the cluster being there, also when it lists no cluster.
\<close>

lemma read_keeps_state_without_error:
  assumes "\<not> HasError (Get_diags req)"
    and "region_client e (Region (Get_data req)) (Get_diags req) = Inr c"
    and "DescribeDBClusters c tr (ValueString (ClusterIdentifier (Get_data req))) = Inr clusters"
  shows "AuroraReboot_Read e req tr =
           (tr @ [Call_DescribeDBClusters (ValueString (ClusterIdentifier (Get_data req)))],
            Returned \<lparr>Diagnostics = Get_diags req, State = Some (Get_data req)\<rparr>)"
  using assms by (simp add: AuroraReboot_Read_def Let_def)

section \<open>The waits\<close>

lemma waits_append [simp]: "waits (xs @ ys) = waits xs @ waits ys"
  by (simp add: waits_def)

lemma waits_Nil [simp]: "waits [] = []"
  by (simp add: waits_def)


lemma watched_append [simp]: "watched (xs @ ys) = watched xs @ watched ys"
  by (induction xs rule: watched.induct) simp_all



lemma HasError_AddError [simp]: "HasError (AddError ds summary detail)"
  by (simp add: HasError_def AddError_def)






lemma AuroraReboot_ops_cases:
  assumes "f = AuroraReboot_Create \<or> f = AuroraReboot_Update"
  shows "(f e req tr = (tr, Returned \<lparr>Diagnostics = Get_diags req, State = None\<rparr>) \<and>
            HasError (Get_diags req)) \<or>
         (\<exists>ds'. f e req tr = (tr, Returned \<lparr>Diagnostics = ds', State = None\<rparr>) \<and> HasError ds' \<and>
            region_client e (Region (Get_data req)) (Get_diags req) = Inl ds') \<or>
         (\<exists>c save. \<not> HasError (Get_diags req) \<and>
            region_client e (Region (Get_data req)) (Get_diags req) = Inr c \<and>
            f e req tr = finish (Get_diags req) save (AuroraReboot_reboot c (Get_data req) (Get_diags req) tr) \<and>
            (\<forall>tr'. LastRebootTime (save tr') = StringValue (Format_RFC3339 (time_Now e tr'))))"
proof (cases "HasError (Get_diags req)")
  case True
  with assms show ?thesis
    by (auto simp: AuroraReboot_Create_def AuroraReboot_Update_def Let_def)
next
  case False
  show ?thesis
  proof (cases "region_client e (Region (Get_data req)) (Get_diags req)")
    case (Inl ds')
    then have "HasError ds'"
      by (auto simp: region_client_def split: if_splits sum.splits)
    with Inl False assms show ?thesis
      by (auto simp: AuroraReboot_Create_def AuroraReboot_Update_def Let_def)
  next
    case (Inr c)
    with False assms show ?thesis
      by (auto simp: AuroraReboot_Create_def AuroraReboot_Update_def Let_def)
  qed
qed








section \<open>The polling loop\<close>

declare poll_available.simps [simp del]

lemma poll_history_0 [simp]: "poll_history cid tr 0 = tr"
  by (simp add: poll_history_def)

lemma poll_history_Suc:
  "poll_history cid tr (Suc j) =
     poll_history cid (tr @ [Call_DescribeDBClusters cid, Call_Sleep 30]) j"
  by (simp add: poll_history_def)

lemma poll_available_timeout:
  assumes "i < n"
    and "\<forall>j<n - i. \<exists>r. DescribeDBClusters c (poll_history cid tr j) cid = Inr r \<and>
                       cluster_available r = Some False"
  shows "poll_available c cid ds n i tr =
           (poll_history cid tr (n - 1 - i) @ [Call_DescribeDBClusters cid],
            Returns (AddError ds ''Timeout waiting for Neptune cluster''
                       ''Neptune cluster did not become available within 30 minutes''))"
  using assms
proof (induction "n - i" arbitrary: i tr)
  case 0
  then show ?case by simp
next
  case (Suc m)
  from Suc.prems(2)[rule_format, of 0] Suc.prems(1)
  obtain r where r: "DescribeDBClusters c tr cid = Inr r" "cluster_available r = Some False"
    by auto
  show ?case
  proof (cases "i = n - 1")
    case True
    with r Suc.prems(1) show ?thesis
      by (subst poll_available.simps) simp
  next
    case False
    with Suc.prems(1) have lt: "i + 1 < n" by simp
    from Suc.hyps(2) have m: "m = n - (i + 1)" by simp
    have rest: "\<forall>j<n - (i + 1). \<exists>r. DescribeDBClusters c
          (poll_history cid (tr @ [Call_DescribeDBClusters cid, Call_Sleep 30]) j) cid = Inr r \<and>
          cluster_available r = Some False"
    proof (intro allI impI)
      fix j assume "j < n - (i + 1)"
      then have "Suc j < n - i" by simp
      from Suc.prems(2)[rule_format, OF this] show "\<exists>r. DescribeDBClusters c
          (poll_history cid (tr @ [Call_DescribeDBClusters cid, Call_Sleep 30]) j) cid = Inr r \<and>
          cluster_available r = Some False"
        by (simp add: poll_history_Suc)
    qed
    have idx: "Suc (n - 1 - (i + 1)) = n - 1 - i" using lt by simp
    from Suc.hyps(1)[OF m lt rest]
    have "poll_available c cid ds n (i + 1) (tr @ [Call_DescribeDBClusters cid, Call_Sleep 30]) =
            (poll_history cid tr (n - 1 - i) @ [Call_DescribeDBClusters cid],
             Returns (AddError ds ''Timeout waiting for Neptune cluster''
                        ''Neptune cluster did not become available within 30 minutes''))"
      by (simp only: poll_history_Suc[symmetric] idx)
    with r False Suc.prems(1) show ?thesis
      by (subst poll_available.simps) simp
  qed
qed

lemma poll_available_at:
  assumes "i + k < n"
    and "\<forall>j<k. \<exists>r. DescribeDBClusters c (poll_history cid tr j) cid = Inr r \<and>
                   cluster_available r = Some False"
    and "\<exists>r. DescribeDBClusters c (poll_history cid tr k) cid = Inr r \<and>
              cluster_available r = Some True"
  shows "poll_available c cid ds n i tr = (poll_history cid tr k @ [Call_DescribeDBClusters cid], Continue)"
  using assms
proof (induction k arbitrary: i tr)
  case 0
  then show ?case
    by (subst poll_available.simps) auto
next
  case (Suc k)
  from Suc.prems(2)[rule_format, of 0]
  obtain r where r: "DescribeDBClusters c tr cid = Inr r" "cluster_available r = Some False"
    by auto
  from Suc.prems(1) have lt: "i + 1 + k < n" and ne: "i \<noteq> n - 1" and i: "i < n" by simp_all
  have rest: "\<forall>j<k. \<exists>r. DescribeDBClusters c
        (poll_history cid (tr @ [Call_DescribeDBClusters cid, Call_Sleep 30]) j) cid = Inr r \<and>
        cluster_available r = Some False"
  proof (intro allI impI)
    fix j assume "j < k"
    then have "Suc j < Suc k" by simp
    from Suc.prems(2)[rule_format, OF this] show "\<exists>r. DescribeDBClusters c
        (poll_history cid (tr @ [Call_DescribeDBClusters cid, Call_Sleep 30]) j) cid = Inr r \<and>
        cluster_available r = Some False"
      by (simp add: poll_history_Suc)
  qed
  from Suc.prems(3) have last: "\<exists>r. DescribeDBClusters c
        (poll_history cid (tr @ [Call_DescribeDBClusters cid, Call_Sleep 30]) k) cid = Inr r \<and>
        cluster_available r = Some True"
    by (simp add: poll_history_Suc)
  from Suc.IH[OF lt rest last]
  have "poll_available c cid ds n (i + 1) (tr @ [Call_DescribeDBClusters cid, Call_Sleep 30]) =
          (poll_history cid tr (Suc k) @ [Call_DescribeDBClusters cid], Continue)"
    by (simp only: poll_history_Suc[symmetric])
  with r ne i show ?case
    by (subst poll_available.simps) simp
qed

lemma AddError_eq_iff [simp]:
  "AddError ds s d = AddError ds s' d' \<longleftrightarrow> s = s' \<and> d = d'"
  by (simp add: AddError_def)

lemma poll_available_timeout_last:
  assumes "poll_available c cid ds n i tr =
             (tr', Returns (AddError ds ''Timeout waiting for Neptune cluster'' detail))"
  shows "i < n \<and> tr' = poll_history cid tr (n - 1 - i) @ [Call_DescribeDBClusters cid]"
  using assms
proof (induction "n - i" arbitrary: i tr)
  case 0
  then show ?case
    by (subst (asm) poll_available.simps) simp
next
  case (Suc m)
  then have i: "i < n" by simp
  show ?case
  proof (cases "DescribeDBClusters c tr cid")
    case (Inl err)
    with Suc.prems i show ?thesis
      by (subst (asm) poll_available.simps) simp
  next
    case (Inr r)
    show ?thesis
    proof (cases "cluster_available r")
      case None
      with Suc.prems i Inr show ?thesis
        by (subst (asm) poll_available.simps) simp
    next
      case (Some a)
      show ?thesis
      proof (cases a)
        case True
        with Suc.prems i Inr Some show ?thesis
          by (subst (asm) poll_available.simps) simp
      next
        case False
        show ?thesis
        proof (cases "i = n - 1")
          case True
          with Suc.prems i Inr Some False show ?thesis
            by (subst (asm) poll_available.simps) simp
        next
          case ne: False
          with i have lt: "i + 1 < n" by simp
          from Suc.hyps(2) have m: "m = n - (i + 1)" by simp
          from Suc.prems i Inr Some False ne
          have "poll_available c cid ds n (i + 1) (tr @ [Call_DescribeDBClusters cid, Call_Sleep 30]) =
                  (tr', Returns (AddError ds ''Timeout waiting for Neptune cluster'' detail))"
            by (subst (asm) poll_available.simps) simp
          from Suc.hyps(1)[OF m this]
          have "tr' = poll_history cid (tr @ [Call_DescribeDBClusters cid, Call_Sleep 30]) (n - 1 - (i + 1)) @
                  [Call_DescribeDBClusters cid]" by simp
          moreover have "Suc (n - 1 - (i + 1)) = n - 1 - i" using lt by simp
          ultimately show ?thesis using i
            by (metis poll_history_Suc)
        qed
      qed
    qed
  qed
qed

lemma describes_in_poll_history:
  "length (filter (\<lambda>x. x = Call_DescribeDBClusters cid)
     (calls_after tr (poll_history cid tr j @ [Call_DescribeDBClusters cid]))) = Suc j"
  by (induction j) (simp_all add: poll_history_def)

lemma NeptuneModify_ops_run:
  assumes "f = NeptuneModify_Create \<or> f = NeptuneModify_Update"
    and "\<not> HasError (Get_diags req)"
    and "region_client e (Region_NM (Get_data req)) (Get_diags req) = Inr c"
    and "\<not> HasError (logs_diags ElementsAs (Get_data req) (Get_diags req))"
    and "ModifyDBCluster c tr (modify_input ElementsAs (Get_data req)) = None"
  shows "\<exists>save. f ElementsAs e req tr =
           finish (logs_diags ElementsAs (Get_data req) (Get_diags req)) save
             (poll_available c (ValueString (ClusterIdentifier_NM (Get_data req)))
                (logs_diags ElementsAs (Get_data req) (Get_diags req)) maxAttempts 0
                (tr @ [Call_ModifyDBCluster (modify_input ElementsAs (Get_data req))]))"
  using assms
  by (auto simp: NeptuneModify_Create_def NeptuneModify_Update_def NeptuneModify_modify_def Let_def
      split: prod.splits)

lemma length_poll_history [simp]: "length (poll_history cid tr j) = length tr + 2 * j"
  by (induction j) (simp_all add: poll_history_def)

text \<open>
  Claim C4. For the Neptune modify (Create or Update), once the modify call has
  succeeded, with \<open>tr0\<close> the history at the first attempt of the polling loop:
  when each of the 60 describe calls is answered without error and shows a cluster
  that is not available, the operation makes all 60 describe calls, with a sleep of 30
  seconds between them, and then returns the timeout error naming the 30 minutes;
  whenever it returns that timeout error it has made all 60 describe calls, so never
  earlier; and when the describe call of attempt \<open>k\<close> is the first to show the cluster
  available, that call is the last call of the operation and the state is saved.
\<close>

theorem poll_times_out_after_all_attempts_only:
  assumes op: "f = NeptuneModify_Create \<or> f = NeptuneModify_Update"
    and plan: "\<not> HasError (Get_diags req)"
    and cl: "region_client e (Region_NM (Get_data req)) (Get_diags req) = Inr c"
    and ds1: "ds1 = logs_diags ElementsAs (Get_data req) (Get_diags req)"
    and logs: "\<not> HasError ds1"
    and modify: "ModifyDBCluster c tr (modify_input ElementsAs (Get_data req)) = None"
    and tr0: "tr0 = tr @ [Call_ModifyDBCluster (modify_input ElementsAs (Get_data req))]"
    and cid: "cid = ValueString (ClusterIdentifier_NM (Get_data req))"
  shows "((\<forall>j<60. \<exists>r. DescribeDBClusters c (poll_history cid tr0 j) cid = Inr r \<and>
                       cluster_available r = Some False) \<longrightarrow>
          f ElementsAs e req tr =
            (poll_history cid tr0 59 @ [Call_DescribeDBClusters cid],
             Returned \<lparr>Diagnostics = AddError ds1 ''Timeout waiting for Neptune cluster''
                         ''Neptune cluster did not become available within 30 minutes'',
                       State = None\<rparr>) \<and>
          length (filter (\<lambda>x. x = Call_DescribeDBClusters cid)
                    (calls_after tr0 (fst (f ElementsAs e req tr)))) = 60) \<and>
         (\<forall>detail. snd (f ElementsAs e req tr) =
                     Returned \<lparr>Diagnostics = AddError ds1 ''Timeout waiting for Neptune cluster'' detail,
                               State = None\<rparr> \<longrightarrow>
            fst (f ElementsAs e req tr) = poll_history cid tr0 59 @ [Call_DescribeDBClusters cid]) \<and>
         (\<forall>k<60. (\<forall>j<k. \<exists>r. DescribeDBClusters c (poll_history cid tr0 j) cid = Inr r \<and>
                              cluster_available r = Some False) \<and>
                 (\<exists>r. DescribeDBClusters c (poll_history cid tr0 k) cid = Inr r \<and>
                      cluster_available r = Some True) \<longrightarrow>
            fst (f ElementsAs e req tr) = poll_history cid tr0 k @ [Call_DescribeDBClusters cid] \<and>
            saved (snd (f ElementsAs e req tr)) \<noteq> None)"
proof -
  from NeptuneModify_ops_run[OF op plan cl logs[unfolded ds1] modify] obtain save where
    run: "f ElementsAs e req tr = finish ds1 save (poll_available c cid ds1 maxAttempts 0 tr0)"
    unfolding ds1 tr0 cid by blast
  have a: "f ElementsAs e req tr =
            (poll_history cid tr0 59 @ [Call_DescribeDBClusters cid],
             Returned \<lparr>Diagnostics = AddError ds1 ''Timeout waiting for Neptune cluster''
                         ''Neptune cluster did not become available within 30 minutes'',
                       State = None\<rparr>) \<and>
          length (filter (\<lambda>x. x = Call_DescribeDBClusters cid)
                    (calls_after tr0 (fst (f ElementsAs e req tr)))) = 60"
    if never: "\<forall>j<60. \<exists>r. DescribeDBClusters c (poll_history cid tr0 j) cid = Inr r \<and>
                       cluster_available r = Some False"
  proof -
    have "poll_available c cid ds1 maxAttempts 0 tr0 =
            (poll_history cid tr0 (maxAttempts - 1 - 0) @ [Call_DescribeDBClusters cid],
             Returns (AddError ds1 ''Timeout waiting for Neptune cluster''
                        ''Neptune cluster did not become available within 30 minutes''))"
      using never by (intro poll_available_timeout) (simp_all add: maxAttempts_def)
    then have "f ElementsAs e req tr =
            (poll_history cid tr0 59 @ [Call_DescribeDBClusters cid],
             Returned \<lparr>Diagnostics = AddError ds1 ''Timeout waiting for Neptune cluster''
                         ''Neptune cluster did not become available within 30 minutes'',
                       State = None\<rparr>)"
      unfolding run by (simp add: finish_def maxAttempts_def)
    then show ?thesis
      using describes_in_poll_history[of cid tr0 59] by simp
  qed
  have b: "fst (f ElementsAs e req tr) = poll_history cid tr0 59 @ [Call_DescribeDBClusters cid]"
    if timeout: "snd (f ElementsAs e req tr) =
                   Returned \<lparr>Diagnostics = AddError ds1 ''Timeout waiting for Neptune cluster'' detail,
                             State = None\<rparr>" for detail
  proof -
    obtain tr' fl where p: "poll_available c cid ds1 maxAttempts 0 tr0 = (tr', fl)"
      by (cases "poll_available c cid ds1 maxAttempts 0 tr0")
    from timeout have "fl = Returns (AddError ds1 ''Timeout waiting for Neptune cluster'' detail)"
      unfolding run p by (cases fl) (simp_all add: finish_def)
    with p poll_available_timeout_last[of c cid ds1 maxAttempts 0 tr0 tr' detail]
    have "tr' = poll_history cid tr0 59 @ [Call_DescribeDBClusters cid]"
      by (simp add: maxAttempts_def)
    then show ?thesis unfolding run p by simp
  qed
  have c: "fst (f ElementsAs e req tr) = poll_history cid tr0 k @ [Call_DescribeDBClusters cid] \<and>
           saved (snd (f ElementsAs e req tr)) \<noteq> None"
    if k: "k < 60"
      and before: "\<forall>j<k. \<exists>r. DescribeDBClusters c (poll_history cid tr0 j) cid = Inr r \<and>
                              cluster_available r = Some False"
      and at: "\<exists>r. DescribeDBClusters c (poll_history cid tr0 k) cid = Inr r \<and>
                   cluster_available r = Some True" for k
  proof -
    from k have "0 + k < maxAttempts" by (simp add: maxAttempts_def)
    from poll_available_at[OF this before at, of ds1] show ?thesis
      unfolding run by (simp add: finish_def)
  qed
  from a b c show ?thesis by blast
qed

theorem poll_times_out_after_all_attempts_only_witness:
  "NeptuneModify_Create example_ElementsAs (example_env stuck_client) (modify_request ''np-1'') [] =
     (poll_history ''np-1''
        [Call_ModifyDBCluster (modify_input example_ElementsAs (Get_data (modify_request ''np-1'')))] 59 @
      [Call_DescribeDBClusters ''np-1''],
      Returned \<lparr>Diagnostics = [Diagnostic SeverityError ''Timeout waiting for Neptune cluster''
                                 ''Neptune cluster did not become available within 30 minutes''],
                State = None\<rparr>) \<and>
   fst (NeptuneModify_Update example_ElementsAs (example_env (polling_client 5))
          (modify_request ''np-1'') []) =
     [Call_ModifyDBCluster (modify_input example_ElementsAs (Get_data (modify_request ''np-1''))),
      Call_DescribeDBClusters ''np-1'', Call_Sleep 30,
      Call_DescribeDBClusters ''np-1'', Call_Sleep 30,
      Call_DescribeDBClusters ''np-1'']"
proof -
  let ?req = "modify_request ''np-1''"
  let ?E = example_ElementsAs
  let ?tr0 = "[] @ [Call_ModifyDBCluster (modify_input ?E (Get_data ?req))]"
  let ?cid = "ValueString (ClusterIdentifier_NM (Get_data ?req))"
  have cid: "?cid = ''np-1''"
    by (simp add: example_defs)
  have plan: "\<not> HasError (Get_diags ?req)"
    by (simp add: example_defs eval_defs)
  have logs: "\<not> HasError (logs_diags ?E (Get_data ?req) (Get_diags ?req))"
    by (simp add: example_defs eval_defs logs_diags_def)
  have op1: "NeptuneModify_Create = NeptuneModify_Create \<or> NeptuneModify_Create = NeptuneModify_Update"
    by simp
  have cl1: "region_client (example_env stuck_client) (Region_NM (Get_data ?req)) (Get_diags ?req) =
      Inr stuck_client"
    by (simp add: example_env_def modify_request_def region_client_def)
  have modify1: "ModifyDBCluster stuck_client [] (modify_input ?E (Get_data ?req)) = None"
    by (simp add: example_defs)
  have never: "\<forall>j<60. \<exists>r. DescribeDBClusters stuck_client (poll_history ?cid ?tr0 j) ?cid = Inr r \<and>
                       cluster_available r = Some False"
    by (simp add: stuck_client_def example_client_def)
  from poll_times_out_after_all_attempts_only[OF op1 plan cl1 refl logs modify1 refl refl,
      THEN conjunct1, THEN mp, OF never]
  have a: "NeptuneModify_Create ?E (example_env stuck_client) ?req [] =
     (poll_history ''np-1'' [Call_ModifyDBCluster (modify_input ?E (Get_data ?req))] 59 @
      [Call_DescribeDBClusters ''np-1''],
      Returned \<lparr>Diagnostics = [Diagnostic SeverityError ''Timeout waiting for Neptune cluster''
                                 ''Neptune cluster did not become available within 30 minutes''],
                State = None\<rparr>)"
    by (simp add: cid) (simp add: example_defs eval_defs logs_diags_def)
  have op2: "NeptuneModify_Update = NeptuneModify_Create \<or> NeptuneModify_Update = NeptuneModify_Update"
    by simp
  have cl2: "region_client (example_env (polling_client 5)) (Region_NM (Get_data ?req)) (Get_diags ?req) =
      Inr (polling_client 5)"
    by (simp add: example_env_def modify_request_def region_client_def)
  have modify2: "ModifyDBCluster (polling_client 5) [] (modify_input ?E (Get_data ?req)) = None"
    by (simp add: example_defs)
  have k: "(2::nat) < 60" by simp
  have before: "\<forall>j<2. \<exists>r. DescribeDBClusters (polling_client 5) (poll_history ?cid ?tr0 j) ?cid = Inr r \<and>
                       cluster_available r = Some False"
    by (simp add: polling_client_def example_client_def)
  have at: "\<exists>r. DescribeDBClusters (polling_client 5) (poll_history ?cid ?tr0 2) ?cid = Inr r \<and>
                cluster_available r = Some True"
    by (simp add: polling_client_def example_client_def)
  from poll_times_out_after_all_attempts_only[OF op2 plan cl2 refl logs modify2 refl refl,
      THEN conjunct2, THEN conjunct2, THEN spec, THEN mp, OF k, THEN mp, OF conjI[OF before at],
      THEN conjunct1]
  have b: "fst (NeptuneModify_Update ?E (example_env (polling_client 5)) ?req []) =
     [Call_ModifyDBCluster (modify_input ?E (Get_data ?req)),
      Call_DescribeDBClusters ''np-1'', Call_Sleep 30,
      Call_DescribeDBClusters ''np-1'', Call_Sleep 30,
      Call_DescribeDBClusters ''np-1'']"
    by (simp add: cid poll_history_def numeral_2_eq_2)
  from a b show ?thesis by simp
qed

section \<open>The outcome of an operation\<close>

lemma calls_succeeded_append:
  "calls_succeeded c h (xs @ ys) = (calls_succeeded c h xs \<and> calls_succeeded c (h @ xs) ys)"
  by (induction xs arbitrary: h) auto

lemma block_ok_ContinueI:
  "calls_succeeded c tr xs \<Longrightarrow> block_ok c tr (tr @ xs, Continue)"
  by (simp add: block_ok_def)

lemma block_ok_ContinueD:
  assumes "block_ok c tr (tr', Continue)"
  obtains xs where "tr' = tr @ xs" "calls_succeeded c tr xs"
proof -
  from assms have "take (length tr) tr' = tr" "calls_succeeded c tr (drop (length tr) tr')"
    by (simp_all add: block_ok_def calls_after_def)
  moreover from this(1) have "tr' = tr @ drop (length tr) tr'"
    by (metis append_take_drop_id)
  ultimately show ?thesis using that by blast
qed

lemma block_ok_Returns [simp]: "block_ok c tr (tr', Returns d) = HasError d"
  by (simp add: block_ok_def)

lemma block_ok_Panics [simp]: "block_ok c tr (tr', Panics)"
  by (simp add: block_ok_def)

lemma block_ok_seq:
  assumes "block_ok c tr (tr1, Continue)" and "block_ok c tr1 r"
  shows "block_ok c tr r"
proof -
  from assms(1) obtain xs where xs: "tr1 = tr @ xs" "calls_succeeded c tr xs"
    by (rule block_ok_ContinueD)
  obtain tr2 fl where r: "r = (tr2, fl)" by (cases r)
  show ?thesis
  proof (cases fl)
    case Continue
    with assms(2) r obtain ys where ys: "tr2 = tr1 @ ys" "calls_succeeded c tr1 ys"
      by (auto elim: block_ok_ContinueD)
    with xs have "tr2 = tr @ (xs @ ys)" "calls_succeeded c tr (xs @ ys)"
      by (simp_all add: calls_succeeded_append)
    then show ?thesis unfolding r Continue
      by (metis block_ok_ContinueI)
  next
    case (Returns d)
    with assms(2) r show ?thesis by simp
  next
    case Panics
    with r show ?thesis by simp
  qed
qed

lemma block_ok_step:
  "call_ok c tr x \<Longrightarrow> block_ok c (tr @ [x]) r \<Longrightarrow> block_ok c tr r"
  by (rule block_ok_seq[of c tr "tr @ [x]"]) (simp_all add: block_ok_def)

lemma block_ok_single: "call_ok c tr x \<Longrightarrow> block_ok c tr (tr @ [x], Continue)"
  by (simp add: block_ok_def)

lemma block_ok_skip [simp]: "block_ok c tr (tr, Continue)"
  by (simp add: block_ok_def)

lemma reboot_each_ok: "block_ok c tr (reboot_each c n ff ds ms tr)"
proof (induction ms arbitrary: tr)
  case Nil
  then show ?case by simp
next
  case (Cons m ms)
  show ?case
  proof (cases "DBInstanceIdentifier m")
    case None
    then show ?thesis by simp
  next
    case (Some iid)
    show ?thesis
    proof (cases "RebootDBInstance c tr iid (reboot_ForceFailover n ff)")
      case None
      then have "call_ok c tr (Call_RebootDBInstance iid (reboot_ForceFailover n ff))" by simp
      from block_ok_step[OF this Cons.IH] None Some show ?thesis by simp
    next
      case (Some err)
      with \<open>DBInstanceIdentifier m = Some iid\<close> show ?thesis by simp
    qed
  qed
qed

lemma reboot_instances_ok: "block_ok c tr (reboot_instances c ds ms tr)"
proof (induction ms arbitrary: tr)
  case Nil
  then show ?case by simp
next
  case (Cons m ms)
  let ?x = "Call_RebootDBInstance (aws_ToString (DBInstanceIdentifier m)) None"
  show ?case
  proof (cases "RebootDBInstance c tr (aws_ToString (DBInstanceIdentifier m)) None")
    case None
    then have "call_ok c tr ?x" by simp
    from block_ok_step[OF this Cons.IH] None show ?thesis by (simp add: Let_def)
  next
    case (Some err)
    then show ?thesis by (simp add: Let_def)
  qed
qed

lemma wait_instances_ok: "block_ok c tr (wait_instances c ds ms tr)"
proof (induction ms arbitrary: tr)
  case Nil
  then show ?case by simp
next
  case (Cons m ms)
  let ?x = "Call_DBInstanceAvailableWaiter_Wait (aws_ToString (DBInstanceIdentifier m)) 30"
  show ?case
  proof (cases "DBInstanceAvailableWaiter_Wait c tr (aws_ToString (DBInstanceIdentifier m)) 30")
    case None
    then have "call_ok c tr ?x" by simp
    from block_ok_step[OF this Cons.IH] None show ?thesis by (simp add: Let_def)
  next
    case (Some err)
    then show ?thesis by (simp add: Let_def)
  qed
qed

lemma then_ok:
  assumes "block_ok c tr r" and "\<And>tr2. block_ok c tr2 (g tr2)"
  shows "block_ok c tr (case r of (tr2, Continue) \<Rightarrow> g tr2 | (tr2, stopped) \<Rightarrow> (tr2, stopped))"
proof -
  obtain tr2 fl where r: "r = (tr2, fl)" by (cases r)
  show ?thesis
  proof (cases fl)
    case Continue
    with assms r show ?thesis
      by (auto intro: block_ok_seq)
  next
    case (Returns d)
    with assms(1) r show ?thesis by simp
  next
    case Panics
    with r show ?thesis by simp
  qed
qed

lemma wait_cluster_ok: "block_ok c tr (wait_cluster c cid ds tr)"
  by (cases "DBClusterAvailableWaiter_Wait c tr cid 30")
     (simp_all add: wait_cluster_def block_ok_single)

lemma failover_cluster_ok: "block_ok c tr (failover_cluster c cid rid ds tr)"
  by (cases rid; cases "FailoverDBCluster c tr cid (the rid)")
     (simp_all add: failover_cluster_def block_ok_single)

lemma reboot_then_wait_ok: "block_ok c tr (reboot_then_wait c ds ms tr)"
  unfolding reboot_then_wait_def
  by (rule then_ok[OF reboot_instances_ok]) (rule wait_instances_ok)

lemma AuroraReboot_reboot_ok: "block_ok c tr (AuroraReboot_reboot c data ds tr)"
proof -
  let ?cid = "ValueString (ClusterIdentifier data)"
  let ?d = "Call_DescribeDBClusters ?cid"
  show ?thesis
  proof (cases "DescribeDBClusters c tr ?cid")
    case (Inl err)
    then show ?thesis by (simp add: AuroraReboot_reboot_def Let_def)
  next
    case (Inr clusters)
    then have d: "call_ok c tr ?d" by simp
    show ?thesis
    proof (cases clusters)
      case Nil
      with Inr show ?thesis by (simp add: AuroraReboot_reboot_def Let_def)
    next
      case (Cons cluster others)
      let ?ms = "DBClusterMembers cluster"
      show ?thesis
      proof (cases "find_reader ?ms")
        case None
        with Inr Cons show ?thesis by (simp add: AuroraReboot_reboot_def Let_def)
      next
        case (Some hr)
        obtain h rid where hr: "hr = (h, rid)" by (cases hr)
        have "block_ok c (tr @ [?d])
                (case (if use_failover (length ?ms) h (ForceFailover data)
                       then failover_cluster c ?cid rid ds (tr @ [?d])
                       else reboot_each c (length ?ms) (ForceFailover data) ds ?ms (tr @ [?d])) of
                   (tr2, Continue) \<Rightarrow> wait_cluster c ?cid ds tr2
                 | (tr2, stopped) \<Rightarrow> (tr2, stopped))"
          by (rule then_ok) (simp_all add: failover_cluster_ok reboot_each_ok wait_cluster_ok)
        from block_ok_step[OF d this] Inr Cons Some hr show ?thesis
          by (simp add: AuroraReboot_reboot_def Let_def)
      qed
    qed
  qed
qed

lemma NeptuneReboot_Create_reboot_ok: "block_ok c tr (NeptuneReboot_Create_reboot c data ds tr)"
proof (cases "DescribeDBClusters c tr (ValueString (ClusterIdentifier_NR data))")
  case (Inl err)
  then show ?thesis by (simp add: NeptuneReboot_Create_reboot_def Let_def)
next
  case (Inr clusters)
  then have d: "call_ok c tr (Call_DescribeDBClusters (ValueString (ClusterIdentifier_NR data)))"
    by simp
  show ?thesis
  proof (cases clusters)
    case Nil
    with Inr show ?thesis by (simp add: NeptuneReboot_Create_reboot_def Let_def)
  next
    case (Cons cluster others)
    from block_ok_step[OF d reboot_then_wait_ok] Inr Cons show ?thesis
      by (simp add: NeptuneReboot_Create_reboot_def Let_def)
  qed
qed

lemma NeptuneReboot_Update_reboot_ok: "block_ok c tr (NeptuneReboot_Update_reboot c data ds tr)"
proof (cases "DescribeDBClusters c tr (ValueString (ClusterIdentifier_NR data))")
  case (Inl err)
  then show ?thesis by (simp add: NeptuneReboot_Update_reboot_def Let_def)
next
  case (Inr clusters)
  then have d: "call_ok c tr (Call_DescribeDBClusters (ValueString (ClusterIdentifier_NR data)))"
    by simp
  show ?thesis
  proof (cases clusters)
    case Nil
    with Inr show ?thesis by (simp add: NeptuneReboot_Update_reboot_def Let_def)
  next
    case (Cons cluster others)
    from block_ok_step[OF d reboot_then_wait_ok] Inr Cons show ?thesis
      by (simp add: NeptuneReboot_Update_reboot_def Let_def)
  qed
qed

lemma poll_available_ok: "block_ok c tr (poll_available c cid ds n i tr)"
proof (induction "n - i" arbitrary: i tr)
  case 0
  then show ?case
    by (subst poll_available.simps) simp
next
  case (Suc m)
  then have i: "i < n" by simp
  let ?d = "Call_DescribeDBClusters cid"
  show ?case
  proof (cases "DescribeDBClusters c tr cid")
    case (Inl err)
    with i show ?thesis
      by (subst poll_available.simps) simp
  next
    case (Inr r)
    then have d: "call_ok c tr ?d" by simp
    have s: "call_ok c (tr @ [?d]) (Call_Sleep 30)" by simp
    show ?thesis
    proof (cases "cluster_available r")
      case None
      with i Inr show ?thesis
        by (subst poll_available.simps) simp
    next
      case (Some a)
      show ?thesis
      proof (cases "a \<or> i = n - 1")
        case True
        have "block_ok c tr (tr @ [?d], Continue)"
          by (rule block_ok_single[OF d])
        with True i Inr Some show ?thesis
          by (subst poll_available.simps) (auto split: bool.splits)
      next
        case False
        with i Suc.hyps(2) have "m = n - (i + 1)" by simp
        from Suc.hyps(1)[OF this, of "tr @ [?d, Call_Sleep 30]"]
        have "block_ok c ((tr @ [?d]) @ [Call_Sleep 30])
                (poll_available c cid ds n (i + 1) (tr @ [?d, Call_Sleep 30]))" by simp
        from block_ok_step[OF d block_ok_step[OF s this]] False i Inr Some show ?thesis
          by (subst poll_available.simps) simp
      qed
    qed
  qed
qed

lemma poll_available_Continue:
  assumes "i < n" and "poll_available c cid ds n i tr = (tr', Continue)"
  shows "poll_succeeded c cid tr'"
  using assms
proof (induction "n - i" arbitrary: i tr)
  case 0
  then show ?case by simp
next
  case (Suc m)
  let ?d = "Call_DescribeDBClusters cid"
  from Suc.prems(2) Suc.prems(1) obtain r where r: "DescribeDBClusters c tr cid = Inr r"
    by (subst (asm) poll_available.simps) (auto split: sum.splits)
  from Suc.prems(2) Suc.prems(1) r obtain a where a: "cluster_available r = Some a"
    by (subst (asm) poll_available.simps) (auto split: option.splits)
  show ?case
  proof (cases a)
    case True
    with Suc.prems r a have "tr' = tr @ [?d]"
      by (subst (asm) poll_available.simps) simp
    with r a True show ?thesis
      by (simp add: poll_succeeded_def)
  next
    case False
    with Suc.prems r a have ne: "i \<noteq> n - 1"
      by (subst (asm) poll_available.simps) (auto split: if_splits)
    with Suc.prems(1) have lt: "i + 1 < n" by simp
    from Suc.hyps(2) have m: "m = n - (i + 1)" by simp
    from Suc.prems r a False ne
    have "poll_available c cid ds n (i + 1) (tr @ [?d, Call_Sleep 30]) = (tr', Continue)"
      by (subst (asm) poll_available.simps) simp
    from Suc.hyps(1)[OF m lt this] show ?thesis .
  qed
qed

lemma early_outcome:
  "HasError ds \<Longrightarrow> MutationOutcome_ok ts e cl tr (tr, Returned \<lparr>Diagnostics = ds, State = None\<rparr>)"
  by (simp add: MutationOutcome_ok_def)

lemma finish_outcome:
  assumes "block_ok c tr r" and "\<not> HasError ds"
    and "\<And>tr'. ts (save tr') = StringValue (Format_RFC3339 (time_Now e tr'))"
  shows "MutationOutcome_ok ts e (Inr c) tr (finish ds save r)"
proof -
  obtain tr' fl where r: "r = (tr', fl)" by (cases r)
  show ?thesis
  proof (cases fl)
    case Continue
    with assms r show ?thesis
      by (simp add: MutationOutcome_ok_def finish_def block_ok_def Format_RFC3339_nonempty)
  next
    case (Returns d)
    with assms(1) r show ?thesis
      by (simp add: MutationOutcome_ok_def finish_def)
  next
    case Panics
    with r show ?thesis
      by (simp add: MutationOutcome_ok_def finish_def)
  qed
qed

lemma region_client_Inl: "region_client e region ds = Inl ds' \<Longrightarrow> HasError ds'"
  by (auto simp: region_client_def split: if_splits sum.splits)

lemma AuroraReboot_Create_outcome:
  "MutationOutcome_ok LastRebootTime e (region_client e (Region (Get_data req)) (Get_diags req)) tr
     (AuroraReboot_Create e req tr)"
proof (cases "HasError (Get_diags req)")
  case True
  then show ?thesis by (simp add: AuroraReboot_Create_def early_outcome)
next
  case False
  show ?thesis
  proof (cases "region_client e (Region (Get_data req)) (Get_diags req)")
    case (Inl ds')
    with False region_client_Inl[OF Inl] show ?thesis
      by (simp add: AuroraReboot_Create_def early_outcome)
  next
    case (Inr c)
    with False show ?thesis
      by (simp add: AuroraReboot_Create_def Let_def finish_outcome[OF AuroraReboot_reboot_ok])
  qed
qed

lemma AuroraReboot_Update_outcome:
  "MutationOutcome_ok LastRebootTime e (region_client e (Region (Get_data req)) (Get_diags req)) tr
     (AuroraReboot_Update e req tr)"
proof (cases "HasError (Get_diags req)")
  case True
  then show ?thesis by (simp add: AuroraReboot_Update_def early_outcome)
next
  case False
  show ?thesis
  proof (cases "region_client e (Region (Get_data req)) (Get_diags req)")
    case (Inl ds')
    with False region_client_Inl[OF Inl] show ?thesis
      by (simp add: AuroraReboot_Update_def early_outcome)
  next
    case (Inr c)
    with False show ?thesis
      by (simp add: AuroraReboot_Update_def Let_def finish_outcome[OF AuroraReboot_reboot_ok])
  qed
qed

lemma NeptuneReboot_Create_outcome:
  "MutationOutcome_ok LastRebootTime_NR e (region_client e (Region_NR (Get_data req)) (Get_diags req)) tr
     (NeptuneReboot_Create e req tr)"
proof (cases "HasError (Get_diags req)")
  case True
  then show ?thesis by (simp add: NeptuneReboot_Create_def early_outcome)
next
  case False
  show ?thesis
  proof (cases "region_client e (Region_NR (Get_data req)) (Get_diags req)")
    case (Inl ds')
    with False region_client_Inl[OF Inl] show ?thesis
      by (simp add: NeptuneReboot_Create_def early_outcome)
  next
    case (Inr c)
    with False show ?thesis
      by (simp add: NeptuneReboot_Create_def Let_def finish_outcome[OF NeptuneReboot_Create_reboot_ok])
  qed
qed

lemma NeptuneReboot_Update_outcome:
  "MutationOutcome_ok LastRebootTime_NR e (region_client e (Region_NR (Get_data req)) (Get_diags req)) tr
     (NeptuneReboot_Update e req tr)"
proof (cases "HasError (Get_diags req)")
  case True
  then show ?thesis by (simp add: NeptuneReboot_Update_def early_outcome)
next
  case False
  show ?thesis
  proof (cases "region_client e (Region_NR (Get_data req)) (Get_diags req)")
    case (Inl ds')
    with False region_client_Inl[OF Inl] show ?thesis
      by (simp add: NeptuneReboot_Update_def early_outcome)
  next
    case (Inr c)
    with False show ?thesis
      by (simp add: NeptuneReboot_Update_def Let_def finish_outcome[OF NeptuneReboot_Update_reboot_ok])
  qed
qed

lemma NeptuneModify_modify_ok:
  assumes "\<not> HasError ds" and "NeptuneModify_modify E c data ds tr = (tr2, fl, ds1)"
  shows "block_ok c tr (tr2, fl) \<and>
         (fl = Continue \<longrightarrow>
            \<not> HasError ds1 \<and> poll_succeeded c (ValueString (ClusterIdentifier_NM data)) tr2)"
proof -
  let ?ds1 = "logs_diags E data ds"
  let ?in = "modify_input E data"
  let ?cid = "ValueString (ClusterIdentifier_NM data)"
  show ?thesis
  proof (cases "\<not> List_IsNull (CloudWatchLogsExports data) \<and> HasError ?ds1")
    case True
    with assms(2) show ?thesis
      by (auto simp: NeptuneModify_modify_def Let_def)
  next
    case False
    with assms(1) have ok: "\<not> HasError ?ds1"
      by (auto simp: logs_diags_def)
    show ?thesis
    proof (cases "ModifyDBCluster c tr ?in")
      case (Some err)
      with False assms(2) show ?thesis
        by (auto simp: NeptuneModify_modify_def Let_def)
    next
      case None
      then have m: "call_ok c tr (Call_ModifyDBCluster ?in)" by simp
      let ?tr0 = "tr @ [Call_ModifyDBCluster ?in]"
      from None False assms(2)
      have p: "poll_available c ?cid ?ds1 maxAttempts 0 ?tr0 = (tr2, fl)" and ds1: "ds1 = ?ds1"
        by (auto simp: NeptuneModify_modify_def Let_def split: prod.splits)
      from block_ok_step[OF m poll_available_ok[of c ?tr0 ?cid ?ds1 maxAttempts 0]] p
      have "block_ok c tr (tr2, fl)" by simp
      moreover have "poll_succeeded c ?cid tr2" if "fl = Continue"
        using poll_available_Continue[of 0 maxAttempts c ?cid ?ds1 ?tr0 tr2] p that
        by (simp add: maxAttempts_def)
      ultimately show ?thesis using ok ds1 by simp
    qed
  qed
qed

lemma NeptuneModify_ops_outcome:
  assumes "f = NeptuneModify_Create \<or> f = NeptuneModify_Update"
  shows "MutationOutcome_ok LastModifiedTime e
           (region_client e (Region_NM (Get_data req)) (Get_diags req)) tr (f E e req tr) \<and>
         (\<forall>m. saved (snd (f E e req tr)) = Some m \<longrightarrow>
            (\<exists>c. region_client e (Region_NM (Get_data req)) (Get_diags req) = Inr c \<and>
                 poll_succeeded c (ValueString (ClusterIdentifier_NM (Get_data req))) (fst (f E e req tr))))"
proof (cases "HasError (Get_diags req)")
  case True
  with assms show ?thesis
    by (auto simp: NeptuneModify_Create_def NeptuneModify_Update_def early_outcome)
next
  case False
  show ?thesis
  proof (cases "region_client e (Region_NM (Get_data req)) (Get_diags req)")
    case (Inl ds')
    with False region_client_Inl[OF Inl] assms show ?thesis
      by (auto simp: NeptuneModify_Create_def NeptuneModify_Update_def early_outcome)
  next
    case (Inr c)
    obtain tr2 fl ds1 where mm: "NeptuneModify_modify E c (Get_data req) (Get_diags req) tr = (tr2, fl, ds1)"
      by (cases "NeptuneModify_modify E c (Get_data req) (Get_diags req) tr")
    note ok = NeptuneModify_modify_ok[OF False mm]
    from assms False Inr mm obtain save where
      run: "f E e req tr = finish ds1 save (tr2, fl)"
      and save: "\<And>tr'. LastModifiedTime (save tr') = StringValue (Format_RFC3339 (time_Now e tr'))"
      by (auto simp: NeptuneModify_Create_def NeptuneModify_Update_def Let_def)
    show ?thesis
    proof (cases fl)
      case Continue
      with ok have "\<not> HasError ds1"
        "poll_succeeded c (ValueString (ClusterIdentifier_NM (Get_data req))) tr2" by simp_all
      with finish_outcome[where ts = LastModifiedTime and save = save and e = e,
          OF conjunct1[OF ok] this(1) save] Inr show ?thesis
        unfolding run by (simp add: finish_def Continue)
    next
      case (Returns d)
      with ok Inr show ?thesis
        unfolding run by (simp add: finish_def MutationOutcome_ok_def)
    next
      case Panics
      with Inr show ?thesis
        unfolding run by (simp add: finish_def MutationOutcome_ok_def)
    qed
  qed
qed

lemma AuroraModify_modify_ok:
  assumes "\<not> HasError ds" and "AuroraModify_modify E c data ds tr = (tr2, fl, ds1)"
  shows "block_ok c tr (tr2, fl) \<and> (fl = Continue \<longrightarrow> \<not> HasError ds1)"
proof -
  let ?ds1 = "logs_diags_AM E data ds"
  let ?in = "modify_input_AM E data"
  let ?cid = "ValueString (ClusterIdentifier_AM data)"
  show ?thesis
  proof (cases "\<not> List_IsNull (CloudWatchLogsExports_AM data) \<and> HasError ?ds1")
    case True
    with assms(2) show ?thesis
      by (auto simp: AuroraModify_modify_def Let_def)
  next
    case False
    with assms(1) have ok: "\<not> HasError ?ds1"
      by (auto simp: logs_diags_AM_def)
    show ?thesis
    proof (cases "ModifyDBCluster c tr ?in")
      case (Some err)
      with False assms(2) show ?thesis
        by (auto simp: AuroraModify_modify_def Let_def)
    next
      case None
      then have m: "call_ok c tr (Call_ModifyDBCluster ?in)" by simp
      let ?tr0 = "tr @ [Call_ModifyDBCluster ?in]"
      from None False assms(2)
      have p: "wait_cluster c ?cid ?ds1 ?tr0 = (tr2, fl)" and ds1: "ds1 = ?ds1"
        by (auto simp: AuroraModify_modify_def Let_def split: prod.splits)
      from block_ok_step[OF m wait_cluster_ok[of c ?tr0 ?cid ?ds1]] p
      have "block_ok c tr (tr2, fl)" by simp
      then show ?thesis using ok ds1 by simp
    qed
  qed
qed

lemma AuroraModify_ops_outcome:
  assumes "f = AuroraModify_Create \<or> f = AuroraModify_Update"
  shows "MutationOutcome_ok LastModifiedTime_AM e
           (region_client e (Region_AM (Get_data req)) (Get_diags req)) tr (f E e req tr)"
proof (cases "HasError (Get_diags req)")
  case True
  with assms show ?thesis
    by (auto simp: AuroraModify_Create_def AuroraModify_Update_def early_outcome)
next
  case False
  show ?thesis
  proof (cases "region_client e (Region_AM (Get_data req)) (Get_diags req)")
    case (Inl ds')
    with False region_client_Inl[OF Inl] assms show ?thesis
      by (auto simp: AuroraModify_Create_def AuroraModify_Update_def early_outcome)
  next
    case (Inr c)
    obtain tr2 fl ds1 where mm: "AuroraModify_modify E c (Get_data req) (Get_diags req) tr = (tr2, fl, ds1)"
      by (cases "AuroraModify_modify E c (Get_data req) (Get_diags req) tr")
    note ok = AuroraModify_modify_ok[OF False mm]
    from assms False Inr mm obtain save where
      run: "f E e req tr = finish ds1 save (tr2, fl)"
      and save: "\<And>tr'. LastModifiedTime_AM (save tr') = StringValue (Format_RFC3339 (time_Now e tr'))"
      by (auto simp: AuroraModify_Create_def AuroraModify_Update_def Let_def)
    show ?thesis
    proof (cases fl)
      case Continue
      with ok have "\<not> HasError ds1" by simp
      with finish_outcome[where ts = LastModifiedTime_AM and save = save and e = e,
          OF conjunct1[OF ok] this save] Inr show ?thesis
        unfolding run by simp
    next
      case (Returns d)
      with ok Inr show ?thesis
        unfolding run by (simp add: finish_def MutationOutcome_ok_def)
    next
      case Panics
      with Inr show ?thesis
        unfolding run by (simp add: finish_def MutationOutcome_ok_def)
    qed
  qed
qed

lemma saved_finish:
  "saved (snd (finish ds save r)) = Some m \<Longrightarrow> snd r = Continue"
  by (cases r, cases "snd r") (auto simp: finish_def)

lemma find_reader_first_reader:
  "find_reader ms = Some (True, rid) \<Longrightarrow> \<exists>r. first_reader ms = Some r \<and> DBInstanceIdentifier r = rid"
  unfolding first_reader_def
  by (induction ms) (auto split: option.splits if_splits)

lemma reboot_each_Continue:
  "snd (reboot_each c n ff ds ms tr) = Continue \<Longrightarrow>
   fst (reboot_each c n ff ds ms tr) = tr @ map (aurora_reboot_call n ff) ms"
proof (induction ms arbitrary: tr)
  case Nil
  show ?case by simp
next
  case (Cons m rest)
  from Cons.prems obtain iid where iid: "DBInstanceIdentifier m = Some iid"
    by (cases "DBInstanceIdentifier m") auto
  from Cons.prems iid have ok: "RebootDBInstance c tr iid (reboot_ForceFailover n ff) = None"
    by (cases "RebootDBInstance c tr iid (reboot_ForceFailover n ff)") auto
  from Cons.prems iid ok
  have "snd (reboot_each c n ff ds rest (tr @ [Call_RebootDBInstance iid (reboot_ForceFailover n ff)])) = Continue"
    by simp
  from Cons.IH[OF this] iid ok show ?case
    by (simp add: aurora_reboot_call_Some[OF iid])
qed

lemma AuroraReboot_reboot_Continue:
  assumes "snd (AuroraReboot_reboot c data ds tr) = Continue"
  shows "\<exists>cluster others xs.
           DescribeDBClusters c tr (ValueString (ClusterIdentifier data)) = Inr (cluster # others) \<and>
           (xs = map (aurora_reboot_call (length (DBClusterMembers cluster)) (ForceFailover data))
                   (DBClusterMembers cluster) \<or>
            (\<exists>r target. first_reader (DBClusterMembers cluster) = Some r \<and>
               DBInstanceIdentifier r = Some target \<and>
               xs = [Call_FailoverDBCluster (ValueString (ClusterIdentifier data)) target])) \<and>
           fst (AuroraReboot_reboot c data ds tr) =
             ((tr @ [Call_DescribeDBClusters (ValueString (ClusterIdentifier data))]) @ xs) @
             [Call_DBClusterAvailableWaiter_Wait (ValueString (ClusterIdentifier data)) 30] \<and>
           DBClusterAvailableWaiter_Wait c
             ((tr @ [Call_DescribeDBClusters (ValueString (ClusterIdentifier data))]) @ xs)
             (ValueString (ClusterIdentifier data)) 30 = None"
proof -
  let ?cid = "ValueString (ClusterIdentifier data)"
  let ?tr1 = "tr @ [Call_DescribeDBClusters ?cid]"
  let ?w = "Call_DBClusterAvailableWaiter_Wait ?cid 30"
  from assms obtain cluster others where desc: "DescribeDBClusters c tr ?cid = Inr (cluster # others)"
    by (auto simp: AuroraReboot_reboot_def Let_def split: sum.splits list.splits)
  let ?ms = "DBClusterMembers cluster"
  from assms desc obtain h rid where fr: "find_reader ?ms = Some (h, rid)"
    by (cases "find_reader ?ms") (auto simp: AuroraReboot_reboot_def Let_def)
  let ?inner = "if use_failover (length ?ms) h (ForceFailover data)
                then failover_cluster c ?cid rid ds ?tr1
                else reboot_each c (length ?ms) (ForceFailover data) ds ?ms ?tr1"
  obtain tr2 fl where inner: "?inner = (tr2, fl)" by (cases ?inner)
  have body: "AuroraReboot_reboot c data ds tr =
      (case (tr2, fl) of (tr2, Continue) \<Rightarrow> wait_cluster c ?cid ds tr2 | (tr2, stopped) \<Rightarrow> (tr2, stopped))"
    unfolding inner[symmetric] by (simp add: AuroraReboot_reboot_def Let_def desc fr)
  from assms have fl: "fl = Continue"
    unfolding body by (cases fl) simp_all
  with body have w: "AuroraReboot_reboot c data ds tr = wait_cluster c ?cid ds tr2" by simp
  with assms have ok: "DBClusterAvailableWaiter_Wait c tr2 ?cid 30 = None"
    by (cases "DBClusterAvailableWaiter_Wait c tr2 ?cid 30") (auto simp: wait_cluster_def)
  with w have t: "fst (AuroraReboot_reboot c data ds tr) = tr2 @ [?w]"
    by (simp add: wait_cluster_def)
  have "\<exists>xs. (xs = map (aurora_reboot_call (length ?ms) (ForceFailover data)) ?ms \<or>
            (\<exists>r target. first_reader ?ms = Some r \<and> DBInstanceIdentifier r = Some target \<and>
               xs = [Call_FailoverDBCluster ?cid target])) \<and> tr2 = ?tr1 @ xs"
  proof (cases "use_failover (length ?ms) h (ForceFailover data)")
    case True
    then have h: "h" by (simp add: use_failover_def)
    from True inner fl obtain target where rid: "rid = Some target"
      and tr2: "tr2 = ?tr1 @ [Call_FailoverDBCluster ?cid target]"
      by (cases rid) (auto simp: failover_cluster_def split: option.splits)
    from find_reader_first_reader[of ?ms rid] fr h rid
    obtain r where "first_reader ?ms = Some r" "DBInstanceIdentifier r = Some target" by auto
    with tr2 show ?thesis by blast
  next
    case False
    with inner fl have "snd (reboot_each c (length ?ms) (ForceFailover data) ds ?ms ?tr1) = Continue"
      and "tr2 = fst (reboot_each c (length ?ms) (ForceFailover data) ds ?ms ?tr1)"
      by simp_all
    with reboot_each_Continue[OF this(1)] show ?thesis by simp
  qed
  then obtain xs where "xs = map (aurora_reboot_call (length ?ms) (ForceFailover data)) ?ms \<or>
            (\<exists>r target. first_reader ?ms = Some r \<and> DBInstanceIdentifier r = Some target \<and>
               xs = [Call_FailoverDBCluster ?cid target])" and "tr2 = ?tr1 @ xs"
    by blast
  with desc t ok show ?thesis by blast
qed

lemma AuroraReboot_ops_saved:
  assumes op: "f = AuroraReboot_Create \<or> f = AuroraReboot_Update"
    and s: "saved (snd (f e req tr)) = Some m"
  shows "\<exists>c cluster others xs.
           region_client e (Region (Get_data req)) (Get_diags req) = Inr c \<and>
           DescribeDBClusters c tr (ValueString (ClusterIdentifier (Get_data req))) = Inr (cluster # others) \<and>
           (xs = map (aurora_reboot_call (length (DBClusterMembers cluster)) (ForceFailover (Get_data req)))
                   (DBClusterMembers cluster) \<or>
            (\<exists>r target. first_reader (DBClusterMembers cluster) = Some r \<and>
               DBInstanceIdentifier r = Some target \<and>
               xs = [Call_FailoverDBCluster (ValueString (ClusterIdentifier (Get_data req))) target])) \<and>
           fst (f e req tr) =
             ((tr @ [Call_DescribeDBClusters (ValueString (ClusterIdentifier (Get_data req)))]) @ xs) @
             [Call_DBClusterAvailableWaiter_Wait (ValueString (ClusterIdentifier (Get_data req))) 30] \<and>
           DBClusterAvailableWaiter_Wait c
             ((tr @ [Call_DescribeDBClusters (ValueString (ClusterIdentifier (Get_data req)))]) @ xs)
             (ValueString (ClusterIdentifier (Get_data req))) 30 = None"
proof -
  from AuroraReboot_ops_cases[OF op, of e req tr] s
  obtain c save where cl: "region_client e (Region (Get_data req)) (Get_diags req) = Inr c"
    and run: "f e req tr = finish (Get_diags req) save (AuroraReboot_reboot c (Get_data req) (Get_diags req) tr)"
    by auto
  from s have "snd (AuroraReboot_reboot c (Get_data req) (Get_diags req) tr) = Continue"
    unfolding run by (rule saved_finish)
  from AuroraReboot_reboot_Continue[OF this] cl show ?thesis
    unfolding run fst_finish by blast
qed

lemma reboot_instances_Continue:
  "snd (reboot_instances c ds ms tr) = Continue \<Longrightarrow>
   fst (reboot_instances c ds ms tr) = tr @ map neptune_reboot_call ms"
proof (induction ms arbitrary: tr)
  case Nil
  show ?case by simp
next
  case (Cons m rest)
  let ?x = "Call_RebootDBInstance (aws_ToString (DBInstanceIdentifier m)) None"
  from Cons.prems have ok: "RebootDBInstance c tr (aws_ToString (DBInstanceIdentifier m)) None = None"
    by (cases "RebootDBInstance c tr (aws_ToString (DBInstanceIdentifier m)) None") (auto simp: Let_def)
  with Cons.prems have "snd (reboot_instances c ds rest (tr @ [?x])) = Continue"
    by (simp add: Let_def)
  from Cons.IH[OF this] ok show ?case
    by (simp add: Let_def neptune_reboot_call_def instance_id_def)
qed

lemma wait_instances_Continue:
  "snd (wait_instances c ds ms tr) = Continue \<Longrightarrow>
   fst (wait_instances c ds ms tr) = tr @ map instance_wait_call ms \<and>
   calls_succeeded c tr (map instance_wait_call ms)"
proof (induction ms arbitrary: tr)
  case Nil
  show ?case by simp
next
  case (Cons m rest)
  let ?x = "Call_DBInstanceAvailableWaiter_Wait (aws_ToString (DBInstanceIdentifier m)) 30"
  from Cons.prems have ok: "DBInstanceAvailableWaiter_Wait c tr (aws_ToString (DBInstanceIdentifier m)) 30 = None"
    by (cases "DBInstanceAvailableWaiter_Wait c tr (aws_ToString (DBInstanceIdentifier m)) 30")
       (auto simp: Let_def)
  with Cons.prems have "snd (wait_instances c ds rest (tr @ [?x])) = Continue"
    by (simp add: Let_def)
  from Cons.IH[OF this] ok show ?case
    by (simp add: Let_def instance_wait_call_def instance_id_def)
qed

lemma reboot_then_wait_Continue:
  assumes "snd (reboot_then_wait c ds ms tr) = Continue"
  shows "fst (reboot_then_wait c ds ms tr) = (tr @ map neptune_reboot_call ms) @ map instance_wait_call ms \<and>
         calls_succeeded c (tr @ map neptune_reboot_call ms) (map instance_wait_call ms)"
proof -
  obtain tr2 fl where rb: "reboot_instances c ds ms tr = (tr2, fl)"
    by (cases "reboot_instances c ds ms tr")
  from assms have fl: "fl = Continue"
    unfolding reboot_then_wait_def rb by (cases fl) simp_all
  with reboot_instances_Continue[of c ds ms tr] rb
  have tr2: "tr2 = tr @ map neptune_reboot_call ms" by simp
  from assms have "snd (wait_instances c ds ms tr2) = Continue"
    unfolding reboot_then_wait_def rb fl by simp
  from wait_instances_Continue[OF this] show ?thesis
    unfolding reboot_then_wait_def rb fl tr2 by simp
qed

lemma NeptuneReboot_Create_saved:
  assumes s: "saved (snd (NeptuneReboot_Create e req tr)) = Some m"
  shows "\<exists>c cluster others.
           region_client e (Region_NR (Get_data req)) (Get_diags req) = Inr c \<and>
           DescribeDBClusters c tr (ValueString (ClusterIdentifier_NR (Get_data req))) = Inr (cluster # others) \<and>
           DBClusterMembers cluster \<noteq> [] \<and>
           fst (NeptuneReboot_Create e req tr) =
             ((tr @ [Call_DescribeDBClusters (ValueString (ClusterIdentifier_NR (Get_data req)))]) @
              map neptune_reboot_call (DBClusterMembers cluster)) @
             map instance_wait_call (DBClusterMembers cluster) \<and>
           calls_succeeded c
             ((tr @ [Call_DescribeDBClusters (ValueString (ClusterIdentifier_NR (Get_data req)))]) @
              map neptune_reboot_call (DBClusterMembers cluster))
             (map instance_wait_call (DBClusterMembers cluster))"
proof -
  let ?cid = "ValueString (ClusterIdentifier_NR (Get_data req))"
  let ?ds = "Get_diags req"
  let ?tr1 = "tr @ [Call_DescribeDBClusters ?cid]"
  from s have plan: "\<not> HasError ?ds"
    by (auto simp: NeptuneReboot_Create_def Let_def split: if_splits)
  from s plan obtain c where cl: "region_client e (Region_NR (Get_data req)) ?ds = Inr c"
    by (cases "region_client e (Region_NR (Get_data req)) ?ds")
       (auto simp: NeptuneReboot_Create_def Let_def)
  from NeptuneReboot_Create_run[OF plan cl, of tr] obtain save where
    run: "NeptuneReboot_Create e req tr = finish ?ds save (NeptuneReboot_Create_reboot c (Get_data req) ?ds tr)"
    by blast
  from s have k: "snd (NeptuneReboot_Create_reboot c (Get_data req) ?ds tr) = Continue"
    unfolding run by (rule saved_finish)
  then obtain cluster others where desc: "DescribeDBClusters c tr ?cid = Inr (cluster # others)"
    by (auto simp: NeptuneReboot_Create_reboot_def Let_def split: sum.splits list.splits)
    from k desc have ne: "DBClusterMembers cluster \<noteq> []"
    by (auto simp: NeptuneReboot_Create_reboot_def Let_def split: if_splits)
  with desc have body: "NeptuneReboot_Create_reboot c (Get_data req) ?ds tr =
      reboot_then_wait c ?ds (DBClusterMembers cluster) ?tr1"
    by (simp add: NeptuneReboot_Create_reboot_def Let_def)
  from reboot_then_wait_Continue[OF k[unfolded body]] cl desc ne show ?thesis
    unfolding run fst_finish body by blast
qed

lemma NeptuneReboot_Update_saved:
  assumes s: "saved (snd (NeptuneReboot_Update e req tr)) = Some m"
  shows "\<exists>c cluster others.
           region_client e (Region_NR (Get_data req)) (Get_diags req) = Inr c \<and>
           DescribeDBClusters c tr (ValueString (ClusterIdentifier_NR (Get_data req))) = Inr (cluster # others) \<and>
           fst (NeptuneReboot_Update e req tr) =
             ((tr @ [Call_DescribeDBClusters (ValueString (ClusterIdentifier_NR (Get_data req)))]) @
              map neptune_reboot_call (DBClusterMembers cluster)) @
             map instance_wait_call (DBClusterMembers cluster) \<and>
           calls_succeeded c
             ((tr @ [Call_DescribeDBClusters (ValueString (ClusterIdentifier_NR (Get_data req)))]) @
              map neptune_reboot_call (DBClusterMembers cluster))
             (map instance_wait_call (DBClusterMembers cluster))"
proof -
  let ?cid = "ValueString (ClusterIdentifier_NR (Get_data req))"
  let ?ds = "Get_diags req"
  let ?tr1 = "tr @ [Call_DescribeDBClusters ?cid]"
  from s have plan: "\<not> HasError ?ds"
    by (auto simp: NeptuneReboot_Update_def Let_def split: if_splits)
  from s plan obtain c where cl: "region_client e (Region_NR (Get_data req)) ?ds = Inr c"
    by (cases "region_client e (Region_NR (Get_data req)) ?ds")
       (auto simp: NeptuneReboot_Update_def Let_def)
  from NeptuneReboot_Update_run[OF plan cl, of tr] obtain save where
    run: "NeptuneReboot_Update e req tr = finish ?ds save (NeptuneReboot_Update_reboot c (Get_data req) ?ds tr)"
    by blast
  from s have k: "snd (NeptuneReboot_Update_reboot c (Get_data req) ?ds tr) = Continue"
    unfolding run by (rule saved_finish)
  then obtain cluster others where desc: "DescribeDBClusters c tr ?cid = Inr (cluster # others)"
    by (auto simp: NeptuneReboot_Update_reboot_def Let_def split: sum.splits list.splits)
  from desc have body: "NeptuneReboot_Update_reboot c (Get_data req) ?ds tr =
      reboot_then_wait c ?ds (DBClusterMembers cluster) ?tr1"
    by (simp add: NeptuneReboot_Update_reboot_def Let_def)
  from reboot_then_wait_Continue[OF k[unfolded body]] cl desc show ?thesis
    unfolding run fst_finish body by blast
qed

lemma AuroraModify_ops_saved:
  assumes op: "f = AuroraModify_Create \<or> f = AuroraModify_Update"
    and s: "saved (snd (f E e req tr)) = Some m"
  shows "\<exists>c. region_client e (Region_AM (Get_data req)) (Get_diags req) = Inr c \<and>
           fst (f E e req tr) =
             tr @ [Call_ModifyDBCluster (modify_input_AM E (Get_data req)),
                   Call_DBClusterAvailableWaiter_Wait (ValueString (ClusterIdentifier_AM (Get_data req))) 30] \<and>
           ModifyDBCluster c tr (modify_input_AM E (Get_data req)) = None \<and>
           DBClusterAvailableWaiter_Wait c (tr @ [Call_ModifyDBCluster (modify_input_AM E (Get_data req))])
             (ValueString (ClusterIdentifier_AM (Get_data req))) 30 = None"
proof -
  let ?ds = "Get_diags req"
  let ?data = "Get_data req"
  let ?cid = "ValueString (ClusterIdentifier_AM ?data)"
  let ?in = "modify_input_AM E ?data"
  from s op have plan: "\<not> HasError ?ds"
    by (auto simp: AuroraModify_Create_def AuroraModify_Update_def Let_def split: if_splits)
  from s op plan obtain c where cl: "region_client e (Region_AM ?data) ?ds = Inr c"
    by (cases "region_client e (Region_AM ?data) ?ds")
       (auto simp: AuroraModify_Create_def AuroraModify_Update_def Let_def)
  obtain tr2 fl ds1 where mm: "AuroraModify_modify E c ?data ?ds tr = (tr2, fl, ds1)"
    by (cases "AuroraModify_modify E c ?data ?ds tr")
  from op plan cl mm obtain save where run: "f E e req tr = finish ds1 save (tr2, fl)"
    by (auto simp: AuroraModify_Create_def AuroraModify_Update_def Let_def)
  from s have fl: "fl = Continue"
    unfolding run using saved_finish[of ds1 save "(tr2, fl)" m] by simp
  from mm fl have m: "ModifyDBCluster c tr ?in = None"
    by (cases "ModifyDBCluster c tr ?in")
       (auto simp: AuroraModify_modify_def Let_def split: if_splits)
  from mm fl m have w: "wait_cluster c ?cid (logs_diags_AM E ?data ?ds) (tr @ [Call_ModifyDBCluster ?in]) =
      (tr2, Continue)"
    by (auto simp: AuroraModify_modify_def Let_def split: if_splits prod.splits)
  then have ok: "DBClusterAvailableWaiter_Wait c (tr @ [Call_ModifyDBCluster ?in]) ?cid 30 = None"
    by (cases "DBClusterAvailableWaiter_Wait c (tr @ [Call_ModifyDBCluster ?in]) ?cid 30")
       (auto simp: wait_cluster_def)
  with w have "tr2 = tr @ [Call_ModifyDBCluster ?in, Call_DBClusterAvailableWaiter_Wait ?cid 30]"
    by (simp add: wait_cluster_def)
  with cl m ok show ?thesis
    unfolding run fst_finish by simp
qed

text \<open>
  Claim C5. Every operation of the Aurora reboot, Neptune reboot, Aurora modify and
  Neptune modify resources (Create and Update) that returns leaves one of two outcomes.
  Either no state is saved and the diagnostics hold an error; or the state is saved, the
  diagnostics hold no error, every call of the operation (describe, mutations, waits)
  was answered without error, and the saved timestamp is non-empty and read from the
  clock after the last of these calls. A saved state moreover means that the operation
  ran to the end of its waits. For the Neptune modify, the last call was a describe call
  that showed the cluster available. For the Aurora reboot, the calls made are the
  describe call, answered with a cluster, then either the reboot of every member of
  that cluster or one failover to its first reader, then the wait for the cluster as
  the last call, answered without error. For the Neptune reboot, they are the describe
  call, answered with a cluster (with members, for Create), the reboot of every member
  and then the wait for every member, in the order of the member list, each wait
  answered without error. For the Aurora modify, they are the modify call and then the
  wait for the cluster, both answered without error.
\<close>

theorem outcome_invariant:
  "MutationOutcome_ok LastRebootTime e
     (region_client e (Region (Get_data reqA)) (Get_diags reqA)) tr (AuroraReboot_Create e reqA tr) \<and>
   MutationOutcome_ok LastRebootTime e
     (region_client e (Region (Get_data reqA)) (Get_diags reqA)) tr (AuroraReboot_Update e reqA tr) \<and>
   MutationOutcome_ok LastRebootTime_NR e
     (region_client e (Region_NR (Get_data reqN)) (Get_diags reqN)) tr (NeptuneReboot_Create e reqN tr) \<and>
   MutationOutcome_ok LastRebootTime_NR e
     (region_client e (Region_NR (Get_data reqN)) (Get_diags reqN)) tr (NeptuneReboot_Update e reqN tr) \<and>
   MutationOutcome_ok LastModifiedTime e
     (region_client e (Region_NM (Get_data reqM)) (Get_diags reqM)) tr (NeptuneModify_Create E e reqM tr) \<and>
   MutationOutcome_ok LastModifiedTime e
     (region_client e (Region_NM (Get_data reqM)) (Get_diags reqM)) tr (NeptuneModify_Update E e reqM tr) \<and>
   (\<forall>m. saved (snd (NeptuneModify_Create E e reqM tr)) = Some m \<longrightarrow>
      (\<exists>c. region_client e (Region_NM (Get_data reqM)) (Get_diags reqM) = Inr c \<and>
           poll_succeeded c (ValueString (ClusterIdentifier_NM (Get_data reqM)))
             (fst (NeptuneModify_Create E e reqM tr)))) \<and>
   (\<forall>m. saved (snd (NeptuneModify_Update E e reqM tr)) = Some m \<longrightarrow>
      (\<exists>c. region_client e (Region_NM (Get_data reqM)) (Get_diags reqM) = Inr c \<and>
           poll_succeeded c (ValueString (ClusterIdentifier_NM (Get_data reqM)))
             (fst (NeptuneModify_Update E e reqM tr)))) \<and>
   MutationOutcome_ok LastModifiedTime_AM e
     (region_client e (Region_AM (Get_data reqB)) (Get_diags reqB)) tr (AuroraModify_Create E e reqB tr) \<and>
   MutationOutcome_ok LastModifiedTime_AM e
     (region_client e (Region_AM (Get_data reqB)) (Get_diags reqB)) tr (AuroraModify_Update E e reqB tr) \<and>
   (\<forall>m. saved (snd (AuroraReboot_Create e reqA tr)) = Some m \<longrightarrow>
      (\<exists>c cluster others xs.
         region_client e (Region (Get_data reqA)) (Get_diags reqA) = Inr c \<and>
         DescribeDBClusters c tr (ValueString (ClusterIdentifier (Get_data reqA))) = Inr (cluster # others) \<and>
         (xs = map (aurora_reboot_call (length (DBClusterMembers cluster)) (ForceFailover (Get_data reqA)))
                 (DBClusterMembers cluster) \<or>
          (\<exists>r target. first_reader (DBClusterMembers cluster) = Some r \<and>
             DBInstanceIdentifier r = Some target \<and>
             xs = [Call_FailoverDBCluster (ValueString (ClusterIdentifier (Get_data reqA))) target])) \<and>
         fst (AuroraReboot_Create e reqA tr) =
           ((tr @ [Call_DescribeDBClusters (ValueString (ClusterIdentifier (Get_data reqA)))]) @ xs) @
           [Call_DBClusterAvailableWaiter_Wait (ValueString (ClusterIdentifier (Get_data reqA))) 30] \<and>
         DBClusterAvailableWaiter_Wait c
           ((tr @ [Call_DescribeDBClusters (ValueString (ClusterIdentifier (Get_data reqA)))]) @ xs)
           (ValueString (ClusterIdentifier (Get_data reqA))) 30 = None)) \<and>
   (\<forall>m. saved (snd (AuroraReboot_Update e reqA tr)) = Some m \<longrightarrow>
      (\<exists>c cluster others xs.
         region_client e (Region (Get_data reqA)) (Get_diags reqA) = Inr c \<and>
         DescribeDBClusters c tr (ValueString (ClusterIdentifier (Get_data reqA))) = Inr (cluster # others) \<and>
         (xs = map (aurora_reboot_call (length (DBClusterMembers cluster)) (ForceFailover (Get_data reqA)))
                 (DBClusterMembers cluster) \<or>
          (\<exists>r target. first_reader (DBClusterMembers cluster) = Some r \<and>
             DBInstanceIdentifier r = Some target \<and>
             xs = [Call_FailoverDBCluster (ValueString (ClusterIdentifier (Get_data reqA))) target])) \<and>
         fst (AuroraReboot_Update e reqA tr) =
           ((tr @ [Call_DescribeDBClusters (ValueString (ClusterIdentifier (Get_data reqA)))]) @ xs) @
           [Call_DBClusterAvailableWaiter_Wait (ValueString (ClusterIdentifier (Get_data reqA))) 30] \<and>
         DBClusterAvailableWaiter_Wait c
           ((tr @ [Call_DescribeDBClusters (ValueString (ClusterIdentifier (Get_data reqA)))]) @ xs)
           (ValueString (ClusterIdentifier (Get_data reqA))) 30 = None)) \<and>
   (\<forall>m. saved (snd (NeptuneReboot_Create e reqN tr)) = Some m \<longrightarrow>
      (\<exists>c cluster others.
         region_client e (Region_NR (Get_data reqN)) (Get_diags reqN) = Inr c \<and>
         DescribeDBClusters c tr (ValueString (ClusterIdentifier_NR (Get_data reqN))) = Inr (cluster # others) \<and>
         DBClusterMembers cluster \<noteq> [] \<and>
         fst (NeptuneReboot_Create e reqN tr) =
           ((tr @ [Call_DescribeDBClusters (ValueString (ClusterIdentifier_NR (Get_data reqN)))]) @
            map neptune_reboot_call (DBClusterMembers cluster)) @
           map instance_wait_call (DBClusterMembers cluster) \<and>
         calls_succeeded c
           ((tr @ [Call_DescribeDBClusters (ValueString (ClusterIdentifier_NR (Get_data reqN)))]) @
            map neptune_reboot_call (DBClusterMembers cluster))
           (map instance_wait_call (DBClusterMembers cluster)))) \<and>
   (\<forall>m. saved (snd (NeptuneReboot_Update e reqN tr)) = Some m \<longrightarrow>
      (\<exists>c cluster others.
         region_client e (Region_NR (Get_data reqN)) (Get_diags reqN) = Inr c \<and>
         DescribeDBClusters c tr (ValueString (ClusterIdentifier_NR (Get_data reqN))) = Inr (cluster # others) \<and>
         fst (NeptuneReboot_Update e reqN tr) =
           ((tr @ [Call_DescribeDBClusters (ValueString (ClusterIdentifier_NR (Get_data reqN)))]) @
            map neptune_reboot_call (DBClusterMembers cluster)) @
           map instance_wait_call (DBClusterMembers cluster) \<and>
         calls_succeeded c
           ((tr @ [Call_DescribeDBClusters (ValueString (ClusterIdentifier_NR (Get_data reqN)))]) @
            map neptune_reboot_call (DBClusterMembers cluster))
           (map instance_wait_call (DBClusterMembers cluster)))) \<and>
   (\<forall>m. saved (snd (AuroraModify_Create E e reqB tr)) = Some m \<longrightarrow>
      (\<exists>c. region_client e (Region_AM (Get_data reqB)) (Get_diags reqB) = Inr c \<and>
         fst (AuroraModify_Create E e reqB tr) =
           tr @ [Call_ModifyDBCluster (modify_input_AM E (Get_data reqB)),
                 Call_DBClusterAvailableWaiter_Wait (ValueString (ClusterIdentifier_AM (Get_data reqB))) 30] \<and>
         ModifyDBCluster c tr (modify_input_AM E (Get_data reqB)) = None \<and>
         DBClusterAvailableWaiter_Wait c (tr @ [Call_ModifyDBCluster (modify_input_AM E (Get_data reqB))])
           (ValueString (ClusterIdentifier_AM (Get_data reqB))) 30 = None)) \<and>
   (\<forall>m. saved (snd (AuroraModify_Update E e reqB tr)) = Some m \<longrightarrow>
      (\<exists>c. region_client e (Region_AM (Get_data reqB)) (Get_diags reqB) = Inr c \<and>
         fst (AuroraModify_Update E e reqB tr) =
           tr @ [Call_ModifyDBCluster (modify_input_AM E (Get_data reqB)),
                 Call_DBClusterAvailableWaiter_Wait (ValueString (ClusterIdentifier_AM (Get_data reqB))) 30] \<and>
         ModifyDBCluster c tr (modify_input_AM E (Get_data reqB)) = None \<and>
         DBClusterAvailableWaiter_Wait c (tr @ [Call_ModifyDBCluster (modify_input_AM E (Get_data reqB))])
           (ValueString (ClusterIdentifier_AM (Get_data reqB))) 30 = None))"
proof -
  have old: "MutationOutcome_ok LastRebootTime e
     (region_client e (Region (Get_data reqA)) (Get_diags reqA)) tr (AuroraReboot_Create e reqA tr) \<and>
   MutationOutcome_ok LastRebootTime e
     (region_client e (Region (Get_data reqA)) (Get_diags reqA)) tr (AuroraReboot_Update e reqA tr) \<and>
   MutationOutcome_ok LastRebootTime_NR e
     (region_client e (Region_NR (Get_data reqN)) (Get_diags reqN)) tr (NeptuneReboot_Create e reqN tr) \<and>
   MutationOutcome_ok LastRebootTime_NR e
     (region_client e (Region_NR (Get_data reqN)) (Get_diags reqN)) tr (NeptuneReboot_Update e reqN tr) \<and>
   MutationOutcome_ok LastModifiedTime e
     (region_client e (Region_NM (Get_data reqM)) (Get_diags reqM)) tr (NeptuneModify_Create E e reqM tr) \<and>
   MutationOutcome_ok LastModifiedTime e
     (region_client e (Region_NM (Get_data reqM)) (Get_diags reqM)) tr (NeptuneModify_Update E e reqM tr) \<and>
   (\<forall>m. saved (snd (NeptuneModify_Create E e reqM tr)) = Some m \<longrightarrow>
      (\<exists>c. region_client e (Region_NM (Get_data reqM)) (Get_diags reqM) = Inr c \<and>
           poll_succeeded c (ValueString (ClusterIdentifier_NM (Get_data reqM)))
             (fst (NeptuneModify_Create E e reqM tr)))) \<and>
   (\<forall>m. saved (snd (NeptuneModify_Update E e reqM tr)) = Some m \<longrightarrow>
      (\<exists>c. region_client e (Region_NM (Get_data reqM)) (Get_diags reqM) = Inr c \<and>
           poll_succeeded c (ValueString (ClusterIdentifier_NM (Get_data reqM)))
             (fst (NeptuneModify_Update E e reqM tr)))) \<and>
   MutationOutcome_ok LastModifiedTime_AM e
     (region_client e (Region_AM (Get_data reqB)) (Get_diags reqB)) tr (AuroraModify_Create E e reqB tr) \<and>
   MutationOutcome_ok LastModifiedTime_AM e
     (region_client e (Region_AM (Get_data reqB)) (Get_diags reqB)) tr (AuroraModify_Update E e reqB tr)"
    using AuroraReboot_Create_outcome[of e reqA tr] AuroraReboot_Update_outcome[of e reqA tr]
      NeptuneReboot_Create_outcome[of e reqN tr] NeptuneReboot_Update_outcome[of e reqN tr]
      NeptuneModify_ops_outcome[of NeptuneModify_Create e reqM tr E]
      NeptuneModify_ops_outcome[of NeptuneModify_Update e reqM tr E]
      AuroraModify_ops_outcome[of AuroraModify_Create e reqB tr E]
      AuroraModify_ops_outcome[of AuroraModify_Update e reqB tr E]
    by simp
  have a1: "(\<forall>m. saved (snd (AuroraReboot_Create e reqA tr)) = Some m \<longrightarrow>
      (\<exists>c cluster others xs.
         region_client e (Region (Get_data reqA)) (Get_diags reqA) = Inr c \<and>
         DescribeDBClusters c tr (ValueString (ClusterIdentifier (Get_data reqA))) = Inr (cluster # others) \<and>
         (xs = map (aurora_reboot_call (length (DBClusterMembers cluster)) (ForceFailover (Get_data reqA)))
                 (DBClusterMembers cluster) \<or>
          (\<exists>r target. first_reader (DBClusterMembers cluster) = Some r \<and>
             DBInstanceIdentifier r = Some target \<and>
             xs = [Call_FailoverDBCluster (ValueString (ClusterIdentifier (Get_data reqA))) target])) \<and>
         fst (AuroraReboot_Create e reqA tr) =
           ((tr @ [Call_DescribeDBClusters (ValueString (ClusterIdentifier (Get_data reqA)))]) @ xs) @
           [Call_DBClusterAvailableWaiter_Wait (ValueString (ClusterIdentifier (Get_data reqA))) 30] \<and>
         DBClusterAvailableWaiter_Wait c
           ((tr @ [Call_DescribeDBClusters (ValueString (ClusterIdentifier (Get_data reqA)))]) @ xs)
           (ValueString (ClusterIdentifier (Get_data reqA))) 30 = None))"
    using AuroraReboot_ops_saved[of AuroraReboot_Create e reqA tr] by blast
  have a2: "(\<forall>m. saved (snd (AuroraReboot_Update e reqA tr)) = Some m \<longrightarrow>
      (\<exists>c cluster others xs.
         region_client e (Region (Get_data reqA)) (Get_diags reqA) = Inr c \<and>
         DescribeDBClusters c tr (ValueString (ClusterIdentifier (Get_data reqA))) = Inr (cluster # others) \<and>
         (xs = map (aurora_reboot_call (length (DBClusterMembers cluster)) (ForceFailover (Get_data reqA)))
                 (DBClusterMembers cluster) \<or>
          (\<exists>r target. first_reader (DBClusterMembers cluster) = Some r \<and>
             DBInstanceIdentifier r = Some target \<and>
             xs = [Call_FailoverDBCluster (ValueString (ClusterIdentifier (Get_data reqA))) target])) \<and>
         fst (AuroraReboot_Update e reqA tr) =
           ((tr @ [Call_DescribeDBClusters (ValueString (ClusterIdentifier (Get_data reqA)))]) @ xs) @
           [Call_DBClusterAvailableWaiter_Wait (ValueString (ClusterIdentifier (Get_data reqA))) 30] \<and>
         DBClusterAvailableWaiter_Wait c
           ((tr @ [Call_DescribeDBClusters (ValueString (ClusterIdentifier (Get_data reqA)))]) @ xs)
           (ValueString (ClusterIdentifier (Get_data reqA))) 30 = None))"
    using AuroraReboot_ops_saved[of AuroraReboot_Update e reqA tr] by blast
  have n1: "(\<forall>m. saved (snd (NeptuneReboot_Create e reqN tr)) = Some m \<longrightarrow>
      (\<exists>c cluster others.
         region_client e (Region_NR (Get_data reqN)) (Get_diags reqN) = Inr c \<and>
         DescribeDBClusters c tr (ValueString (ClusterIdentifier_NR (Get_data reqN))) = Inr (cluster # others) \<and>
         DBClusterMembers cluster \<noteq> [] \<and>
         fst (NeptuneReboot_Create e reqN tr) =
           ((tr @ [Call_DescribeDBClusters (ValueString (ClusterIdentifier_NR (Get_data reqN)))]) @
            map neptune_reboot_call (DBClusterMembers cluster)) @
           map instance_wait_call (DBClusterMembers cluster) \<and>
         calls_succeeded c
           ((tr @ [Call_DescribeDBClusters (ValueString (ClusterIdentifier_NR (Get_data reqN)))]) @
            map neptune_reboot_call (DBClusterMembers cluster))
           (map instance_wait_call (DBClusterMembers cluster))))"
    using NeptuneReboot_Create_saved[of e reqN tr] by blast
  have n2: "(\<forall>m. saved (snd (NeptuneReboot_Update e reqN tr)) = Some m \<longrightarrow>
      (\<exists>c cluster others.
         region_client e (Region_NR (Get_data reqN)) (Get_diags reqN) = Inr c \<and>
         DescribeDBClusters c tr (ValueString (ClusterIdentifier_NR (Get_data reqN))) = Inr (cluster # others) \<and>
         fst (NeptuneReboot_Update e reqN tr) =
           ((tr @ [Call_DescribeDBClusters (ValueString (ClusterIdentifier_NR (Get_data reqN)))]) @
            map neptune_reboot_call (DBClusterMembers cluster)) @
           map instance_wait_call (DBClusterMembers cluster) \<and>
         calls_succeeded c
           ((tr @ [Call_DescribeDBClusters (ValueString (ClusterIdentifier_NR (Get_data reqN)))]) @
            map neptune_reboot_call (DBClusterMembers cluster))
           (map instance_wait_call (DBClusterMembers cluster))))"
    using NeptuneReboot_Update_saved[of e reqN tr] by blast
  have b1: "(\<forall>m. saved (snd (AuroraModify_Create E e reqB tr)) = Some m \<longrightarrow>
      (\<exists>c. region_client e (Region_AM (Get_data reqB)) (Get_diags reqB) = Inr c \<and>
         fst (AuroraModify_Create E e reqB tr) =
           tr @ [Call_ModifyDBCluster (modify_input_AM E (Get_data reqB)),
                 Call_DBClusterAvailableWaiter_Wait (ValueString (ClusterIdentifier_AM (Get_data reqB))) 30] \<and>
         ModifyDBCluster c tr (modify_input_AM E (Get_data reqB)) = None \<and>
         DBClusterAvailableWaiter_Wait c (tr @ [Call_ModifyDBCluster (modify_input_AM E (Get_data reqB))])
           (ValueString (ClusterIdentifier_AM (Get_data reqB))) 30 = None))"
    using AuroraModify_ops_saved[of AuroraModify_Create E e reqB tr] by blast
  have b2: "(\<forall>m. saved (snd (AuroraModify_Update E e reqB tr)) = Some m \<longrightarrow>
      (\<exists>c. region_client e (Region_AM (Get_data reqB)) (Get_diags reqB) = Inr c \<and>
         fst (AuroraModify_Update E e reqB tr) =
           tr @ [Call_ModifyDBCluster (modify_input_AM E (Get_data reqB)),
                 Call_DBClusterAvailableWaiter_Wait (ValueString (ClusterIdentifier_AM (Get_data reqB))) 30] \<and>
         ModifyDBCluster c tr (modify_input_AM E (Get_data reqB)) = None \<and>
         DBClusterAvailableWaiter_Wait c (tr @ [Call_ModifyDBCluster (modify_input_AM E (Get_data reqB))])
           (ValueString (ClusterIdentifier_AM (Get_data reqB))) 30 = None))"
    using AuroraModify_ops_saved[of AuroraModify_Update E e reqB tr] by blast
  show ?thesis
    by (rule
      conjI[OF old[THEN conjunct1] conjI[OF old[THEN conjunct2, THEN conjunct1] conjI[OF
      old[THEN conjunct2, THEN conjunct2, THEN conjunct1] conjI[OF old[THEN conjunct2, THEN
      conjunct2, THEN conjunct2, THEN conjunct1] conjI[OF old[THEN conjunct2, THEN conjunct2,
      THEN conjunct2, THEN conjunct2, THEN conjunct1] conjI[OF old[THEN conjunct2, THEN
      conjunct2, THEN conjunct2, THEN conjunct2, THEN conjunct2, THEN conjunct1] conjI[OF
      old[THEN conjunct2, THEN conjunct2, THEN conjunct2, THEN conjunct2, THEN conjunct2, THEN
      conjunct2, THEN conjunct1] conjI[OF old[THEN conjunct2, THEN conjunct2, THEN conjunct2,
      THEN conjunct2, THEN conjunct2, THEN conjunct2, THEN conjunct2, THEN conjunct1] conjI[OF
      old[THEN conjunct2, THEN conjunct2, THEN conjunct2, THEN conjunct2, THEN conjunct2, THEN
      conjunct2, THEN conjunct2, THEN conjunct2, THEN conjunct1] conjI[OF old[THEN conjunct2,
      THEN conjunct2, THEN conjunct2, THEN conjunct2, THEN conjunct2, THEN conjunct2, THEN
      conjunct2, THEN conjunct2, THEN conjunct2] conjI[OF a1 conjI[OF a2 conjI[OF n1 conjI[OF n2
      conjI[OF b1 b2]]]]]]]]]]]]]]])
qed

theorem outcome_invariant_witness:
  "MutationOutcome_ok LastRebootTime (example_env (example_client db1_members [] []))
     (Inr (example_client db1_members [] [])) []
     (AuroraReboot_Create (example_env (example_client db1_members [] []))
        (aurora_request ''db-1'' (BoolValue True)) []) \<and>
   saved (snd (AuroraReboot_Create (example_env (example_client db1_members [] []))
                 (aurora_request ''db-1'' (BoolValue True)) [])) =
     Some \<lparr>ClusterIdentifier = StringValue ''db-1'', Region = StringNull,
            ForceFailover = BoolValue True,
            LastRebootTime = StringValue ''2026-10-30T12:00:00Z'',
            ID = StringValue ''db-1''\<rparr> \<and>
   poll_succeeded (polling_client 5) ''np-1''
     (fst (NeptuneModify_Create example_ElementsAs (example_env (polling_client 5))
             (modify_request ''np-1'') [])) \<and>
   last (fst (AuroraReboot_Create (example_env (example_client db1_members [] []))
                (aurora_request ''db-1'' (BoolValue True)) [])) =
     Call_DBClusterAvailableWaiter_Wait ''db-1'' 30 \<and>
   fst (NeptuneReboot_Create (example_env (example_client db1_members [] []))
          (neptune_request ''db-1'') []) =
     [Call_DescribeDBClusters ''db-1'', Call_RebootDBInstance ''db-1-a'' None,
      Call_RebootDBInstance ''db-1-b'' None, Call_DBInstanceAvailableWaiter_Wait ''db-1-a'' 30,
      Call_DBInstanceAvailableWaiter_Wait ''db-1-b'' 30] \<and>
   fst (AuroraModify_Create example_ElementsAs (example_env (example_client db1_members [] []))
          \<lparr>Get_diags = [],
         Get_data = \<lparr>ClusterIdentifier_AM = StringValue ''db-1'', Region_AM = StringNull,
                     ParameterGroupName = StringValue ''pg-1'', CloudWatchLogsExports_AM = ListNull,
                     ApplyImmediately_AM = BoolValue True, LastModifiedTime_AM = StringUnknown,
                     ID_AM = StringUnknown\<rparr>\<rparr> []) =
     [Call_ModifyDBCluster
        \<lparr>Input_DBClusterIdentifier = ''db-1'', Input_DBClusterParameterGroupName = Some ''pg-1'',
          Input_EnableLogTypes = None, Input_ApplyImmediately = Some True\<rparr>,
      Call_DBClusterAvailableWaiter_Wait ''db-1'' 30]"
proof -
  let ?c = "example_client db1_members [] []"
  let ?reqA = "aurora_request ''db-1'' (BoolValue True)"
  let ?reqN = "neptune_request ''db-1''"
  let ?reqM = "modify_request ''np-1''"
  let ?E = example_ElementsAs
  let ?p = "polling_client 5"
  have clA: "region_client (example_env ?c) (Region (Get_data ?reqA)) (Get_diags ?reqA) = Inr ?c"
    by (simp add: example_defs eval_defs)
  have clM: "region_client (example_env ?p) (Region_NM (Get_data ?reqM)) (Get_diags ?reqM) = Inr ?p"
    by (simp add: example_env_def modify_request_def region_client_def)
  have cid: "ValueString (ClusterIdentifier_NM (Get_data ?reqM)) = ''np-1''"
    by (simp add: example_defs)
  have a: "MutationOutcome_ok LastRebootTime (example_env ?c) (Inr ?c) []
             (AuroraReboot_Create (example_env ?c) ?reqA [])"
    using outcome_invariant[where e = "example_env ?c" and reqA = ?reqA and tr = "[]", THEN conjunct1]
    by (simp only: clA)
  have b: "saved (snd (AuroraReboot_Create (example_env ?c) ?reqA [])) =
     Some \<lparr>ClusterIdentifier = StringValue ''db-1'', Region = StringNull,
            ForceFailover = BoolValue True,
            LastRebootTime = StringValue ''2026-10-30T12:00:00Z'',
            ID = StringValue ''db-1''\<rparr>"
    by (simp add: model_defs eval_defs Format_RFC3339_example)
       (simp add: example_defs model_defs eval_defs)
  have s: "saved (snd (NeptuneModify_Create ?E (example_env ?p) ?reqM [])) =
     Some ((Get_data ?reqM)\<lparr>LastModifiedTime := StringValue ''2026-10-30T12:00:00Z'',
                              ID_NM := StringValue ''np-1''\<rparr>)"
    by (simp add: model_defs eval_defs Format_RFC3339_example)
       (simp add: example_defs model_defs eval_defs poll_available.simps maxAttempts_def)
  from outcome_invariant[where e = "example_env ?p" and reqM = ?reqM and tr = "[]" and E = ?E,
      THEN conjunct2, THEN conjunct2, THEN conjunct2, THEN conjunct2, THEN conjunct2,
      THEN conjunct2, THEN conjunct1, THEN spec, THEN mp, OF s]
  have c: "poll_succeeded ?p ''np-1'' (fst (NeptuneModify_Create ?E (example_env ?p) ?reqM []))"
    by (simp add: clM cid)
  let ?reqB = "\<lparr>Get_diags = [],
         Get_data = \<lparr>ClusterIdentifier_AM = StringValue ''db-1'', Region_AM = StringNull,
                     ParameterGroupName = StringValue ''pg-1'', CloudWatchLogsExports_AM = ListNull,
                     ApplyImmediately_AM = BoolValue True, LastModifiedTime_AM = StringUnknown,
                     ID_AM = StringUnknown\<rparr>\<rparr>"
  from outcome_invariant[where e = "example_env ?c" and reqA = ?reqA and tr = "[]",
      THEN conjunct2, THEN conjunct2, THEN conjunct2, THEN conjunct2, THEN conjunct2,
      THEN conjunct2, THEN conjunct2, THEN conjunct2, THEN conjunct2, THEN conjunct2,
      THEN conjunct1, THEN spec, THEN mp, OF b]
  obtain xs where "fst (AuroraReboot_Create (example_env ?c) ?reqA []) =
      (([] @ [Call_DescribeDBClusters (ValueString (ClusterIdentifier (Get_data ?reqA)))]) @ xs) @
      [Call_DBClusterAvailableWaiter_Wait (ValueString (ClusterIdentifier (Get_data ?reqA))) 30]"
    by blast
  then have d: "last (fst (AuroraReboot_Create (example_env ?c) ?reqA [])) =
      Call_DBClusterAvailableWaiter_Wait ''db-1'' 30"
    by (simp add: aurora_request_def)
  have clN: "region_client (example_env ?c) (Region_NR (Get_data ?reqN)) (Get_diags ?reqN) = Inr ?c"
    by (simp add: example_defs eval_defs)
  have sN: "saved (snd (NeptuneReboot_Create (example_env ?c) ?reqN [])) =
     Some ((Get_data ?reqN)\<lparr>LastRebootTime_NR := StringValue ''2026-10-30T12:00:00Z'',
                              ID_NR := StringValue ''db-1''\<rparr>)"
    by (simp add: model_defs eval_defs Format_RFC3339_example)
       (simp add: example_defs model_defs eval_defs)
  from outcome_invariant[where e = "example_env ?c" and reqN = ?reqN and tr = "[]",
      THEN conjunct2, THEN conjunct2, THEN conjunct2, THEN conjunct2, THEN conjunct2,
      THEN conjunct2, THEN conjunct2, THEN conjunct2, THEN conjunct2, THEN conjunct2,
      THEN conjunct2, THEN conjunct2, THEN conjunct1, THEN spec, THEN mp, OF sN]
  obtain c' cluster others where
    "region_client (example_env ?c) (Region_NR (Get_data ?reqN)) (Get_diags ?reqN) = Inr c'"
    "DescribeDBClusters c' [] (ValueString (ClusterIdentifier_NR (Get_data ?reqN))) = Inr (cluster # others)"
    "fst (NeptuneReboot_Create (example_env ?c) ?reqN []) =
       (([] @ [Call_DescribeDBClusters (ValueString (ClusterIdentifier_NR (Get_data ?reqN)))]) @
        map neptune_reboot_call (DBClusterMembers cluster)) @
       map instance_wait_call (DBClusterMembers cluster)"
    by blast
  then have f: "fst (NeptuneReboot_Create (example_env ?c) ?reqN []) =
     [Call_DescribeDBClusters ''db-1'', Call_RebootDBInstance ''db-1-a'' None,
      Call_RebootDBInstance ''db-1-b'' None, Call_DBInstanceAvailableWaiter_Wait ''db-1-a'' 30,
      Call_DBInstanceAvailableWaiter_Wait ''db-1-b'' 30]"
    unfolding clN by (auto simp: example_defs eval_defs)
  have sB: "saved (snd (AuroraModify_Create ?E (example_env ?c) ?reqB [])) =
     Some ((Get_data ?reqB)\<lparr>LastModifiedTime_AM := StringValue ''2026-10-30T12:00:00Z'',
                              ID_AM := StringValue ''db-1''\<rparr>)"
    by (simp add: AuroraModify_Create_def AuroraModify_modify_def logs_diags_AM_def
          model_defs eval_defs Format_RFC3339_example)
       (simp add: example_defs AuroraModify_Create_def AuroraModify_modify_def logs_diags_AM_def
          model_defs eval_defs)
  from outcome_invariant[where e = "example_env ?c" and reqB = ?reqB and tr = "[]" and E = ?E,
      THEN conjunct2, THEN conjunct2, THEN conjunct2, THEN conjunct2, THEN conjunct2,
      THEN conjunct2, THEN conjunct2, THEN conjunct2, THEN conjunct2, THEN conjunct2,
      THEN conjunct2, THEN conjunct2, THEN conjunct2, THEN conjunct2, THEN conjunct1,
      THEN spec, THEN mp, OF sB]
  have g: "fst (AuroraModify_Create ?E (example_env ?c) ?reqB []) =
     [Call_ModifyDBCluster
        \<lparr>Input_DBClusterIdentifier = ''db-1'', Input_DBClusterParameterGroupName = Some ''pg-1'',
          Input_EnableLogTypes = None, Input_ApplyImmediately = Some True\<rparr>,
      Call_DBClusterAvailableWaiter_Wait ''db-1'' 30]"
    by (auto simp: modify_input_AM_def example_defs)
  from a b c d f g show ?thesis by simp
qed

end
